theory Spec2Isabelle
  imports Main "HOL-Library.List_Lexorder" "HOL-Library.Char_ord"
begin

section \<open>JavaScript values, thrown values and the observable trace\<close>

text \<open>
  The server is JavaScript. Values that cross the request boundary are JSON-like; an
  object is an association list of its own properties in insertion order. Strings are
  lists of code units below 256.
\<close>

datatype jsval =
    JUndefined
  | JNull
  | JBool bool
  | JNum int
  | JStr string
  | JArr "jsval list"
  | JObj "(string \<times> jsval) list"

text \<open>
  What a \<^verbatim>\<open>throw\<close> (or a rejected promise) carries: an instance of \<^verbatim>\<open>Error\<close> or of one
  of its subclasses, each with its message, or a value that is no \<^verbatim>\<open>Error\<close> at all.
  \<open>Unmodelled\<close> is no JavaScript value: it marks a computation that leaves the modelled
  fragment of the language (a resource template outside the regular expressions of
  section "URI templates").
\<close>

datatype thrown =
    Error string
  | ZodError string
  | ReferenceError string
  | TypeError string
  | CircuitOpenError string
  | NonError jsval
  | Unmodelled string

text \<open>
  The logger (\<^verbatim>\<open>utils/logger.js\<close>) and the component store (\<^verbatim>\<open>utils/file-reader.js\<close>) are
  collaborators outside the sources. Every call to them is recorded, in order, in a
  trace, so that "was logged" and "was never invoked" are statements about the trace.
\<close>

datatype event =
    LogInfo string
  | LogInfoParams string jsval
  | LogError string thrown
  | Invoke string "jsval list"

type_synonym trace = "event list"

text \<open>
  An asynchronous computation that is awaited: it extends the trace and either resolves
  to a value (\<open>Inr\<close>) or rejects with a thrown value (\<open>Inl\<close>).
\<close>

type_synonym ('a, 's) jsm = "'s \<Rightarrow> (thrown + 'a) \<times> 's"

type_synonym 'a js = "('a, trace) jsm"

text \<open>
  \<^verbatim>\<open>return\<close>, \<^verbatim>\<open>throw\<close>, sequencing of awaited steps (a rejection skips the rest), and
  \<^verbatim>\<open>try { ... } catch (error) { ... }\<close>.
\<close>

definition js_return :: "'a \<Rightarrow> ('a, 's) jsm" where
  "js_return x = (\<lambda>s. (Inr x, s))"

definition js_throw :: "thrown \<Rightarrow> ('a, 's) jsm" where
  "js_throw e = (\<lambda>s. (Inl e, s))"

definition js_bind :: "('a, 's) jsm \<Rightarrow> ('a \<Rightarrow> ('b, 's) jsm) \<Rightarrow> ('b, 's) jsm" where
  "js_bind m f = (\<lambda>s. case m s of (Inl e, s') \<Rightarrow> (Inl e, s') | (Inr x, s') \<Rightarrow> f x s')"

definition js_try :: "('a, 's) jsm \<Rightarrow> (thrown \<Rightarrow> ('a, 's) jsm) \<Rightarrow> ('a, 's) jsm" where
  "js_try m h = (\<lambda>s. case m s of (Inl e, s') \<Rightarrow> h e s' | (Inr x, s') \<Rightarrow> (Inr x, s'))"

text \<open>A step that touches no state: it yields its value or throws.\<close>

definition js_of :: "thrown + 'a \<Rightarrow> ('a, 's) jsm" where
  "js_of r = (\<lambda>s. (r, s))"

definition emit :: "event \<Rightarrow> unit js" where
  "emit ev = (\<lambda>tr. (Inr (), tr @ [ev]))"

definition logInfo :: "string \<Rightarrow> unit js" where
  "logInfo msg = emit (LogInfo msg)"

definition logError :: "string \<Rightarrow> thrown \<Rightarrow> unit js" where
  "logError msg e = emit (LogError msg e)"

section \<open>Circuit breaker\<close>

text \<open>
  Modelled from the spec: \<^verbatim>\<open>utils/circuit-breaker.js\<close> (the object \<^verbatim>\<open>circuitBreakers.external\<close>
  and its method \<^verbatim>\<open>execute\<close>) is imported by the dispatcher but is not among the sources.
  The state record and the three-state policy follow sections 3 and 4.1 of the
  specification. One reading of the clock (\<open>now\<close>) is taken per call. The spec names
  only the kind of the rejection, so its message is fixed here and nothing depends on it.
  An Open breaker without a recorded opening time has no elapsed time and stays Open.
\<close>

datatype cb_status = Closed | Open | HalfOpen

record CircuitBreakerState =
  status :: cb_status
  consecutiveFailures :: nat
  openedAt :: "int option"
  failureThreshold :: nat
  resetTimeout :: int

definition circuit_open_message :: string where
  "circuit_open_message = ''Circuit breaker is open''"

text \<open>
  Modelled from the spec: in the Open state, if \<open>now - openedAt \<ge> resetTimeout\<close>, the breaker
  moves to HalfOpen before the call is evaluated (\<open>timeout_elapsed\<close> is that test, \<open>probe\<close>
  the move).
\<close>

definition timeout_elapsed :: "CircuitBreakerState \<Rightarrow> int \<Rightarrow> bool" where
  "timeout_elapsed b now =
     (case openedAt b of None \<Rightarrow> False | Some t \<Rightarrow> resetTimeout b \<le> now - t)"

definition probe :: "CircuitBreakerState \<Rightarrow> int \<Rightarrow> CircuitBreakerState" where
  "probe b now =
     (if status b = Open \<and> timeout_elapsed b now then b\<lparr>status := HalfOpen\<rparr> else b)"

text \<open>
  Modelled from the spec: in the Closed state a success resets the count; in the HalfOpen
  state a success closes the breaker and resets the count.
\<close>

definition on_success :: "CircuitBreakerState \<Rightarrow> CircuitBreakerState" where
  "on_success b = b\<lparr>status := Closed, consecutiveFailures := 0\<rparr>"

text \<open>
  Modelled from the spec: in the Closed state a failure increments the count, and opens
  the breaker (recording the time) when the count reaches the threshold; in the HalfOpen
  state a failure reopens the breaker and restarts the timer.
\<close>

definition on_failure :: "CircuitBreakerState \<Rightarrow> int \<Rightarrow> CircuitBreakerState" where
  "on_failure b now =
     (case status b of
        HalfOpen \<Rightarrow> b\<lparr>status := Open, openedAt := Some now\<rparr>
      | _ \<Rightarrow>
         (if failureThreshold b \<le> Suc (consecutiveFailures b)
          then b\<lparr>status := Open, consecutiveFailures := Suc (consecutiveFailures b),
                 openedAt := Some now\<rparr>
          else b\<lparr>consecutiveFailures := Suc (consecutiveFailures b)\<rparr>))"

text \<open>
  Modelled from the spec: \<^verbatim>\<open>execute(call)\<close>. When the state is Open the call is rejected
  with \<open>CircuitOpenError\<close> and the thunk is not run; otherwise the thunk is run once, its
  result or its failure is passed on unchanged, and the state is updated once.
\<close>

definition execute ::
  "CircuitBreakerState \<Rightarrow> int \<Rightarrow> 'a js \<Rightarrow> trace \<Rightarrow> (thrown + 'a) \<times> CircuitBreakerState \<times> trace"
where
  "execute b now call tr =
     (if status (probe b now) = Open
      then (Inl (CircuitOpenError circuit_open_message), probe b now, tr)
      else (case call tr of
              (Inr v, tr') \<Rightarrow> (Inr v, on_success (probe b now), tr')
            | (Inl e, tr') \<Rightarrow> (Inl e, on_failure (probe b now) now, tr')))"

text \<open>A sequence of calls through the same breaker, each at its own time; the results are dropped.\<close>

fun run_calls ::
  "CircuitBreakerState \<Rightarrow> (int \<times> 'a js) list \<Rightarrow> trace \<Rightarrow> CircuitBreakerState \<times> trace"
where
  "run_calls b [] tr = (b, tr)"
| "run_calls b (c # cs) tr =
     (case execute b (fst c) (snd c) tr of (r, b', tr') \<Rightarrow> run_calls b' cs tr')"

text \<open>
  Modelled from the spec: what the thunks of a sequence of calls do to the trace when each
  of them is run, in order.
\<close>

fun run_thunks :: "(int \<times> 'a js) list \<Rightarrow> trace \<Rightarrow> trace" where
  "run_thunks [] tr = tr"
| "run_thunks (c # cs) tr = run_thunks cs (snd (snd c tr))"

section \<open>URI templates as regular expressions\<close>

text \<open>
  The dispatcher turns a template into a matcher with
  \<^verbatim>\<open>new RegExp(pattern.replace(/\{[^}]+\}/g, '(.+)'))\<close> and asks \<^verbatim>\<open>regex.test(uri)\<close>.

  \<open>replace_placeholders\<close> is the \<^verbatim>\<open>replace\<close>: scanning from the left, an opening brace
  followed by a non-empty run of characters other than the closing brace and then a
  closing brace is replaced by \<^verbatim>\<open>(.+)\<close>, and the scan goes on after it; any other
  character is kept.
\<close>

function replace_placeholders :: "string \<Rightarrow> string" where
  "replace_placeholders [] = []"
| "replace_placeholders (c # cs) =
     (if c = CHR ''{'' \<and> takeWhile (\<lambda>x. x \<noteq> CHR ''}'') cs \<noteq> []
         \<and> dropWhile (\<lambda>x. x \<noteq> CHR ''}'') cs \<noteq> []
      then ''(.+)'' @ replace_placeholders (tl (dropWhile (\<lambda>x. x \<noteq> CHR ''}'') cs))
      else c # replace_placeholders cs)"
  by pat_completeness auto
termination
proof (relation "measure length")
  show "wf (measure length)" by simp
next
  fix c :: char and cs :: string
  assume "c = CHR ''{'' \<and> takeWhile (\<lambda>x. x \<noteq> CHR ''}'') cs \<noteq> []
            \<and> dropWhile (\<lambda>x. x \<noteq> CHR ''}'') cs \<noteq> []"
  have "length (tl (dropWhile (\<lambda>x. x \<noteq> CHR ''}'') cs)) \<le> length cs"
    using length_dropWhile_le [of "\<lambda>x. x \<noteq> CHR ''}''" cs] by simp
  then show "(tl (dropWhile (\<lambda>x. x \<noteq> CHR ''}'') cs), c # cs) \<in> measure length"
    by simp
next
  fix c :: char and cs :: string
  show "(cs, c # cs) \<in> measure length" by simp
qed

text \<open>
  The regular expressions that arise: a sequence of literal characters and of groups
  \<^verbatim>\<open>(.+)\<close>. \<open>compile_regex\<close> is \<^verbatim>\<open>new RegExp\<close> on this fragment. A source text that
  uses any other regular-expression syntax is outside the fragment (\<open>None\<close>).
\<close>

datatype rx_item = Lit char | Group

definition syntax_character :: "char \<Rightarrow> bool" where
  "syntax_character c = (c \<in> set (CHR 0x5C # ''^$.*+?()[]{}|''))"

function compile_regex :: "string \<Rightarrow> rx_item list option" where
  "compile_regex [] = Some []"
| "compile_regex (c # cs) =
     (if take 4 (c # cs) = ''(.+)''
      then map_option (\<lambda>r. Group # r) (compile_regex (drop 3 cs))
      else if syntax_character c then None
      else map_option (\<lambda>r. Lit c # r) (compile_regex cs))"
  by pat_completeness auto
termination
  by (relation "measure length") auto

definition template_regex :: "string \<Rightarrow> rx_item list option" where
  "template_regex pattern = compile_regex (replace_placeholders pattern)"

text \<open>The dot matches every character but a line terminator.\<close>

definition line_terminator :: "char \<Rightarrow> bool" where
  "line_terminator c = (c = CHR 0x0A \<or> c = CHR 0x0D)"

text \<open>
  A match that starts at the head of the text, with the text each group captured. A group
  is greedy: it first tries to take one more character, and gives characters back only
  when the rest of the expression does not match.
\<close>

fun match_here :: "rx_item list \<Rightarrow> string \<Rightarrow> string list option" where
  "match_here [] s = Some []"
| "match_here (Lit c # r) [] = None"
| "match_here (Lit c # r) (d # t) = (if c = d then match_here r t else None)"
| "match_here (Group # r) [] = None"
| "match_here (Group # r) (d # t) =
     (if line_terminator d then None
      else (case match_here (Group # r) t of
              Some (cap # caps) \<Rightarrow> Some ((d # cap) # caps)
            | _ \<Rightarrow> (case match_here r t of
                      Some caps \<Rightarrow> Some ([d] # caps)
                    | None \<Rightarrow> None)))"

text \<open>
  \<^verbatim>\<open>exec\<close> without the sticky or global flag: the first position of the text at which
  the expression matches. \<^verbatim>\<open>test\<close> says whether there is one.
\<close>

fun regex_exec :: "rx_item list \<Rightarrow> string \<Rightarrow> string list option" where
  "regex_exec rx [] = match_here rx []"
| "regex_exec rx (c # cs) =
     (case match_here rx (c # cs) of
        Some caps \<Rightarrow> Some caps
      | None \<Rightarrow> regex_exec rx cs)"

definition regex_test :: "rx_item list \<Rightarrow> string \<Rightarrow> bool" where
  "regex_test rx s = (regex_exec rx s \<noteq> None)"

text \<open>
  The match the specification describes, for comparison: the whole text, from its first
  character to its last, matches the expression.
\<close>

fun match_whole :: "rx_item list \<Rightarrow> string \<Rightarrow> bool" where
  "match_whole [] s = (s = [])"
| "match_whole (Lit c # r) [] = False"
| "match_whole (Lit c # r) (d # t) = (c = d \<and> match_whole r t)"
| "match_whole (Group # r) [] = False"
| "match_whole (Group # r) (d # t) =
     (\<not> line_terminator d \<and> (match_whole (Group # r) t \<or> match_whole r t))"

text \<open>The same for a template: its expression matches the URI from end to end.\<close>

definition template_matches_whole :: "string \<Rightarrow> string \<Rightarrow> bool" where
  "template_matches_whole pattern uri =
     (case template_regex pattern of Some regex \<Rightarrow> match_whole regex uri | None \<Rightarrow> False)"

section \<open>Collaborators outside the sources\<close>

text \<open>
  What the component store returns: a component is \<^verbatim>\<open>{name, category}\<close>; metadata adds
  optional fields. A property value of \<^verbatim>\<open>props\<close> is a string, or any other value, which
  the handler prints with \<^verbatim>\<open>JSON.stringify\<close>: the second case carries that text.
\<close>

record component =
  name :: string
  category :: string

datatype prop_info = PropString string | PropJson string

record metadata = component +
  description :: "string option"
  dependencies :: "string list option"
  props :: "(string \<times> prop_info) list option"
  examples :: "string list option"

text \<open>An issue of a failed schema check: the path of the offending field and the issue code.\<close>

datatype zod_issue = ZodIssue "string list" string

text \<open>
  Why the language throws a \<^verbatim>\<open>TypeError\<close> in the code modelled here: a method of
  \<^verbatim>\<open>Object.prototype\<close> is called without a receiver (module code is strict, so \<^verbatim>\<open>this\<close> is
  \<^verbatim>\<open>undefined\<close>); the value of an expression is called and is no function; an object cannot
  be converted to a primitive value.
\<close>

datatype type_error = NoReceiver string | NotAFunction string | NotPrimitive

text \<open>
  The modules the handlers import that are not among the sources are parameters of the
  model: the parameter sanitiser (\<^verbatim>\<open>utils/validation.js\<close>), the component store
  (\<^verbatim>\<open>utils/file-reader.js\<close>), the resource and prompt tables (\<^verbatim>\<open>resources.js\<close>,
  \<^verbatim>\<open>prompts.js\<close>), and the texts the schema library and the language runtime give the
  messages of their errors. A table read \<^verbatim>\<open>table[key]\<close> of an absent module is a partial
  function of the key: what the read yields, own or inherited. The template table, the
  prompt table and the \<^verbatim>\<open>props\<close> of a metadata record keep their entries in the order
  \<^verbatim>\<open>Object.entries\<close> and \<^verbatim>\<open>Object.values\<close> list them.
\<close>

record externals =
  validateAndSanitizeParams :: "string \<Rightarrow> jsval \<Rightarrow> jsval js"
  zodMessage :: "zod_issue list \<Rightarrow> string"
  typeErrorMessage :: "type_error \<Rightarrow> string"
  getComponentSource :: "string \<Rightarrow> string option js"
  getComponentDemo :: "string \<Rightarrow> string option js"
  getComponentMetadata :: "string \<Rightarrow> metadata option js"
  getAvailableComponents :: "string option \<Rightarrow> component list js"
  searchComponents :: "string \<Rightarrow> string option \<Rightarrow> component list js"
  resources :: jsval
  resourceHandlers :: "string \<Rightarrow> jsval js option"
  resourceTemplateHandlers :: "(string \<times> (string \<Rightarrow> jsval js)) list"
  prompts :: "(string \<times> jsval) list"
  promptHandlers :: "string \<Rightarrow> (jsval \<Rightarrow> jsval js) option"

section \<open>Schemas of the tool parameters\<close>

abbreviation newline :: string where
  "newline \<equiv> [CHR 0x0A]"

abbreviation dquote :: string where
  "dquote \<equiv> [CHR 0x22]"

abbreviation squote :: string where
  "squote \<equiv> [CHR 0x27]"

definition categories :: "string list" where
  "categories = [''Animations'', ''Backgrounds'', ''Components'', ''TextAnimations'']"

text \<open>Reading a property of a value: \<^verbatim>\<open>undefined\<close> when the object has no such property.\<close>

definition get_property :: "jsval \<Rightarrow> string \<Rightarrow> jsval" where
  "get_property v k =
     (case v of
        JObj fs \<Rightarrow> (case map_of fs k of Some x \<Rightarrow> x | None \<Rightarrow> JUndefined)
      | _ \<Rightarrow> JUndefined)"

text \<open>\<^verbatim>\<open>z.string()\<close> and \<^verbatim>\<open>z.enum([...]).optional()\<close> on the value of field \<open>k\<close>.\<close>

definition zod_string :: "string \<Rightarrow> jsval \<Rightarrow> zod_issue list" where
  "zod_string k v = (case v of JStr s \<Rightarrow> [] | _ \<Rightarrow> [ZodIssue [k] ''invalid_type''])"

definition zod_optional_enum :: "string list \<Rightarrow> string \<Rightarrow> jsval \<Rightarrow> zod_issue list" where
  "zod_optional_enum labels k v =
     (case v of
        JUndefined \<Rightarrow> []
      | JStr s \<Rightarrow> (if s \<in> set labels then [] else [ZodIssue [k] ''invalid_enum_value''])
      | _ \<Rightarrow> [ZodIssue [k] ''invalid_type''])"

definition zod_throw :: "externals \<Rightarrow> zod_issue list \<Rightarrow> 'a js" where
  "zod_throw ext issues = js_throw (ZodError (zodMessage ext issues))"

text \<open>
  \<^verbatim>\<open>z.object({componentName: z.string()}).parse(v)\<close>, destructured to \<^verbatim>\<open>componentName\<close>:
  the schema of \<^verbatim>\<open>get_component\<close>, \<^verbatim>\<open>get_component_demo\<close> and \<^verbatim>\<open>get_component_metadata\<close>.
\<close>

definition parse_componentName :: "externals \<Rightarrow> jsval \<Rightarrow> string js" where
  "parse_componentName ext v =
     (case v of
        JObj fs \<Rightarrow>
          (case get_property v ''componentName'' of
             JStr s \<Rightarrow> js_return s
           | x \<Rightarrow> zod_throw ext (zod_string ''componentName'' x))
      | _ \<Rightarrow> zod_throw ext [ZodIssue [] ''invalid_type''])"

text \<open>\<^verbatim>\<open>z.object({category: z.enum([...]).optional()}).parse(v)\<close>: the schema of \<^verbatim>\<open>list_components\<close>.\<close>

definition parse_category :: "externals \<Rightarrow> jsval \<Rightarrow> string option js" where
  "parse_category ext v =
     (case v of
        JObj fs \<Rightarrow>
          (case zod_optional_enum categories ''category'' (get_property v ''category'') of
             [] \<Rightarrow> js_return (case get_property v ''category'' of JStr c \<Rightarrow> Some c | _ \<Rightarrow> None)
           | issues \<Rightarrow> zod_throw ext issues)
      | _ \<Rightarrow> zod_throw ext [ZodIssue [] ''invalid_type''])"

text \<open>
  \<^verbatim>\<open>z.object({query: z.string(), category: z.enum([...]).optional()}).parse(v)\<close>: the schema
  of \<^verbatim>\<open>search_components\<close>. The issues of all fields are collected.
\<close>

definition parse_query_category :: "externals \<Rightarrow> jsval \<Rightarrow> (string \<times> string option) js" where
  "parse_query_category ext v =
     (case v of
        JObj fs \<Rightarrow>
          (case (get_property v ''query'',
                 zod_string ''query'' (get_property v ''query'')
                 @ zod_optional_enum categories ''category'' (get_property v ''category'')) of
             (JStr q, []) \<Rightarrow>
               js_return (q, case get_property v ''category'' of JStr c \<Rightarrow> Some c | _ \<Rightarrow> None)
           | (_, issues) \<Rightarrow> zod_throw ext issues)
      | _ \<Rightarrow> zod_throw ext [ZodIssue [] ''invalid_type''])"

section \<open>Tool handlers\<close>

record content_item =
  type :: string
  "text" :: string

record envelope =
  content :: "content_item list"

definition text_envelope :: "string \<Rightarrow> envelope" where
  "text_envelope t = \<lparr>content = [\<lparr>type = ''text'', text = t\<rparr>]\<rparr>"

text \<open>\<^verbatim>\<open>error instanceof Error ? error.message : 'Unknown error occurred'\<close>\<close>

definition errorMessage :: "thrown \<Rightarrow> string" where
  "errorMessage e =
     (case e of
        Error m \<Rightarrow> m
      | ZodError m \<Rightarrow> m
      | ReferenceError m \<Rightarrow> m
      | TypeError m \<Rightarrow> m
      | CircuitOpenError m \<Rightarrow> m
      | NonError v \<Rightarrow> ''Unknown error occurred''
      | Unmodelled m \<Rightarrow> m)"

text \<open>The \<^verbatim>\<open>catch\<close> block every tool handler ends with.\<close>

definition catch_to_envelope :: "string \<Rightarrow> string \<Rightarrow> thrown \<Rightarrow> envelope js" where
  "catch_to_envelope handler_name prefix e =
     js_bind (logError (''Error in '' @ handler_name) e) (\<lambda>_.
     js_return (text_envelope (prefix @ errorMessage e)))"

text \<open>A call of the component store: the call is recorded, then awaited.\<close>

definition invoke :: "string \<Rightarrow> jsval list \<Rightarrow> 'a js \<Rightarrow> 'a js" where
  "invoke f args call = js_bind (emit (Invoke f args)) (\<lambda>_. call)"

definition optional_arg :: "string option \<Rightarrow> jsval" where
  "optional_arg c = (case c of Some s \<Rightarrow> JStr s | None \<Rightarrow> JUndefined)"

text \<open>
  Every tool handler is \<^verbatim>\<open>try { ... } catch (error) { ... }\<close>. The body of the \<^verbatim>\<open>try\<close>
  block of a handler is given first, under the handler's name with the suffix \<open>_try\<close>.
\<close>

definition handleGetComponent_try :: "externals \<Rightarrow> jsval \<Rightarrow> envelope js" where
  "handleGetComponent_try ext params =
     js_bind (validateAndSanitizeParams ext ''get_component'' params) (\<lambda>validatedParams.
     js_bind (parse_componentName ext validatedParams) (\<lambda>componentName.
     js_bind (logInfo (''Getting component source for: '' @ componentName)) (\<lambda>_.
     js_bind (invoke ''getComponentSource'' [JStr componentName]
                (getComponentSource ext componentName)) (\<lambda>sourceCode.
     (case sourceCode of
        Some code \<Rightarrow>
          (if code = []
           then js_throw (Error (''Component '' @ squote @ componentName @ squote @ '' not found''))
           else js_bind (logInfo (''Successfully retrieved component source for: '' @ componentName))
                  (\<lambda>_. js_return (text_envelope code)))
      | None \<Rightarrow>
          js_throw (Error (''Component '' @ squote @ componentName @ squote @ '' not found'')))))))"

definition handleGetComponent :: "externals \<Rightarrow> jsval \<Rightarrow> envelope js" where
  "handleGetComponent ext params =
     js_try (handleGetComponent_try ext params)
       (catch_to_envelope ''handleGetComponent'' ''Error retrieving component: '')"

definition handleGetComponentDemo_try :: "externals \<Rightarrow> jsval \<Rightarrow> envelope js" where
  "handleGetComponentDemo_try ext params =
     js_bind (validateAndSanitizeParams ext ''get_component_demo'' params) (\<lambda>validatedParams.
     js_bind (parse_componentName ext validatedParams) (\<lambda>componentName.
     js_bind (logInfo (''Getting component demo for: '' @ componentName)) (\<lambda>_.
     js_bind (invoke ''getComponentDemo'' [JStr componentName]
                (getComponentDemo ext componentName)) (\<lambda>demoCode.
     (case demoCode of
        Some code \<Rightarrow>
          (if code = []
           then js_throw (Error (''Demo for component '' @ squote @ componentName @ squote
                                  @ '' not found''))
           else js_bind (logInfo (''Successfully retrieved component demo for: '' @ componentName))
                  (\<lambda>_. js_return (text_envelope code)))
      | None \<Rightarrow>
          js_throw (Error (''Demo for component '' @ squote @ componentName @ squote
                            @ '' not found'')))))))"

definition handleGetComponentDemo :: "externals \<Rightarrow> jsval \<Rightarrow> envelope js" where
  "handleGetComponentDemo ext params =
     js_try (handleGetComponentDemo_try ext params)
       (catch_to_envelope ''handleGetComponentDemo'' ''Error retrieving component demo: '')"

text \<open>Decimal digits of a number, as a template literal prints a length or an index.\<close>

function decimal :: "nat \<Rightarrow> string" where
  "decimal n =
     (if n < 10 then [char_of (48 + n)] else decimal (n div 10) @ [char_of (48 + n mod 10)])"
  by pat_completeness auto
termination
  by (relation "measure id") auto

text \<open>
  The properties every object literal inherits from \<^verbatim>\<open>Object.prototype\<close>. Reading one of
  them from an object that has no own property of that name yields a function, or for
  \<^verbatim>\<open>__proto__\<close> the prototype object: a truthy value in each case.
\<close>

definition object_prototype_names :: "string list" where
  "object_prototype_names =
     [''constructor'', ''__defineGetter__'', ''__defineSetter__'', ''hasOwnProperty'',
      ''__lookupGetter__'', ''__lookupSetter__'', ''isPrototypeOf'', ''propertyIsEnumerable'',
      ''toString'', ''valueOf'', ''__proto__'', ''toLocaleString'']"

text \<open>
  One step of the \<^verbatim>\<open>reduce\<close> that groups component names by category, on an accumulator
  that starts as \<^verbatim>\<open>{}\<close>; the accumulator is written as its own properties in the order of
  their creation. \<^verbatim>\<open>if (!acc[category]) acc[category] = []\<close> creates the group unless the
  read finds an own or an inherited value; \<^verbatim>\<open>acc[category].push(name)\<close> then appends to the
  own group, and throws when the value is an inherited one, which has no \<^verbatim>\<open>push\<close>.
\<close>

definition add_to_group ::
  "externals \<Rightarrow> (string \<times> string list) list \<Rightarrow> component \<Rightarrow> thrown + (string \<times> string list) list"
where
  "add_to_group ext acc c =
     (if category c \<in> set (map fst acc)
      then Inr (map (\<lambda>g. if fst g = category c then (fst g, snd g @ [name c]) else g) acc)
      else if category c \<in> set object_prototype_names
      then Inl (TypeError (typeErrorMessage ext (NotAFunction ''acc[component.category].push'')))
      else Inr (acc @ [(category c, [name c])]))"

fun reduce_groups ::
  "externals \<Rightarrow> (string \<times> string list) list \<Rightarrow> component list
     \<Rightarrow> thrown + (string \<times> string list) list"
where
  "reduce_groups ext acc [] = Inr acc"
| "reduce_groups ext acc (c # cs) =
     (case add_to_group ext acc c of
        Inl e \<Rightarrow> Inl e
      | Inr acc' \<Rightarrow> reduce_groups ext acc' cs)"

definition group_by_category ::
  "externals \<Rightarrow> component list \<Rightarrow> thrown + (string \<times> string list) list"
where
  "group_by_category ext cs = reduce_groups ext [] cs"

text \<open>
  \<^verbatim>\<open>Object.entries\<close> lists the property names that are array indices first, in ascending
  numeric order, and then the other names in the order of their creation. An array index
  is the canonical decimal text of a number below \<open>2^32 - 1\<close>.
\<close>

definition decimal_value :: "string \<Rightarrow> int" where
  "decimal_value s = foldl (\<lambda>n c. 10 * n + (of_char c - 48)) 0 s"

definition array_index :: "string \<Rightarrow> int option" where
  "array_index s =
     (if s \<noteq> [] \<and> list_all (\<lambda>c. c \<in> set ''0123456789'') s
         \<and> (s = ''0'' \<or> hd s \<noteq> CHR ''0'')
         \<and> decimal_value s < 4294967295
      then Some (decimal_value s) else None)"

definition object_entries :: "(string \<times> 'a) list \<Rightarrow> (string \<times> 'a) list" where
  "object_entries properties =
     sort_key (\<lambda>p. case array_index (fst p) of Some n \<Rightarrow> n | None \<Rightarrow> 0)
       (filter (\<lambda>p. array_index (fst p) \<noteq> None) properties)
     @ filter (\<lambda>p. array_index (fst p) = None) properties"

text \<open>One section of the listing: the heading, the names sorted by code units, a blank line.\<close>

definition category_section :: "string \<times> string list \<Rightarrow> string" where
  "category_section g =
     ''## '' @ fst g @ newline
     @ concat (map (\<lambda>n. ''- '' @ n @ newline) (sort (snd g)))
     @ newline"

definition handleListComponents_try :: "externals \<Rightarrow> jsval \<Rightarrow> envelope js" where
  "handleListComponents_try ext params =
     js_bind (validateAndSanitizeParams ext ''list_components'' params) (\<lambda>validatedParams.
     js_bind (parse_category ext validatedParams) (\<lambda>category.
     js_bind (logInfo (''Listing components''
                @ (case category of Some c \<Rightarrow> '' for category: '' @ c | None \<Rightarrow> []))) (\<lambda>_.
     js_bind (invoke ''getAvailableComponents'' [optional_arg category]
                (getAvailableComponents ext category)) (\<lambda>components.
     (if length components = 0
      then js_return (text_envelope
             (case category of
                Some c \<Rightarrow> ''No components found in category '' @ squote @ c @ squote
              | None \<Rightarrow> ''No components found''))
      else js_bind (js_of (group_by_category ext components)) (\<lambda>componentsByCategory.
           js_bind (logInfo (''Successfully listed '' @ decimal (length components)
                              @ '' components'')) (\<lambda>_.
           js_return (text_envelope
             (''Available React Bits Components:'' @ newline @ newline
              @ concat (map category_section (object_entries componentsByCategory))
              @ newline @ ''Total: '' @ decimal (length components) @ '' components'')))))))))"

definition handleListComponents :: "externals \<Rightarrow> jsval \<Rightarrow> envelope js" where
  "handleListComponents ext params =
     js_try (handleListComponents_try ext params)
       (catch_to_envelope ''handleListComponents'' ''Error listing components: '')"

definition handleSearchComponents_try :: "externals \<Rightarrow> jsval \<Rightarrow> envelope js" where
  "handleSearchComponents_try ext params =
     js_bind (validateAndSanitizeParams ext ''search_components'' params) (\<lambda>validatedParams.
     js_bind (parse_query_category ext validatedParams) (\<lambda>(query, category).
     js_bind (logInfo (''Searching components with query: '' @ dquote @ query @ dquote
                @ (case category of Some c \<Rightarrow> '' in category: '' @ c | None \<Rightarrow> []))) (\<lambda>_.
     js_bind (invoke ''searchComponents'' [JStr query, optional_arg category]
                (searchComponents ext query category)) (\<lambda>results.
     (if length results = 0
      then js_return (text_envelope
             (case category of
                Some c \<Rightarrow> ''No components found matching '' @ dquote @ query @ dquote
                           @ '' in category '' @ squote @ c @ squote
              | None \<Rightarrow> ''No components found matching '' @ dquote @ query @ dquote))
      else js_bind (js_of (group_by_category ext results)) (\<lambda>resultsByCategory.
           js_bind (logInfo (''Search completed: found '' @ decimal (length results)
                              @ '' components matching '' @ dquote @ query @ dquote)) (\<lambda>_.
           js_return (text_envelope
             (''Search Results for '' @ dquote @ query @ dquote @ '':'' @ newline @ newline
              @ concat (map category_section (object_entries resultsByCategory))
              @ newline @ ''Found '' @ decimal (length results) @ '' matching component''
              @ (if length results = 1 then [] else ''s''))))))))))"

definition handleSearchComponents :: "externals \<Rightarrow> jsval \<Rightarrow> envelope js" where
  "handleSearchComponents ext params =
     js_try (handleSearchComponents_try ext params)
       (catch_to_envelope ''handleSearchComponents'' ''Error searching components: '')"

text \<open>The readable text of a metadata record; an absent or empty optional field has no section.\<close>

definition prop_line :: "string \<times> prop_info \<Rightarrow> string" where
  "prop_line p =
     ''- '' @ fst p @ '': ''
     @ (case snd p of PropString s \<Rightarrow> s | PropJson j \<Rightarrow> j) @ newline"

definition metadata_text :: "metadata \<Rightarrow> string" where
  "metadata_text m =
     ''# '' @ name m @ '' Component Metadata'' @ newline @ newline
     @ ''**Category:** '' @ category m @ newline @ newline
     @ (case description m of
          Some d \<Rightarrow> (if d = [] then [] else ''**Description:** '' @ d @ newline @ newline)
        | None \<Rightarrow> [])
     @ (case dependencies m of
          Some ds \<Rightarrow>
            (if 0 < length ds
             then ''**Dependencies:**'' @ newline
                  @ concat (map (\<lambda>dep. ''- '' @ dep @ newline) ds) @ newline
             else [])
        | None \<Rightarrow> [])
     @ (case props m of
          Some ps \<Rightarrow>
            (if 0 < length ps
             then ''**Props:**'' @ newline @ concat (map prop_line ps) @ newline
             else [])
        | None \<Rightarrow> [])
     @ (case examples m of
          Some es \<Rightarrow>
            (if 0 < length es
             then ''**Examples:**'' @ newline
                  @ concat (map (\<lambda>(index, example). decimal (index + 1) @ ''. '' @ example @ newline)
                              (enumerate 0 es))
                  @ newline
             else [])
        | None \<Rightarrow> [])"

definition handleGetComponentMetadata_try :: "externals \<Rightarrow> jsval \<Rightarrow> envelope js" where
  "handleGetComponentMetadata_try ext params =
     js_bind (validateAndSanitizeParams ext ''get_component_metadata'' params) (\<lambda>validatedParams.
     js_bind (parse_componentName ext validatedParams) (\<lambda>componentName.
     js_bind (logInfo (''Getting component metadata for: '' @ componentName)) (\<lambda>_.
     js_bind (invoke ''getComponentMetadata'' [JStr componentName]
                (getComponentMetadata ext componentName)) (\<lambda>found.
     (case found of
        Some m \<Rightarrow>
          js_bind (logInfo (''Successfully retrieved component metadata for: '' @ componentName))
            (\<lambda>_. js_return (text_envelope (metadata_text m)))
      | None \<Rightarrow>
          js_throw (Error (''Metadata for component '' @ squote @ componentName @ squote
                            @ '' not found'')))))))"

definition handleGetComponentMetadata :: "externals \<Rightarrow> jsval \<Rightarrow> envelope js" where
  "handleGetComponentMetadata ext params =
     js_try (handleGetComponentMetadata_try ext params)
       (catch_to_envelope ''handleGetComponentMetadata'' ''Error retrieving component metadata: '')"

text \<open>A computation every result of which is an envelope with one text item.\<close>

definition text_results :: "envelope js \<Rightarrow> bool" where
  "text_results m = (\<forall>tr y tr'. m tr = (Inr y, tr') \<longrightarrow> (\<exists>t. y = text_envelope t))"

text \<open>The own properties of the object literal \<^verbatim>\<open>toolHandlers\<close>.\<close>

definition toolHandlers :: "externals \<Rightarrow> string \<Rightarrow> (jsval \<Rightarrow> envelope js) option" where
  "toolHandlers ext =
     map_of
       [(''get_component'', handleGetComponent ext),
        (''get_component_demo'', handleGetComponentDemo ext),
        (''list_components'', handleListComponents ext),
        (''get_component_metadata'', handleGetComponentMetadata ext),
        (''search_components'', handleSearchComponents ext)]"

text \<open>What a call made through \<^verbatim>\<open>toolHandlers\<close> returns: an envelope, or some other value.\<close>

datatype tool_value = Envelope envelope | Plain jsval

text \<open>
  Converting a value to a string fails for an object with an own property \<^verbatim>\<open>toString\<close>
  (a JSON value is never a function), and for an array that holds such a value.
\<close>

fun not_primitive :: "jsval \<Rightarrow> bool" where
  "not_primitive (JObj fs) = list_ex (\<lambda>p. fst p = ''toString'') fs"
| "not_primitive (JArr vs) = list_ex not_primitive vs"
| "not_primitive v = False"

text \<open>
  What a value that \<^verbatim>\<open>toolHandlers\<close> inherits from \<^verbatim>\<open>Object.prototype\<close> does when the
  dispatcher calls it as \<^verbatim>\<open>handler(params || {})\<close>, a plain call with a truthy argument
  and no receiver. \<^verbatim>\<open>Object(p)\<close> is \<open>p\<close> itself for an object (for a primitive, its wrapper
  object, written here as the primitive). \<^verbatim>\<open>toString\<close> names the missing receiver.
  \<^verbatim>\<open>isPrototypeOf\<close> answers \<^verbatim>\<open>false\<close> for a primitive before it looks at the receiver.
  \<^verbatim>\<open>hasOwnProperty\<close> and \<^verbatim>\<open>propertyIsEnumerable\<close> convert the argument to a property
  name first. The other methods start with the receiver, and \<^verbatim>\<open>__proto__\<close> is no function.
\<close>

definition object_prototype :: "externals \<Rightarrow> string \<Rightarrow> (jsval \<Rightarrow> tool_value js) option" where
  "object_prototype ext method =
     (if method = ''constructor'' then Some (\<lambda>p. js_return (Plain p))
      else if method = ''toString'' then Some (\<lambda>p. js_return (Plain (JStr ''[object Undefined]'')))
      else if method = ''isPrototypeOf''
      then Some (\<lambda>p. case p of
                        JObj fs \<Rightarrow> js_throw (TypeError (typeErrorMessage ext (NoReceiver method)))
                      | JArr vs \<Rightarrow> js_throw (TypeError (typeErrorMessage ext (NoReceiver method)))
                      | _ \<Rightarrow> js_return (Plain (JBool False)))
      else if method \<in> set [''hasOwnProperty'', ''propertyIsEnumerable'']
      then Some (\<lambda>p. if not_primitive p
                     then js_throw (TypeError (typeErrorMessage ext NotPrimitive))
                     else js_throw (TypeError (typeErrorMessage ext (NoReceiver method))))
      else if method \<in> set [''valueOf'', ''toLocaleString'', ''__defineGetter__'',
                             ''__defineSetter__'', ''__lookupGetter__'', ''__lookupSetter__'']
      then Some (\<lambda>p. js_throw (TypeError (typeErrorMessage ext (NoReceiver method))))
      else if method = ''__proto__''
      then Some (\<lambda>p. js_throw (TypeError (typeErrorMessage ext (NotAFunction ''handler''))))
      else None)"

text \<open>
  The read \<^verbatim>\<open>toolHandlers[name]\<close>: the own property when there is one, else what the
  object inherits. The result of an own handler is an envelope.
\<close>

definition read_toolHandlers :: "externals \<Rightarrow> string \<Rightarrow> (jsval \<Rightarrow> tool_value js) option" where
  "read_toolHandlers ext toolName =
     (case toolHandlers ext toolName of
        Some handler \<Rightarrow>
          Some (\<lambda>p. js_bind (handler p) (\<lambda>result. js_return (Envelope result)))
      | None \<Rightarrow> object_prototype ext toolName)"

section \<open>Dispatcher\<close>

text \<open>
  The only mutable state of the server: the breaker \<^verbatim>\<open>circuitBreakers.external\<close>, and the
  trace of the calls made to the logger and to the component store.
\<close>

record server_state =
  external :: CircuitBreakerState
  events :: trace

definition in_events :: "'a js \<Rightarrow> ('a, server_state) jsm" where
  "in_events m = (\<lambda>s. case m (events s) of (r, tr') \<Rightarrow> (r, s\<lparr>events := tr'\<rparr>))"

text \<open>\<^verbatim>\<open>circuitBreakers.external.execute(call)\<close>, at clock reading \<open>now\<close>.\<close>

definition external_execute :: "int \<Rightarrow> 'a js \<Rightarrow> ('a, server_state) jsm" where
  "external_execute now call =
     (\<lambda>s. case execute (external s) now call (events s) of
            (r, b', tr') \<Rightarrow> (r, \<lparr>external = b', events = tr'\<rparr>))"

text \<open>
  A request as the protocol library hands it over, already checked against the request
  schema: a resource URI, a prompt name and a tool name are strings; the arguments of a
  prompt or a tool are an object or \<^verbatim>\<open>undefined\<close>; the parameters of a listing are opaque.
\<close>

datatype request =
    ListResources jsval
  | ListResourceTemplates jsval
  | ListTools jsval
  | ReadResource string
  | ListPrompts jsval
  | GetPrompt string jsval
  | CallTool string jsval

datatype response =
    ResourcesResult jsval
  | ToolsResult "jsval list"
  | ResourceResult jsval
  | PromptsResult "jsval list"
  | PromptResult jsval
  | ToolResult tool_value

definition request_params :: "request \<Rightarrow> jsval" where
  "request_params request =
     (case request of
        ListResources params \<Rightarrow> params
      | ListResourceTemplates params \<Rightarrow> params
      | ListTools params \<Rightarrow> params
      | ReadResource uri \<Rightarrow> JObj [(''uri'', JStr uri)]
      | ListPrompts params \<Rightarrow> params
      | GetPrompt promptName args \<Rightarrow> JObj [(''name'', JStr promptName), (''arguments'', args)]
      | CallTool toolName args \<Rightarrow> JObj [(''name'', JStr toolName), (''arguments'', args)])"

definition handleRequest ::
  "string \<Rightarrow> jsval \<Rightarrow> (jsval \<Rightarrow> ('a, server_state) jsm) \<Rightarrow> ('a, server_state) jsm"
where
  "handleRequest operation params handler =
     js_try
       (js_bind (in_events (emit (LogInfoParams (''Handling '' @ operation @ '' request'') params)))
          (\<lambda>_.
        js_bind (handler params) (\<lambda>result.
        js_bind (in_events (logInfo (operation @ '' completed successfully''))) (\<lambda>_.
        js_return result))))
       (\<lambda>error.
        js_bind (in_events (logError (''Error in '' @ operation) error)) (\<lambda>_.
        js_throw error))"

text \<open>The descriptors the \<^verbatim>\<open>list_tools\<close> request returns.\<close>

definition category_property :: "string \<Rightarrow> string \<times> jsval" where
  "category_property d =
     (''category'',
      JObj [(''type'', JStr ''string''),
            (''description'', JStr d),
            (''enum'', JArr (map JStr categories))])"

definition componentName_property :: "string \<times> jsval" where
  "componentName_property =
     (''componentName'',
      JObj [(''type'', JStr ''string''),
            (''description'',
             JStr (''Name of the React Bits component (e.g., '' @ dquote @ ''AnimatedList''
                   @ dquote @ '', '' @ dquote @ ''BlobCursor'' @ dquote @ '')''))])"

definition component_category_text :: string where
  "component_category_text =
     ''Category of the component (Animations, Backgrounds, Components, TextAnimations)''"

definition filter_category_text :: string where
  "filter_category_text = ''Filter by category (Animations, Backgrounds, Components, TextAnimations)''"

definition registeredTools :: "jsval list" where
  "registeredTools =
     [JObj [(''name'', JStr ''get_component''),
            (''description'', JStr ''Get the source code for a specific React Bits component''),
            (''inputSchema'',
             JObj [(''type'', JStr ''object''),
                   (''properties'',
                    JObj [componentName_property, category_property component_category_text]),
                   (''required'', JArr [JStr ''componentName''])])],
      JObj [(''name'', JStr ''get_component_demo''),
            (''description'',
             JStr ''Get demo code illustrating how a React Bits component should be used''),
            (''inputSchema'',
             JObj [(''type'', JStr ''object''),
                   (''properties'',
                    JObj [componentName_property, category_property component_category_text]),
                   (''required'', JArr [JStr ''componentName''])])],
      JObj [(''name'', JStr ''list_components''),
            (''description'', JStr ''Get all available React Bits components''),
            (''inputSchema'',
             JObj [(''type'', JStr ''object''),
                   (''properties'', JObj [category_property filter_category_text])])],
      JObj [(''name'', JStr ''get_component_metadata''),
            (''description'', JStr ''Get metadata for a specific React Bits component''),
            (''inputSchema'',
             JObj [(''type'', JStr ''object''),
                   (''properties'',
                    JObj [componentName_property, category_property component_category_text]),
                   (''required'', JArr [JStr ''componentName''])])],
      JObj [(''name'', JStr ''search_components''),
            (''description'',
             JStr ''Search for React Bits components by name or functionality''),
            (''inputSchema'',
             JObj [(''type'', JStr ''object''),
                   (''properties'',
                    JObj [(''query'',
                           JObj [(''type'', JStr ''string''),
                                 (''description'',
                                  JStr (''Search query (e.g., '' @ dquote @ ''animation'' @ dquote
                                        @ '', '' @ dquote @ ''cursor'' @ dquote @ '', '' @ dquote
                                        @ ''text'' @ dquote @ '')''))]),
                          category_property filter_category_text]),
                   (''required'', JArr [JStr ''query''])])]]"


text \<open>
  The loop over \<^verbatim>\<open>Object.entries(resourceTemplateHandlers)\<close>: the first template whose
  expression tests true on the URI gets the URI; when the loop ends, the request throws.
\<close>

fun scan_templates :: "(string \<times> (string \<Rightarrow> jsval js)) list \<Rightarrow> string \<Rightarrow> jsval js" where
  "scan_templates [] uri = js_throw (Error (''Resource not found: '' @ uri))"
| "scan_templates (entry # rest) uri =
     (case template_regex (fst entry) of
        None \<Rightarrow> js_throw (Unmodelled (fst entry))
      | Some regex \<Rightarrow>
          (if regex_test regex uri then snd entry uri else scan_templates rest uri))"

text \<open>What the loop tests for one template.\<close>

definition template_matches :: "string \<Rightarrow> string \<Rightarrow> bool" where
  "template_matches pattern uri =
     (case template_regex pattern of Some regex \<Rightarrow> regex_test regex uri | None \<Rightarrow> False)"

definition read_resource :: "externals \<Rightarrow> string \<Rightarrow> jsval js" where
  "read_resource ext uri =
     (case resourceHandlers ext uri of
        Some resourceHandler \<Rightarrow> resourceHandler
      | None \<Rightarrow> scan_templates (resourceTemplateHandlers ext) uri)"

definition get_prompt :: "externals \<Rightarrow> string \<Rightarrow> jsval \<Rightarrow> jsval js" where
  "get_prompt ext promptName args =
     (case promptHandlers ext promptName of
        None \<Rightarrow> js_throw (Error (''Prompt not found: '' @ promptName))
      | Some promptHandler \<Rightarrow> promptHandler args)"

text \<open>What \<^verbatim>\<open>params || {}\<close> tests.\<close>

definition falsy :: "jsval \<Rightarrow> bool" where
  "falsy v =
     (case v of
        JUndefined \<Rightarrow> True
      | JNull \<Rightarrow> True
      | JBool b \<Rightarrow> b = False
      | JNum n \<Rightarrow> n = 0
      | JStr s \<Rightarrow> s = []
      | _ \<Rightarrow> False)"

definition call_tool :: "externals \<Rightarrow> int \<Rightarrow> string \<Rightarrow> jsval \<Rightarrow> (tool_value, server_state) jsm" where
  "call_tool ext now toolName params =
     (if toolName = [] then js_throw (Error ''Tool name is required'')
      else (case read_toolHandlers ext toolName of
              None \<Rightarrow> js_throw (Error (''Tool not found: '' @ toolName))
            | Some handler \<Rightarrow>
                external_execute now (handler (if falsy params then JObj [] else params))))"

text \<open>
  The request handlers \<^verbatim>\<open>setupHandlers\<close> registers, one per kind of request. The handler
  of \<^verbatim>\<open>list_resource_templates\<close> reads \<^verbatim>\<open>resourceTemplates\<close>, a name the module neither
  imports nor declares.
\<close>

definition handle :: "externals \<Rightarrow> int \<Rightarrow> request \<Rightarrow> (response, server_state) jsm" where
  "handle ext now request =
     (case request of
        ListResources params \<Rightarrow>
          handleRequest ''list_resources'' (request_params request)
            (\<lambda>_. js_return (ResourcesResult (resources ext)))
      | ListResourceTemplates params \<Rightarrow>
          handleRequest ''list_resource_templates'' (request_params request)
            (\<lambda>_. js_throw (ReferenceError ''resourceTemplates is not defined''))
      | ListTools params \<Rightarrow>
          handleRequest ''list_tools'' (request_params request)
            (\<lambda>_. js_return (ToolsResult registeredTools))
      | ReadResource uri \<Rightarrow>
          handleRequest ''read_resource'' (request_params request)
            (\<lambda>_. js_bind (in_events (read_resource ext uri)) (\<lambda>result.
                  js_return (ResourceResult result)))
      | ListPrompts params \<Rightarrow>
          handleRequest ''list_prompts'' (request_params request)
            (\<lambda>_. js_return (PromptsResult (map snd (prompts ext))))
      | GetPrompt promptName args \<Rightarrow>
          handleRequest ''get_prompt'' (request_params request)
            (\<lambda>_. js_bind (in_events (get_prompt ext promptName args)) (\<lambda>result.
                  js_return (PromptResult result)))
      | CallTool toolName args \<Rightarrow>
          handleRequest ''call_tool'' (request_params request)
            (\<lambda>_. js_bind (call_tool ext now toolName args) (\<lambda>result.
                  js_return (ToolResult result))))"

section \<open>Startup\<close>

text \<open>\<^verbatim>\<open>args.findIndex(p)\<close> and \<^verbatim>\<open>args[i]\<close>, which is \<^verbatim>\<open>undefined\<close> past the end.\<close>

fun findIndex :: "('a \<Rightarrow> bool) \<Rightarrow> 'a list \<Rightarrow> nat option" where
  "findIndex p [] = None"
| "findIndex p (x # xs) = (if p x then Some 0 else map_option Suc (findIndex p xs))"

definition element_at :: "'a list \<Rightarrow> nat \<Rightarrow> 'a option" where
  "element_at xs i = (if i < length xs then Some (xs ! i) else None)"

definition truthy_string :: "string option \<Rightarrow> bool" where
  "truthy_string v = (case v of Some s \<Rightarrow> s \<noteq> [] | None \<Rightarrow> False)"

definition help_text :: string where
  "help_text =
     newline
     @ ''React Bits MCP Server'' @ newline
     @ newline
     @ ''Usage:'' @ newline
     @ ''  npx react-bits-mcp-server [options]'' @ newline
     @ newline
     @ ''Options:'' @ newline
     @ ''  --github-api-key, -g <token>    GitHub Personal Access Token for API access'' @ newline
     @ ''  --help, -h                      Show this help message'' @ newline
     @ ''  --version, -v                   Show version information'' @ newline
     @ newline
     @ ''Examples:'' @ newline
     @ ''  npx react-bits-mcp-server'' @ newline
     @ ''  npx react-bits-mcp-server --github-api-key ghp_your_token_here'' @ newline
     @ ''  npx react-bits-mcp-server -g ghp_your_token_here'' @ newline
     @ newline
     @ ''Environment Variables:'' @ newline
     @ ''  GITHUB_PERSONAL_ACCESS_TOKEN    Alternative way to provide GitHub token'' @ newline
     @ ''  LOG_LEVEL                       Log level (debug, info, warn, error) - default: info''
     @ newline
     @ newline
     @ ''For more information, visit: https://github.com/react-bits/react-bits'' @ newline"

text \<open>
  \<^verbatim>\<open>parseArgs\<close>: \<open>args\<close> is \<^verbatim>\<open>process.argv.slice(2)\<close>, \<open>token\<close> the environment variable
  \<^verbatim>\<open>GITHUB_PERSONAL_ACCESS_TOKEN\<close>, \<open>version\<close> the version read from the package file
  (\<open>None\<close> when reading it fails). \<open>Inl\<close> is \<^verbatim>\<open>process.exit\<close> after printing: the text
  printed and the exit code. \<open>Inr\<close> is the returned \<^verbatim>\<open>githubApiKey\<close> (\<open>None\<close> for \<^verbatim>\<open>null\<close>).
\<close>

definition parseArgs ::
  "string list \<Rightarrow> string option \<Rightarrow> string option \<Rightarrow> (string \<times> nat) + string option"
where
  "parseArgs args token version =
     (if ''--help'' \<in> set args \<or> ''-h'' \<in> set args then Inl (help_text, 0)
      else if ''--version'' \<in> set args \<or> ''-v'' \<in> set args
      then Inl (''react-bits-mcp-server v''
                @ (case version of Some v \<Rightarrow> v | None \<Rightarrow> ''1.0.0''), 0)
      else (case findIndex (\<lambda>arg. arg = ''--github-api-key'' \<or> arg = ''-g'') args of
              Some githubApiKeyIndex \<Rightarrow>
                (if truthy_string (element_at args (githubApiKeyIndex + 1))
                 then Inr (element_at args (githubApiKeyIndex + 1))
                 else if truthy_string token then Inr token
                 else Inr None)
            | None \<Rightarrow> (if truthy_string token then Inr token else Inr None)))"

text \<open>
  \<^verbatim>\<open>main\<close>: the process either exits (text printed, exit code) or serves requests with the
  handlers \<^verbatim>\<open>setupHandlers\<close> registered. The server constructor is given constant metadata,
  and the protocol library's constructor and transport are taken to succeed.
\<close>

datatype startup =
    Exited string nat
  | Serving "int \<Rightarrow> request \<Rightarrow> (response, server_state) jsm"

definition setupHandlers ::
  "externals \<Rightarrow> ((int \<Rightarrow> request \<Rightarrow> (response, server_state) jsm), trace) jsm"
where
  "setupHandlers ext =
     js_bind (logInfo ''Setting up request handlers...'') (\<lambda>_.
     js_bind (logInfo ''Handlers setup complete'') (\<lambda>_.
     js_return (handle ext)))"

definition main :: "externals \<Rightarrow> string list \<Rightarrow> string option \<Rightarrow> string option \<Rightarrow> trace \<Rightarrow> startup \<times> trace" where
  "main ext args token version tr =
     (case parseArgs args token version of
        Inl (printed, code) \<Rightarrow> (Exited printed code, tr @ [LogInfo ''Starting React Bits MCP Server...''])
      | Inr githubApiKey \<Rightarrow>
          (case js_bind (logInfo ''Starting React Bits MCP Server...'') (\<lambda>_.
                js_bind (if truthy_string githubApiKey
                         then logInfo ''GitHub API key provided (not used for file-based operations)''
                         else js_return ()) (\<lambda>_.
                js_bind (setupHandlers ext) (\<lambda>server.
                js_bind (logInfo ''Transport initialized: stdio'') (\<lambda>_.
                js_bind (logInfo ''Server started successfully'') (\<lambda>_.
                js_return server))))) tr of
             (Inr server, tr') \<Rightarrow> (Serving server, tr')
           | (Inl error, tr') \<Rightarrow>
               (Exited [] 1, tr' @ [LogError ''Failed to start server'' error])))"

text \<open>The operation name each registered handler passes to \<^verbatim>\<open>handleRequest\<close>.\<close>

definition operation_name :: "request \<Rightarrow> string" where
  "operation_name request =
     (case request of
        ListResources params \<Rightarrow> ''list_resources''
      | ListResourceTemplates params \<Rightarrow> ''list_resource_templates''
      | ListTools params \<Rightarrow> ''list_tools''
      | ReadResource uri \<Rightarrow> ''read_resource''
      | ListPrompts params \<Rightarrow> ''list_prompts''
      | GetPrompt promptName args \<Rightarrow> ''get_prompt''
      | CallTool toolName args \<Rightarrow> ''call_tool'')"

text \<open>The fields the descriptor of a tool declares as required.\<close>

definition required_fields :: "string \<Rightarrow> string list" where
  "required_fields toolName =
     concat (map (\<lambda>d. if get_property d ''name'' = JStr toolName
                       then (case get_property (get_property d ''inputSchema'') ''required'' of
                               JArr vs \<Rightarrow> concat (map (\<lambda>v. case v of JStr f \<Rightarrow> [f] | _ \<Rightarrow> []) vs)
                             | _ \<Rightarrow> [])
                       else [])
               registeredTools)"

section \<open>Sample states and collaborators\<close>

text \<open>Modelled from the spec: the breaker as it is at process start, Closed with no failure counted.\<close>

definition fresh_breaker :: "nat \<Rightarrow> int \<Rightarrow> CircuitBreakerState" where
  "fresh_breaker threshold timeout =
     \<lparr>status = Closed, consecutiveFailures = 0, openedAt = None,
      failureThreshold = threshold, resetTimeout = timeout\<rparr>"

text \<open>A breaker that opened at time \<open>t\<close>.\<close>

definition opened_breaker :: "nat \<Rightarrow> int \<Rightarrow> int \<Rightarrow> CircuitBreakerState" where
  "opened_breaker threshold timeout t =
     \<lparr>status = Open, consecutiveFailures = threshold, openedAt = Some t,
      failureThreshold = threshold, resetTimeout = timeout\<rparr>"

text \<open>A thunk that records that the dependency was called, and then fails or succeeds.\<close>

definition failing_call :: "unit js" where
  "failing_call = js_bind (emit (Invoke ''dependency'' [])) (\<lambda>_. js_throw (Error ''down''))"

definition succeeding_call :: "unit js" where
  "succeeding_call = emit (Invoke ''dependency'' [])"

text \<open>
  Collaborators for concrete runs: a sanitiser that passes the parameters on unchanged,
  an empty component store, no resources and no prompts.
\<close>

definition issue_text :: "zod_issue \<Rightarrow> string" where
  "issue_text i = (case i of ZodIssue path code \<Rightarrow> code @ '' at '' @ concat path @ '';'')"

definition type_error_text :: "type_error \<Rightarrow> string" where
  "type_error_text why =
     (case why of
        NoReceiver method \<Rightarrow> ''Cannot convert undefined or null to object''
      | NotAFunction expression \<Rightarrow> expression @ '' is not a function''
      | NotPrimitive \<Rightarrow> ''Cannot convert object to primitive value'')"

definition sample_externals :: externals where
  "sample_externals =
     \<lparr>validateAndSanitizeParams = (\<lambda>toolName params. js_return params),
      zodMessage = (\<lambda>issues. concat (map issue_text issues)),
      typeErrorMessage = type_error_text,
      getComponentSource = (\<lambda>componentName. js_return None),
      getComponentDemo = (\<lambda>componentName. js_return None),
      getComponentMetadata = (\<lambda>componentName. js_return None),
      getAvailableComponents = (\<lambda>category. js_return []),
      searchComponents = (\<lambda>query category. js_return []),
      resources = JArr [],
      resourceHandlers = (\<lambda>uri. None),
      resourceTemplateHandlers = [],
      prompts = [],
      promptHandlers = (\<lambda>promptName. None)\<rparr>"

text \<open>A resource handler that answers with the URI it was given.\<close>

definition echo_uri :: "string \<Rightarrow> jsval js" where
  "echo_uri uri = js_return (JStr uri)"

text \<open>A resource table with one literal registration and two templates.\<close>

definition sample_resources :: externals where
  "sample_resources =
     sample_externals
       \<lparr>resourceHandlers :=
          (\<lambda>uri. if uri = ''resource:component/index'' then Some (js_return (JStr ''index''))
                 else None),
        resourceTemplateHandlers :=
          [(''resource:component/{name}'', echo_uri),
           (''resource:{kind}/{name}'', (\<lambda>uri. js_return (JStr ''generic'')))]\<rparr>"

text \<open>
  A resource table in which an earlier template occurs inside the URIs that a later
  template matches from end to end.
\<close>

definition shadowed_resources :: externals where
  "shadowed_resources =
     sample_externals
       \<lparr>resourceTemplateHandlers :=
          [(''component/{name}'', (\<lambda>uri. js_return (JStr ''first''))),
           (''resource:component/{name}'', echo_uri)]\<rparr>"


section \<open>Properties of the circuit breaker\<close>

lemma execute_failing_below_threshold:
  assumes "status b = Closed"
    and "isl (fst (call tr))"
    and "Suc (consecutiveFailures b) < failureThreshold b"
  shows "execute b now call tr =
           (fst (call tr), b\<lparr>consecutiveFailures := Suc (consecutiveFailures b)\<rparr>, snd (call tr))"
proof (cases "call tr")
  case (Pair r tr')
  with assms show ?thesis
    by (cases r) (simp_all add: execute_def probe_def on_failure_def)
qed

lemma execute_failing_at_threshold:
  assumes "status b = Closed"
    and "isl (fst (call tr))"
    and "failureThreshold b \<le> Suc (consecutiveFailures b)"
  shows "execute b now call tr =
           (fst (call tr),
            b\<lparr>status := Open, consecutiveFailures := Suc (consecutiveFailures b),
              openedAt := Some now\<rparr>,
            snd (call tr))"
proof (cases "call tr")
  case (Pair r tr')
  with assms show ?thesis
    by (cases r) (simp_all add: execute_def probe_def on_failure_def)
qed

lemma run_calls_below_threshold:
  assumes "\<forall>c \<in> set calls. \<forall>tr. isl (fst (snd c tr))"
    and "status b = Closed"
    and "consecutiveFailures b + length calls < failureThreshold b"
  shows "run_calls b calls tr =
           (b\<lparr>consecutiveFailures := consecutiveFailures b + length calls\<rparr>, run_thunks calls tr)"
  using assms
proof (induction calls arbitrary: b tr)
  case Nil
  then show ?case by simp
next
  case (Cons c cs)
  let ?b1 = "b\<lparr>consecutiveFailures := Suc (consecutiveFailures b)\<rparr>"
  have fails: "isl (fst (snd c tr))" using Cons.prems(1) by simp
  have below: "Suc (consecutiveFailures b) < failureThreshold b" using Cons.prems(3) by simp
  have step: "execute b (fst c) (snd c) tr = (fst (snd c tr), ?b1, snd (snd c tr))"
    using Cons.prems(2) fails below
    by (rule execute_failing_below_threshold [where b = b and call = "snd c" and tr = tr])
  have rest: "run_calls ?b1 cs (snd (snd c tr)) =
                (?b1\<lparr>consecutiveFailures := consecutiveFailures ?b1 + length cs\<rparr>,
                 run_thunks cs (snd (snd c tr)))"
  proof (rule Cons.IH)
    show "\<forall>c \<in> set cs. \<forall>tr. isl (fst (snd c tr))" using Cons.prems(1) by simp
    show "status ?b1 = Closed" using Cons.prems(2) by simp
    show "consecutiveFailures ?b1 + length cs < failureThreshold ?b1"
      using Cons.prems(3) by simp
  qed
  show ?case by (simp add: step rest)
qed

lemma run_calls_append:
  "run_calls b (xs @ ys) tr = (case run_calls b xs tr of (b', tr') \<Rightarrow> run_calls b' ys tr')"
proof (induction xs arbitrary: b tr)
  case Nil
  then show ?case by simp
next
  case (Cons c cs)
  obtain r b' tr' where step: "execute b (fst c) (snd c) tr = (r, b', tr')"
    by (cases "execute b (fst c) (snd c) tr")
  show ?case by (simp add: step Cons.IH)
qed

lemma run_thunks_append:
  "run_thunks (xs @ ys) tr = run_thunks ys (run_thunks xs tr)"
  by (induction xs arbitrary: tr) simp_all

lemma run_calls_reaching_threshold_snoc:
  assumes closed: "status b = Closed"
    and count: "consecutiveFailures b + Suc (length pre) = failureThreshold b"
    and fail: "\<forall>c \<in> set (pre @ [c]). \<forall>tr. isl (fst (snd c tr))"
  shows "run_calls b (pre @ [c]) tr =
           (b\<lparr>status := Open, consecutiveFailures := failureThreshold b,
              openedAt := Some (fst c)\<rparr>,
            run_thunks (pre @ [c]) tr)"
proof -
  let ?b1 = "b\<lparr>consecutiveFailures := consecutiveFailures b + length pre\<rparr>"
  have pre_fail: "\<forall>c \<in> set pre. \<forall>tr. isl (fst (snd c tr))" using fail by simp
  have pre_count: "consecutiveFailures b + length pre < failureThreshold b"
    using count by simp
  have before: "run_calls b pre tr = (?b1, run_thunks pre tr)"
    by (rule run_calls_below_threshold [OF pre_fail closed pre_count])
  have c_fail: "isl (fst (snd c (run_thunks pre tr)))" using fail by simp
  have reach: "failureThreshold ?b1 \<le> Suc (consecutiveFailures ?b1)"
    using count by simp
  have closed1: "status ?b1 = Closed" using closed by simp
  have step: "execute ?b1 (fst c) (snd c) (run_thunks pre tr) =
                (fst (snd c (run_thunks pre tr)),
                 ?b1\<lparr>status := Open, consecutiveFailures := Suc (consecutiveFailures ?b1),
                     openedAt := Some (fst c)\<rparr>,
                 snd (snd c (run_thunks pre tr)))"
    using closed1 c_fail reach
    by (rule execute_failing_at_threshold
          [where b = "b\<lparr>consecutiveFailures := consecutiveFailures b + length pre\<rparr>"
             and call = "snd c" and tr = "run_thunks pre tr"])
  have total: "Suc (consecutiveFailures b + length pre) = failureThreshold b"
    using count by simp
  show ?thesis
    by (simp add: run_calls_append before step run_thunks_append total)
qed

lemma run_calls_reaching_threshold:
  assumes closed: "status b = Closed"
    and count: "consecutiveFailures b + length calls = failureThreshold b"
    and some: "calls \<noteq> []"
    and fail: "\<forall>c \<in> set calls. \<forall>tr. isl (fst (snd c tr))"
  shows "run_calls b calls tr =
           (b\<lparr>status := Open, consecutiveFailures := failureThreshold b,
              openedAt := Some (fst (last calls))\<rparr>,
            run_thunks calls tr)"
proof (cases calls rule: rev_cases)
  case Nil
  with some show ?thesis by simp
next
  case (snoc pre c)
  have count': "consecutiveFailures b + Suc (length pre) = failureThreshold b"
    using count snoc by simp
  have fail': "\<forall>c \<in> set (pre @ [c]). \<forall>tr. isl (fst (snd c tr))"
    using fail snoc by simp
  have "last calls = c" using snoc by simp
  with run_calls_reaching_threshold_snoc [OF closed count' fail', of tr] snoc
  show ?thesis by simp
qed

text \<open>
  Claim C1. Take a Closed breaker and a run of calls that all fail, just long enough for
  the count of consecutive failures to reach \<open>failureThreshold\<close>. Every thunk of the run is
  run. After any shorter part of the run the breaker is still Closed and has counted the
  failures so far; after the whole run it is Open, the count is the threshold and
  \<open>openedAt\<close> is the time of the last call. A further call made before \<open>resetTimeout\<close> has
  elapsed since then fails with \<open>CircuitOpenError\<close>, its thunk is not run and the breaker
  is unchanged; a further call made later runs its thunk.
\<close>

theorem C1_threshold_opens_then_rejects:
  assumes "status b = Closed"
    and "consecutiveFailures b + length calls = failureThreshold b"
    and "calls \<noteq> []"
    and "\<forall>c \<in> set calls. \<forall>tr. isl (fst (snd c tr))"
  shows "(\<forall>k < length calls.
            fst (run_calls b (take k calls) tr) =
              b\<lparr>consecutiveFailures := consecutiveFailures b + k\<rparr>
            \<and> status (fst (run_calls b (take k calls) tr)) = Closed)
       \<and> fst (run_calls b calls tr) =
           b\<lparr>status := Open, consecutiveFailures := failureThreshold b,
             openedAt := Some (fst (last calls))\<rparr>
       \<and> snd (run_calls b calls tr) = run_thunks calls tr
       \<and> (\<forall>now call tr'.
            now - fst (last calls) < resetTimeout b \<longrightarrow>
            execute (fst (run_calls b calls tr)) now (call :: 'b js) tr' =
              (Inl (CircuitOpenError circuit_open_message), fst (run_calls b calls tr), tr'))
       \<and> (\<forall>now call tr'.
            resetTimeout b \<le> now - fst (last calls) \<longrightarrow>
            fst (execute (fst (run_calls b calls tr)) now (call :: 'b js) tr') = fst (call tr')
            \<and> snd (snd (execute (fst (run_calls b calls tr)) now call tr')) = snd (call tr'))"
proof -
  let ?opened = "b\<lparr>status := Open, consecutiveFailures := failureThreshold b,
                    openedAt := Some (fst (last calls))\<rparr>"
  have whole: "run_calls b calls tr = (?opened, run_thunks calls tr)"
    by (rule run_calls_reaching_threshold [OF assms])
  have part: "\<forall>k < length calls.
                fst (run_calls b (take k calls) tr) =
                  b\<lparr>consecutiveFailures := consecutiveFailures b + k\<rparr>
                \<and> status (fst (run_calls b (take k calls) tr)) = Closed"
  proof (intro allI impI)
    fix k assume k: "k < length calls"
    have fails: "\<forall>c \<in> set (take k calls). \<forall>tr. isl (fst (snd c tr))"
      using assms(4) by (meson in_set_takeD)
    have below: "consecutiveFailures b + length (take k calls) < failureThreshold b"
      using assms(2) k by simp
    have "run_calls b (take k calls) tr =
            (b\<lparr>consecutiveFailures := consecutiveFailures b + length (take k calls)\<rparr>,
             run_thunks (take k calls) tr)"
      by (rule run_calls_below_threshold [OF fails assms(1) below])
    then show "fst (run_calls b (take k calls) tr) =
                 b\<lparr>consecutiveFailures := consecutiveFailures b + k\<rparr>
               \<and> status (fst (run_calls b (take k calls) tr)) = Closed"
      using k assms(1) by (simp add: min_def)
  qed
  have early: "\<forall>now call tr'.
                 now - fst (last calls) < resetTimeout b \<longrightarrow>
                 execute ?opened now (call :: 'b js) tr' =
                   (Inl (CircuitOpenError circuit_open_message), ?opened, tr')"
    by (simp add: execute_def probe_def timeout_elapsed_def)
  have late: "\<forall>now call tr'.
                resetTimeout b \<le> now - fst (last calls) \<longrightarrow>
                fst (execute ?opened now (call :: 'b js) tr') = fst (call tr')
                \<and> snd (snd (execute ?opened now call tr')) = snd (call tr')"
    by (simp add: execute_def probe_def timeout_elapsed_def split: prod.splits sum.splits)
  have w1: "fst (run_calls b calls tr) = ?opened" by (simp add: whole)
  have w2: "snd (run_calls b calls tr) = run_thunks calls tr" by (simp add: whole)
  show ?thesis unfolding w1 w2 by (intro conjI part early late refl)
qed

theorem C1_threshold_witness:
  "status (fresh_breaker 3 1000) = Closed
   \<and> consecutiveFailures (fresh_breaker 3 1000)
       + length [(1 :: int, failing_call), (2, failing_call), (3, failing_call)]
       = failureThreshold (fresh_breaker 3 1000)
   \<and> fst (run_calls (fresh_breaker 3 1000) [(1, failing_call), (2, failing_call)] [])
       = (fresh_breaker 3 1000)\<lparr>consecutiveFailures := 2\<rparr>
   \<and> run_calls (fresh_breaker 3 1000) [(1, failing_call), (2, failing_call), (3, failing_call)] []
       = (opened_breaker 3 1000 3,
          [Invoke ''dependency'' [], Invoke ''dependency'' [], Invoke ''dependency'' []])
   \<and> execute (opened_breaker 3 1000 3) 1002 succeeding_call []
       = (Inl (CircuitOpenError circuit_open_message), opened_breaker 3 1000 3, [])"
proof -
  let ?b = "fresh_breaker 3 1000"
  let ?calls = "[(1, failing_call), (2, failing_call), (3, failing_call)] :: (int \<times> unit js) list"
  have h1: "status ?b = Closed" by (simp add: fresh_breaker_def)
  have h2: "consecutiveFailures ?b + length ?calls = failureThreshold ?b"
    by (simp add: fresh_breaker_def)
  have h3: "?calls \<noteq> []" by simp
  have h4: "\<forall>c \<in> set ?calls. \<forall>tr. isl (fst (snd c tr))"
    by (simp add: failing_call_def js_bind_def emit_def js_throw_def)
  note C1 = C1_threshold_opens_then_rejects [OF h1 h2 h3 h4, where tr = "[]"]
  have two: "fst (run_calls ?b [(1, failing_call), (2, failing_call)] []) =
               ?b\<lparr>consecutiveFailures := 2\<rparr>"
    using C1 [THEN conjunct1, rule_format, of 2] by (simp add: fresh_breaker_def)
  have s1: "fst (run_calls ?b ?calls []) = opened_breaker 3 1000 3"
    by (rule trans [OF C1 [THEN conjunct2, THEN conjunct1]])
       (simp add: fresh_breaker_def opened_breaker_def)
  have s2: "snd (run_calls ?b ?calls []) =
              [Invoke ''dependency'' [], Invoke ''dependency'' [], Invoke ''dependency'' []]"
    by (rule trans [OF C1 [THEN conjunct2, THEN conjunct2, THEN conjunct1]])
       (simp add: failing_call_def js_bind_def emit_def js_throw_def)
  have three: "run_calls ?b ?calls [] =
                 (opened_breaker 3 1000 3,
                  [Invoke ''dependency'' [], Invoke ''dependency'' [], Invoke ''dependency'' []])"
    by (rule prod_eqI) (simp_all only: s1 s2 fst_conv snd_conv)
  have reject: "execute (opened_breaker 3 1000 3) 1002 succeeding_call [] =
                  (Inl (CircuitOpenError circuit_open_message), opened_breaker 3 1000 3, [])"
    using C1 [THEN conjunct2, THEN conjunct2, THEN conjunct2, THEN conjunct1, rule_format,
              of 1002 succeeding_call "[]"]
    unfolding s1 by (simp add: fresh_breaker_def)
  show ?thesis by (intro conjI h1 h2 two three reject)
qed

text \<open>
  The claim as the specification words it does not hold: once the threshold is reached,
  the very next call is not rejected when it comes \<open>resetTimeout\<close> or more after the
  opening. Its thunk is run, and here it succeeds and closes the breaker.
\<close>

theorem C1_late_call_counterexample:
  "run_calls (fresh_breaker 3 1000) [(1, failing_call), (2, failing_call), (3, failing_call)] []
     = (opened_breaker 3 1000 3,
        [Invoke ''dependency'' [], Invoke ''dependency'' [], Invoke ''dependency'' []])
   \<and> execute (opened_breaker 3 1000 3) 1003 succeeding_call []
     = (Inr (),
        (opened_breaker 3 1000 3)\<lparr>status := Closed, consecutiveFailures := 0\<rparr>,
        [Invoke ''dependency'' []])"
  by (simp add: fresh_breaker_def opened_breaker_def failing_call_def succeeding_call_def
      js_bind_def emit_def js_throw_def execute_def probe_def timeout_elapsed_def
      on_failure_def on_success_def)

text \<open>
  Claim C2. For a breaker that is Open, once at least \<open>resetTimeout\<close> has elapsed since
  \<open>openedAt\<close>, the next call runs the thunk: result and trace are the thunk's. If the
  thunk succeeds the breaker is Closed with no failure counted; if it fails the breaker is
  Open again and \<open>openedAt\<close> is the time of this call.
\<close>

theorem C2_recovery_after_timeout:
  assumes "status b = Open"
    and "openedAt b = Some t0"
    and "resetTimeout b \<le> now - t0"
  shows "execute b now call tr =
           (case call tr of
              (Inr v, tr') \<Rightarrow> (Inr v, b\<lparr>status := Closed, consecutiveFailures := 0\<rparr>, tr')
            | (Inl e, tr') \<Rightarrow> (Inl e, b\<lparr>status := Open, openedAt := Some now\<rparr>, tr'))"
proof -
  have half: "probe b now = b\<lparr>status := HalfOpen\<rparr>"
    using assms by (simp add: probe_def timeout_elapsed_def)
  show ?thesis
  proof (cases "call tr")
    case (Pair r tr')
    then show ?thesis
      by (cases r) (simp_all add: execute_def half on_success_def on_failure_def)
  qed
qed

theorem C2_recovery_witness:
  "status (opened_breaker 3 1000 10) = Open
   \<and> openedAt (opened_breaker 3 1000 10) = Some 10
   \<and> resetTimeout (opened_breaker 3 1000 10) \<le> 1010 - 10
   \<and> execute (opened_breaker 3 1000 10) 1010 (js_return ()) []
       = (Inr (), (opened_breaker 3 1000 10)\<lparr>status := Closed, consecutiveFailures := 0\<rparr>, [])
   \<and> execute (opened_breaker 3 1000 10) 1010 (js_throw (Error ''down'') :: unit js) []
       = (Inl (Error ''down''), (opened_breaker 3 1000 10)\<lparr>status := Open, openedAt := Some 1010\<rparr>, [])"
proof -
  let ?b = "opened_breaker 3 1000 10"
  have h1: "status ?b = Open" by (simp add: opened_breaker_def)
  have h2: "openedAt ?b = Some 10" by (simp add: opened_breaker_def)
  have h3: "resetTimeout ?b \<le> 1010 - 10" by (simp add: opened_breaker_def)
  have ok: "execute ?b 1010 (js_return ()) []
       = (Inr (), ?b\<lparr>status := Closed, consecutiveFailures := 0\<rparr>, [])"
    using C2_recovery_after_timeout [OF h1 h2 h3, of "js_return ()" "[]"]
    by (simp add: js_return_def)
  have ko: "execute ?b 1010 (js_throw (Error ''down'') :: unit js) []
       = (Inl (Error ''down''), ?b\<lparr>status := Open, openedAt := Some 1010\<rparr>, [])"
    using C2_recovery_after_timeout [OF h1 h2 h3, of "js_throw (Error ''down'') :: unit js" "[]"]
    by (simp add: js_throw_def)
  from h1 h2 h3 ok ko show ?thesis by blast
qed

section \<open>Properties of resource lookup\<close>

lemma scan_templates_find:
  assumes "\<forall>entry \<in> set ts. template_regex (fst entry) \<noteq> None"
  shows "scan_templates ts uri =
           (case find (\<lambda>entry. template_matches (fst entry) uri) ts of
              Some entry \<Rightarrow> snd entry uri
            | None \<Rightarrow> js_throw (Error (''Resource not found: '' @ uri)))"
  using assms
  by (induction ts) (auto simp: template_matches_def)

text \<open>
  The lookup as the loop performs it: the literal registrations first, then the templates
  in registration order, the first one whose expression tests true somewhere in the URI.
\<close>

lemma read_resource_lookup:
  "(resourceHandlers ext uri = Some h \<longrightarrow> read_resource ext uri = h)
   \<and> (resourceHandlers ext uri = None
        \<and> (\<forall>entry \<in> set (resourceTemplateHandlers ext). template_regex (fst entry) \<noteq> None)
      \<longrightarrow> read_resource ext uri =
            (case find (\<lambda>entry. template_matches (fst entry) uri) (resourceTemplateHandlers ext) of
               Some entry \<Rightarrow> snd entry uri
             | None \<Rightarrow> js_throw (Error (''Resource not found: '' @ uri))))"
  by (simp add: read_resource_def scan_templates_find)

lemma component_template_regex:
  "template_regex ''resource:component/{name}'' = Some (map Lit ''resource:component/'' @ [Group])"
  by (simp add: template_regex_def syntax_character_def)

lemma kind_template_regex:
  "template_regex ''resource:{kind}/{name}'' = Some (map Lit ''resource:'' @ [Group, Lit CHR ''/'', Group])"
  by (simp add: template_regex_def syntax_character_def)

lemma demo_template_regex:
  "template_regex ''resource:component/{name}/demo'' = Some (map Lit ''resource:component/'' @ [Group] @ map Lit ''/demo'')"
  by (simp add: template_regex_def syntax_character_def)

text \<open>
  Claim C4. With the template \<^verbatim>\<open>resource:component/{name}\<close> registered, the URI
  \<^verbatim>\<open>resource:component/AnimatedList\<close> matches it and the group captures \<^verbatim>\<open>AnimatedList\<close>, so
  the request goes to the template's handler; the URI \<^verbatim>\<open>resource:component/\<close>, which
  would need an empty capture, does not match, and the request fails as not found.
\<close>

theorem C4_component_template_scenario:
  "template_regex ''resource:component/{name}'' = Some (map Lit ''resource:component/'' @ [Group])
   \<and> regex_exec (map Lit ''resource:component/'' @ [Group]) ''resource:component/AnimatedList''
       = Some [''AnimatedList'']
   \<and> regex_test (map Lit ''resource:component/'' @ [Group]) ''resource:component/'' = False
   \<and> read_resource (sample_externals\<lparr>resourceTemplateHandlers := [(''resource:component/{name}'', h)]\<rparr>)
        ''resource:component/AnimatedList'' = h ''resource:component/AnimatedList''
   \<and> read_resource (sample_externals\<lparr>resourceTemplateHandlers := [(''resource:component/{name}'', h)]\<rparr>)
        ''resource:component/'' = js_throw (Error ''Resource not found: resource:component/'')"
  by (simp add: component_template_regex read_resource_def sample_externals_def regex_test_def line_terminator_def)

text \<open>
  Claim C3, evaluated on the code. The expression built from a template carries no
  anchors and \<^verbatim>\<open>test\<close> searches the URI for a match, so a URI with extra leading or
  trailing characters, which the whole-text match rejects, is still dispatched to the
  template's handler.
\<close>

theorem C3_substring_match_is_dispatched:
  "template_regex ''resource:component/{name}'' = Some (map Lit ''resource:component/'' @ [Group])
   \<and> match_whole (map Lit ''resource:component/'' @ [Group]) ''x-resource:component/AnimatedList'' = False
   \<and> read_resource (sample_externals\<lparr>resourceTemplateHandlers := [(''resource:component/{name}'', echo_uri)]\<rparr>)
        ''x-resource:component/AnimatedList'' = echo_uri ''x-resource:component/AnimatedList''
   \<and> template_regex ''resource:component/{name}/demo''
       = Some (map Lit ''resource:component/'' @ [Group] @ map Lit ''/demo'')
   \<and> match_whole (map Lit ''resource:component/'' @ [Group] @ map Lit ''/demo'') ''resource:component/Dock/demo.bak'' = False
   \<and> read_resource (sample_externals\<lparr>resourceTemplateHandlers := [(''resource:component/{name}/demo'', echo_uri)]\<rparr>)
        ''resource:component/Dock/demo.bak'' = echo_uri ''resource:component/Dock/demo.bak''"
  by (simp add: component_template_regex demo_template_regex read_resource_def sample_externals_def regex_test_def line_terminator_def)

lemma bare_template_regex:
  "template_regex ''component/{name}'' = Some (map Lit ''component/'' @ [Group])"
  by (simp add: template_regex_def syntax_character_def)

text \<open>
  Claim C5, evaluated on the code. The claim takes a template to match a URI when its
  expression matches the whole URI; the loop tests for a match anywhere in the URI (the
  defect of claim C3). So the lookup succeeds for a URI that has no literal registration
  and that no registered template matches, and an earlier template that merely occurs
  inside the URI answers before the later template that matches it from end to end.
\<close>

theorem C5_lookup_serves_unmatched_uri:
  "resourceHandlers sample_resources ''x-resource:component/AnimatedList'' = None
   \<and> map (\<lambda>entry. template_matches_whole (fst entry) ''x-resource:component/AnimatedList'')
         (resourceTemplateHandlers sample_resources) = [False, False]
   \<and> read_resource sample_resources ''x-resource:component/AnimatedList''
       = echo_uri ''x-resource:component/AnimatedList''
   \<and> resourceHandlers shadowed_resources ''resource:component/Dock'' = None
   \<and> map (\<lambda>entry. template_matches_whole (fst entry) ''resource:component/Dock'')
         (resourceTemplateHandlers shadowed_resources) = [False, True]
   \<and> read_resource shadowed_resources ''resource:component/Dock'' = js_return (JStr ''first'')"
  by (simp add: sample_resources_def shadowed_resources_def sample_externals_def
      template_matches_whole_def component_template_regex kind_template_regex
      bare_template_regex read_resource_def regex_test_def line_terminator_def)

section \<open>Properties of the tool handlers and of tool calls\<close>

lemma try_catch_to_envelope:
  "js_try body (catch_to_envelope hn prefix) tr =
     (case body tr of
        (Inl e, tr') \<Rightarrow> (Inr (text_envelope (prefix @ errorMessage e)), tr' @ [LogError (''Error in '' @ hn) e])
      | (Inr x, tr') \<Rightarrow> (Inr x, tr'))"
  by (simp add: js_try_def catch_to_envelope_def js_bind_def logError_def emit_def js_return_def
      split: prod.splits sum.splits)

lemma try_catch_to_envelope_named:
  assumes "msg = ''Error in '' @ hn"
  shows "js_try body (catch_to_envelope hn prefix) tr =
     (case body tr of
        (Inl e, tr') \<Rightarrow> (Inr (text_envelope (prefix @ errorMessage e)), tr' @ [LogError msg e])
      | (Inr x, tr') \<Rightarrow> (Inr x, tr'))"
  unfolding assms by (rule try_catch_to_envelope)

lemma catch_to_envelope_result:
  "catch_to_envelope hn prefix e tr
     = (Inr (text_envelope (prefix @ errorMessage e)), tr @ [LogError (''Error in '' @ hn) e])"
  by (simp add: catch_to_envelope_def js_bind_def logError_def emit_def js_return_def)

lemma text_results_return: "text_results (js_return (text_envelope t))"
  by (auto simp: text_results_def js_return_def)

lemma text_results_throw: "text_results (js_throw e)"
  by (simp add: text_results_def js_throw_def)

lemma text_results_bind:
  assumes "\<And>x. text_results (f x)"
  shows "text_results (js_bind m f)"
  unfolding text_results_def js_bind_def
proof (intro allI impI)
  fix tr y tr'
  assume run: "(case m tr of (Inl e, s') \<Rightarrow> (Inl e, s') | (Inr x, s') \<Rightarrow> f x s') = (Inr y, tr')"
  obtain r s' where m: "m tr = (r, s')" by (cases "m tr") auto
  show "\<exists>t. y = text_envelope t"
  proof (cases r)
    case (Inl e)
    with run m show ?thesis by simp
  next
    case (Inr x)
    with run m have "f x s' = (Inr y, tr')" by simp
    with assms [of x] show ?thesis unfolding text_results_def by blast
  qed
qed

lemma tool_handler_envelope:
  assumes "text_results body"
  shows "\<exists>t tr'. js_try body (catch_to_envelope hn prefix) tr = (Inr (text_envelope t), tr')"
proof -
  obtain r tr1 where b: "body tr = (r, tr1)" by (cases "body tr") auto
  show ?thesis
  proof (cases r)
    case (Inl e)
    with b show ?thesis by (auto simp: try_catch_to_envelope)
  next
    case (Inr x)
    with b assms obtain t where "x = text_envelope t" unfolding text_results_def by blast
    with b Inr show ?thesis by (auto simp: try_catch_to_envelope)
  qed
qed

lemma text_results_if:
  "text_results a \<Longrightarrow> text_results b \<Longrightarrow> text_results (if c then a else b)"
  by simp

lemma text_results_option:
  "text_results a \<Longrightarrow> (\<And>x. text_results (f x)) \<Longrightarrow> text_results (case v of None \<Rightarrow> a | Some x \<Rightarrow> f x)"
  by (cases v) simp_all

lemma text_results_prod:
  "(\<And>a b. text_results (f a b)) \<Longrightarrow> text_results (case p of (a, b) \<Rightarrow> f a b)"
  by (cases p) simp

lemmas text_results_intros =
  text_results_bind text_results_return text_results_throw text_results_if text_results_option
  text_results_prod

lemma handleGetComponent_envelope:
  "\<exists>t tr'. handleGetComponent ext p tr = (Inr (text_envelope t), tr')"
  unfolding handleGetComponent_def handleGetComponent_try_def
  by (rule tool_handler_envelope) (intro text_results_intros)

lemma handleGetComponent_catch:
  "handleGetComponent ext p tr =
     (case handleGetComponent_try ext p tr of
        (Inl e, tr') \<Rightarrow>
          (Inr (text_envelope (''Error retrieving component: '' @ errorMessage e)),
           tr' @ [LogError ''Error in handleGetComponent'' e])
      | (Inr x, tr') \<Rightarrow> (Inr x, tr'))"
  unfolding handleGetComponent_def by (rule try_catch_to_envelope_named) simp

lemma handleGetComponentDemo_envelope:
  "\<exists>t tr'. handleGetComponentDemo ext p tr = (Inr (text_envelope t), tr')"
  unfolding handleGetComponentDemo_def handleGetComponentDemo_try_def
  by (rule tool_handler_envelope) (intro text_results_intros)

lemma handleGetComponentDemo_catch:
  "handleGetComponentDemo ext p tr =
     (case handleGetComponentDemo_try ext p tr of
        (Inl e, tr') \<Rightarrow>
          (Inr (text_envelope (''Error retrieving component demo: '' @ errorMessage e)),
           tr' @ [LogError ''Error in handleGetComponentDemo'' e])
      | (Inr x, tr') \<Rightarrow> (Inr x, tr'))"
  unfolding handleGetComponentDemo_def by (rule try_catch_to_envelope_named) simp

lemma handleListComponents_envelope:
  "\<exists>t tr'. handleListComponents ext p tr = (Inr (text_envelope t), tr')"
  unfolding handleListComponents_def handleListComponents_try_def
  by (rule tool_handler_envelope) (intro text_results_intros)

lemma handleListComponents_catch:
  "handleListComponents ext p tr =
     (case handleListComponents_try ext p tr of
        (Inl e, tr') \<Rightarrow>
          (Inr (text_envelope (''Error listing components: '' @ errorMessage e)),
           tr' @ [LogError ''Error in handleListComponents'' e])
      | (Inr x, tr') \<Rightarrow> (Inr x, tr'))"
  unfolding handleListComponents_def by (rule try_catch_to_envelope_named) simp

lemma handleGetComponentMetadata_envelope:
  "\<exists>t tr'. handleGetComponentMetadata ext p tr = (Inr (text_envelope t), tr')"
  unfolding handleGetComponentMetadata_def handleGetComponentMetadata_try_def
  by (rule tool_handler_envelope) (intro text_results_intros)

lemma handleGetComponentMetadata_catch:
  "handleGetComponentMetadata ext p tr =
     (case handleGetComponentMetadata_try ext p tr of
        (Inl e, tr') \<Rightarrow>
          (Inr (text_envelope (''Error retrieving component metadata: '' @ errorMessage e)),
           tr' @ [LogError ''Error in handleGetComponentMetadata'' e])
      | (Inr x, tr') \<Rightarrow> (Inr x, tr'))"
  unfolding handleGetComponentMetadata_def by (rule try_catch_to_envelope_named) simp

lemma handleSearchComponents_envelope:
  "\<exists>t tr'. handleSearchComponents ext p tr = (Inr (text_envelope t), tr')"
  unfolding handleSearchComponents_def handleSearchComponents_try_def
  by (rule tool_handler_envelope) (intro text_results_intros)

lemma handleSearchComponents_catch:
  "handleSearchComponents ext p tr =
     (case handleSearchComponents_try ext p tr of
        (Inl e, tr') \<Rightarrow>
          (Inr (text_envelope (''Error searching components: '' @ errorMessage e)),
           tr' @ [LogError ''Error in handleSearchComponents'' e])
      | (Inr x, tr') \<Rightarrow> (Inr x, tr'))"
  unfolding handleSearchComponents_def by (rule try_catch_to_envelope_named) simp

text \<open>What the three schemas do with a value.\<close>

lemma parse_componentName_run:
  "parse_componentName ext v tr =
     (case get_property v ''componentName'' of
        JStr n \<Rightarrow> (Inr n, tr)
      | _ \<Rightarrow>
          (Inl (ZodError (zodMessage ext
                 [ZodIssue (case v of JObj fs \<Rightarrow> [''componentName''] | _ \<Rightarrow> []) ''invalid_type''])),
           tr))"
  by (cases v; cases "get_property v ''componentName''")
     (simp_all add: parse_componentName_def zod_throw_def zod_string_def js_throw_def js_return_def
        get_property_def)

lemma parse_componentName_invalid:
  assumes "\<forall>x. get_property v ''componentName'' \<noteq> JStr x"
  shows "\<exists>issues. issues \<noteq> []
           \<and> parse_componentName ext v tr = (Inl (ZodError (zodMessage ext issues)), tr)"
proof -
  let ?issues = "[ZodIssue (case v of JObj fs \<Rightarrow> [''componentName''] | _ \<Rightarrow> []) ''invalid_type'']"
  have "parse_componentName ext v tr = (Inl (ZodError (zodMessage ext ?issues)), tr)"
    using assms
    by (cases "get_property v ''componentName''") (simp_all add: parse_componentName_run)
  then have "?issues \<noteq> []
           \<and> parse_componentName ext v tr = (Inl (ZodError (zodMessage ext ?issues)), tr)"
    by simp
  then show ?thesis by (rule exI)
qed

lemma parse_componentName_valid:
  assumes "get_property v ''componentName'' = JStr n"
  shows "parse_componentName ext v tr = (Inr n, tr)"
  using assms by (simp add: parse_componentName_run)

lemma parse_category_invalid:
  assumes "(\<forall>fs. v \<noteq> JObj fs)
           \<or> (get_property v ''category'' \<noteq> JUndefined
               \<and> (\<forall>x \<in> set categories. get_property v ''category'' \<noteq> JStr x))"
  shows "\<exists>issues. issues \<noteq> []
           \<and> parse_category ext v tr = (Inl (ZodError (zodMessage ext issues)), tr)"
proof (cases v)
  case (JObj fs)
  with assms have bad: "get_property v ''category'' \<noteq> JUndefined"
    and none: "\<forall>x \<in> set categories. get_property v ''category'' \<noteq> JStr x" by simp_all
  define issues where "issues = zod_optional_enum categories ''category'' (get_property v ''category'')"
  have ne: "issues \<noteq> []"
    using bad none unfolding issues_def
    by (cases "get_property v ''category''") (auto simp: zod_optional_enum_def)
  then obtain i rest where cons: "issues = i # rest" by (cases issues) auto
  have "parse_category ext v tr = (Inl (ZodError (zodMessage ext issues)), tr)"
    using JObj cons [unfolded issues_def]
    by (simp add: parse_category_def zod_throw_def js_throw_def issues_def)
  with ne show ?thesis by blast
next
  case JUndefined
  then have "[ZodIssue [] ''invalid_type''] \<noteq> []
      \<and> parse_category ext v tr = (Inl (ZodError (zodMessage ext [ZodIssue [] ''invalid_type''])), tr)"
    by (simp add: parse_category_def zod_throw_def js_throw_def)
  then show ?thesis by (rule exI)
next
  case JNull
  then have "[ZodIssue [] ''invalid_type''] \<noteq> []
      \<and> parse_category ext v tr = (Inl (ZodError (zodMessage ext [ZodIssue [] ''invalid_type''])), tr)"
    by (simp add: parse_category_def zod_throw_def js_throw_def)
  then show ?thesis by (rule exI)
next
  case (JBool b)
  then have "[ZodIssue [] ''invalid_type''] \<noteq> []
      \<and> parse_category ext v tr = (Inl (ZodError (zodMessage ext [ZodIssue [] ''invalid_type''])), tr)"
    by (simp add: parse_category_def zod_throw_def js_throw_def)
  then show ?thesis by (rule exI)
next
  case (JNum k)
  then have "[ZodIssue [] ''invalid_type''] \<noteq> []
      \<and> parse_category ext v tr = (Inl (ZodError (zodMessage ext [ZodIssue [] ''invalid_type''])), tr)"
    by (simp add: parse_category_def zod_throw_def js_throw_def)
  then show ?thesis by (rule exI)
next
  case (JStr x)
  then have "[ZodIssue [] ''invalid_type''] \<noteq> []
      \<and> parse_category ext v tr = (Inl (ZodError (zodMessage ext [ZodIssue [] ''invalid_type''])), tr)"
    by (simp add: parse_category_def zod_throw_def js_throw_def)
  then show ?thesis by (rule exI)
next
  case (JArr vs)
  then have "[ZodIssue [] ''invalid_type''] \<noteq> []
      \<and> parse_category ext v tr = (Inl (ZodError (zodMessage ext [ZodIssue [] ''invalid_type''])), tr)"
    by (simp add: parse_category_def zod_throw_def js_throw_def)
  then show ?thesis by (rule exI)
qed

lemma parse_query_category_invalid:
  assumes "(\<forall>x. get_property v ''query'' \<noteq> JStr x)
           \<or> (get_property v ''category'' \<noteq> JUndefined
               \<and> (\<forall>x \<in> set categories. get_property v ''category'' \<noteq> JStr x))"
  shows "\<exists>issues. issues \<noteq> []
           \<and> parse_query_category ext v tr = (Inl (ZodError (zodMessage ext issues)), tr)"
proof -
  have not_object: "\<exists>issues. issues \<noteq> []
           \<and> parse_query_category ext v tr = (Inl (ZodError (zodMessage ext issues)), tr)"
    if "\<forall>fs. v \<noteq> JObj fs"
  proof -
    have "[ZodIssue [] ''invalid_type''] \<noteq> []
      \<and> parse_query_category ext v tr
          = (Inl (ZodError (zodMessage ext [ZodIssue [] ''invalid_type''])), tr)"
      using that by (cases v) (simp_all add: parse_query_category_def zod_throw_def js_throw_def)
    then show ?thesis by (rule exI)
  qed
  show ?thesis
  proof (cases v)
    case (JObj fs)
    define issues where
      "issues = zod_string ''query'' (get_property v ''query'')
                @ zod_optional_enum categories ''category'' (get_property v ''category'')"
    have ne: "issues \<noteq> []"
    proof (cases "\<forall>x. get_property v ''query'' \<noteq> JStr x")
      case True
      then have "zod_string ''query'' (get_property v ''query'') \<noteq> []"
        by (cases "get_property v ''query''") (simp_all add: zod_string_def)
      then show ?thesis by (simp add: issues_def)
    next
      case False
      with assms have bad: "get_property v ''category'' \<noteq> JUndefined"
        and none: "\<forall>x \<in> set categories. get_property v ''category'' \<noteq> JStr x" by simp_all
      have "zod_optional_enum categories ''category'' (get_property v ''category'') \<noteq> []"
        using bad none
        by (cases "get_property v ''category''") (auto simp: zod_optional_enum_def)
      then show ?thesis by (simp add: issues_def)
    qed
    then obtain i rest where cons: "issues = i # rest" by (cases issues) auto
    have "parse_query_category ext v tr = (Inl (ZodError (zodMessage ext issues)), tr)"
      using JObj cons [unfolded issues_def]
      by (cases "get_property v ''query''")
         (simp_all add: parse_query_category_def zod_throw_def js_throw_def issues_def)
    with ne show ?thesis by blast
  qed (rule not_object, simp)+
qed

lemma handleGetComponent_try_sanitiser:
  assumes "validateAndSanitizeParams ext ''get_component'' p tr = (Inl e, tr1)"
  shows "handleGetComponent_try ext p tr = (Inl e, tr1)"
  using assms by (simp add: handleGetComponent_try_def js_bind_def)

lemma handleGetComponent_try_invalid:
  assumes "validateAndSanitizeParams ext ''get_component'' p tr = (Inr v, tr1)"
    and "(\<forall>x. get_property v ''componentName'' \<noteq> JStr x)"
  shows "\<exists>issues. issues \<noteq> []
           \<and> handleGetComponent_try ext p tr = (Inl (ZodError (zodMessage ext issues)), tr1)"
proof -
  from parse_componentName_invalid [OF assms(2), of ext tr1] obtain issues
    where ne: "issues \<noteq> []"
      and bad: "parse_componentName ext v tr1 = (Inl (ZodError (zodMessage ext issues)), tr1)"
    by blast
  have "handleGetComponent_try ext p tr = (Inl (ZodError (zodMessage ext issues)), tr1)"
    using assms(1) bad by (simp add: handleGetComponent_try_def js_bind_def)
  with ne show ?thesis by blast
qed

lemma handleGetComponent_try_store:
  assumes "validateAndSanitizeParams ext ''get_component'' p tr = (Inr v, tr1)"
    and "get_property v ''componentName'' = JStr n"
    and "getComponentSource ext n
            (tr1 @ [LogInfo (''Getting component source for: '' @ n),
               Invoke ''getComponentSource'' [JStr n]]) = (Inl e, tr3)"
  shows "handleGetComponent_try ext p tr = (Inl e, tr3)"
  using assms
  by (simp add: handleGetComponent_try_def js_bind_def parse_componentName_valid logInfo_def emit_def invoke_def)

lemma handleGetComponent_try_absent:
  assumes "validateAndSanitizeParams ext ''get_component'' p tr = (Inr v, tr1)"
    and "get_property v ''componentName'' = JStr n"
    and "getComponentSource ext n
            (tr1 @ [LogInfo (''Getting component source for: '' @ n),
               Invoke ''getComponentSource'' [JStr n]]) = (Inr found, tr3)"
    and "found = None \<or> found = Some []"
  shows "handleGetComponent_try ext p tr = (Inl (Error (''Component '' @ squote @ n @ squote @ '' not found'')), tr3)"
  using assms
  by (auto simp add: handleGetComponent_try_def js_bind_def parse_componentName_valid logInfo_def emit_def invoke_def js_throw_def)

lemma handleGetComponentDemo_try_sanitiser:
  assumes "validateAndSanitizeParams ext ''get_component_demo'' p tr = (Inl e, tr1)"
  shows "handleGetComponentDemo_try ext p tr = (Inl e, tr1)"
  using assms by (simp add: handleGetComponentDemo_try_def js_bind_def)

lemma handleGetComponentDemo_try_invalid:
  assumes "validateAndSanitizeParams ext ''get_component_demo'' p tr = (Inr v, tr1)"
    and "(\<forall>x. get_property v ''componentName'' \<noteq> JStr x)"
  shows "\<exists>issues. issues \<noteq> []
           \<and> handleGetComponentDemo_try ext p tr = (Inl (ZodError (zodMessage ext issues)), tr1)"
proof -
  from parse_componentName_invalid [OF assms(2), of ext tr1] obtain issues
    where ne: "issues \<noteq> []"
      and bad: "parse_componentName ext v tr1 = (Inl (ZodError (zodMessage ext issues)), tr1)"
    by blast
  have "handleGetComponentDemo_try ext p tr = (Inl (ZodError (zodMessage ext issues)), tr1)"
    using assms(1) bad by (simp add: handleGetComponentDemo_try_def js_bind_def)
  with ne show ?thesis by blast
qed

lemma handleGetComponentDemo_try_store:
  assumes "validateAndSanitizeParams ext ''get_component_demo'' p tr = (Inr v, tr1)"
    and "get_property v ''componentName'' = JStr n"
    and "getComponentDemo ext n
            (tr1 @ [LogInfo (''Getting component demo for: '' @ n),
               Invoke ''getComponentDemo'' [JStr n]]) = (Inl e, tr3)"
  shows "handleGetComponentDemo_try ext p tr = (Inl e, tr3)"
  using assms
  by (simp add: handleGetComponentDemo_try_def js_bind_def parse_componentName_valid logInfo_def emit_def invoke_def)

lemma handleGetComponentDemo_try_absent:
  assumes "validateAndSanitizeParams ext ''get_component_demo'' p tr = (Inr v, tr1)"
    and "get_property v ''componentName'' = JStr n"
    and "getComponentDemo ext n
            (tr1 @ [LogInfo (''Getting component demo for: '' @ n),
               Invoke ''getComponentDemo'' [JStr n]]) = (Inr found, tr3)"
    and "found = None \<or> found = Some []"
  shows "handleGetComponentDemo_try ext p tr = (Inl (Error (''Demo for component '' @ squote @ n @ squote @ '' not found'')), tr3)"
  using assms
  by (auto simp add: handleGetComponentDemo_try_def js_bind_def parse_componentName_valid logInfo_def emit_def invoke_def js_throw_def)

lemma handleListComponents_try_sanitiser:
  assumes "validateAndSanitizeParams ext ''list_components'' p tr = (Inl e, tr1)"
  shows "handleListComponents_try ext p tr = (Inl e, tr1)"
  using assms by (simp add: handleListComponents_try_def js_bind_def)

lemma handleListComponents_try_invalid:
  assumes "validateAndSanitizeParams ext ''list_components'' p tr = (Inr v, tr1)"
    and "((\<forall>fs. v \<noteq> JObj fs)
        \<or> (get_property v ''category'' \<noteq> JUndefined
           \<and> (\<forall>x \<in> set categories. get_property v ''category'' \<noteq> JStr x)))"
  shows "\<exists>issues. issues \<noteq> []
           \<and> handleListComponents_try ext p tr = (Inl (ZodError (zodMessage ext issues)), tr1)"
proof -
  from parse_category_invalid [OF assms(2), of ext tr1] obtain issues
    where ne: "issues \<noteq> []"
      and bad: "parse_category ext v tr1 = (Inl (ZodError (zodMessage ext issues)), tr1)"
    by blast
  have "handleListComponents_try ext p tr = (Inl (ZodError (zodMessage ext issues)), tr1)"
    using assms(1) bad by (simp add: handleListComponents_try_def js_bind_def)
  with ne show ?thesis by blast
qed

lemma handleListComponents_try_store:
  assumes "validateAndSanitizeParams ext ''list_components'' p tr = (Inr v, tr1)"
    and "parse_category ext v tr1 = (Inr c, tr1)"
    and "getAvailableComponents ext c
            (tr1 @ [LogInfo (''Listing components''
                 @ (case c of Some x \<Rightarrow> '' for category: '' @ x | None \<Rightarrow> [])),
               Invoke ''getAvailableComponents'' [optional_arg c]]) = (Inl e, tr3)"
  shows "handleListComponents_try ext p tr = (Inl e, tr3)"
  using assms
  by (simp add: handleListComponents_try_def js_bind_def  logInfo_def emit_def invoke_def)

lemma handleListComponents_try_group:
  assumes "validateAndSanitizeParams ext ''list_components'' p tr = (Inr v, tr1)"
    and "parse_category ext v tr1 = (Inr c, tr1)"
    and "getAvailableComponents ext c
            (tr1 @ [LogInfo (''Listing components''
                 @ (case c of Some x \<Rightarrow> '' for category: '' @ x | None \<Rightarrow> [])),
               Invoke ''getAvailableComponents'' [optional_arg c]]) = (Inr found, tr3)"
    and "found \<noteq> []"
    and "group_by_category ext found = Inl e"
  shows "handleListComponents_try ext p tr = (Inl e, tr3)"
  using assms
  by (simp add: handleListComponents_try_def js_bind_def logInfo_def emit_def invoke_def js_of_def)

lemma handleGetComponentMetadata_try_sanitiser:
  assumes "validateAndSanitizeParams ext ''get_component_metadata'' p tr = (Inl e, tr1)"
  shows "handleGetComponentMetadata_try ext p tr = (Inl e, tr1)"
  using assms by (simp add: handleGetComponentMetadata_try_def js_bind_def)

lemma handleGetComponentMetadata_try_invalid:
  assumes "validateAndSanitizeParams ext ''get_component_metadata'' p tr = (Inr v, tr1)"
    and "(\<forall>x. get_property v ''componentName'' \<noteq> JStr x)"
  shows "\<exists>issues. issues \<noteq> []
           \<and> handleGetComponentMetadata_try ext p tr = (Inl (ZodError (zodMessage ext issues)), tr1)"
proof -
  from parse_componentName_invalid [OF assms(2), of ext tr1] obtain issues
    where ne: "issues \<noteq> []"
      and bad: "parse_componentName ext v tr1 = (Inl (ZodError (zodMessage ext issues)), tr1)"
    by blast
  have "handleGetComponentMetadata_try ext p tr = (Inl (ZodError (zodMessage ext issues)), tr1)"
    using assms(1) bad by (simp add: handleGetComponentMetadata_try_def js_bind_def)
  with ne show ?thesis by blast
qed

lemma handleGetComponentMetadata_try_store:
  assumes "validateAndSanitizeParams ext ''get_component_metadata'' p tr = (Inr v, tr1)"
    and "get_property v ''componentName'' = JStr n"
    and "getComponentMetadata ext n
            (tr1 @ [LogInfo (''Getting component metadata for: '' @ n),
               Invoke ''getComponentMetadata'' [JStr n]]) = (Inl e, tr3)"
  shows "handleGetComponentMetadata_try ext p tr = (Inl e, tr3)"
  using assms
  by (simp add: handleGetComponentMetadata_try_def js_bind_def parse_componentName_valid logInfo_def emit_def invoke_def)

lemma handleGetComponentMetadata_try_absent:
  assumes "validateAndSanitizeParams ext ''get_component_metadata'' p tr = (Inr v, tr1)"
    and "get_property v ''componentName'' = JStr n"
    and "getComponentMetadata ext n
            (tr1 @ [LogInfo (''Getting component metadata for: '' @ n),
               Invoke ''getComponentMetadata'' [JStr n]]) = (Inr None, tr3)"
  shows "handleGetComponentMetadata_try ext p tr = (Inl (Error (''Metadata for component '' @ squote @ n @ squote @ '' not found'')), tr3)"
  using assms
  by (simp add: handleGetComponentMetadata_try_def js_bind_def parse_componentName_valid logInfo_def emit_def invoke_def js_throw_def)

lemma handleSearchComponents_try_sanitiser:
  assumes "validateAndSanitizeParams ext ''search_components'' p tr = (Inl e, tr1)"
  shows "handleSearchComponents_try ext p tr = (Inl e, tr1)"
  using assms by (simp add: handleSearchComponents_try_def js_bind_def)

lemma handleSearchComponents_try_invalid:
  assumes "validateAndSanitizeParams ext ''search_components'' p tr = (Inr v, tr1)"
    and "((\<forall>x. get_property v ''query'' \<noteq> JStr x)
        \<or> (get_property v ''category'' \<noteq> JUndefined
           \<and> (\<forall>x \<in> set categories. get_property v ''category'' \<noteq> JStr x)))"
  shows "\<exists>issues. issues \<noteq> []
           \<and> handleSearchComponents_try ext p tr = (Inl (ZodError (zodMessage ext issues)), tr1)"
proof -
  from parse_query_category_invalid [OF assms(2), of ext tr1] obtain issues
    where ne: "issues \<noteq> []"
      and bad: "parse_query_category ext v tr1 = (Inl (ZodError (zodMessage ext issues)), tr1)"
    by blast
  have "handleSearchComponents_try ext p tr = (Inl (ZodError (zodMessage ext issues)), tr1)"
    using assms(1) bad by (simp add: handleSearchComponents_try_def js_bind_def)
  with ne show ?thesis by blast
qed

lemma handleSearchComponents_try_store:
  assumes "validateAndSanitizeParams ext ''search_components'' p tr = (Inr v, tr1)"
    and "parse_query_category ext v tr1 = (Inr (q, c), tr1)"
    and "searchComponents ext q c
            (tr1 @ [LogInfo (''Searching components with query: '' @ dquote @ q @ dquote
                 @ (case c of Some x \<Rightarrow> '' in category: '' @ x | None \<Rightarrow> [])),
               Invoke ''searchComponents'' [JStr q, optional_arg c]]) = (Inl e, tr3)"
  shows "handleSearchComponents_try ext p tr = (Inl e, tr3)"
  using assms
  by (simp add: handleSearchComponents_try_def js_bind_def  logInfo_def emit_def invoke_def)

lemma handleSearchComponents_try_group:
  assumes "validateAndSanitizeParams ext ''search_components'' p tr = (Inr v, tr1)"
    and "parse_query_category ext v tr1 = (Inr (q, c), tr1)"
    and "searchComponents ext q c
            (tr1 @ [LogInfo (''Searching components with query: '' @ dquote @ q @ dquote
                 @ (case c of Some x \<Rightarrow> '' in category: '' @ x | None \<Rightarrow> [])),
               Invoke ''searchComponents'' [JStr q, optional_arg c]]) = (Inr found, tr3)"
    and "found \<noteq> []"
    and "group_by_category ext found = Inl e"
  shows "handleSearchComponents_try ext p tr = (Inl e, tr3)"
  using assms
  by (simp add: handleSearchComponents_try_def js_bind_def logInfo_def emit_def invoke_def js_of_def)

text \<open>
  The failures of a handler, each caught by its \<^verbatim>\<open>catch\<close> block: the sanitiser throws, the
  schema rejects the sanitised value, the component store rejects, the store has nothing
  for the name, the grouping of the components throws.
\<close>

lemma add_to_group_keys:
  assumes "add_to_group ext acc c = Inr acc'"
    and "set (map fst acc) \<inter> set object_prototype_names = {}"
  shows "set (map fst acc') \<inter> set object_prototype_names = {}"
proof (cases "category c \<in> set (map fst acc)")
  case True
  with assms(1)
  have "acc' = map (\<lambda>g. if fst g = category c then (fst g, snd g @ [name c]) else g) acc"
    by (simp add: add_to_group_def)
  then have "map fst acc' = map fst acc" by (simp add: comp_def if_distrib cong: if_cong)
  with assms(2) show ?thesis by simp
next
  case False
  show ?thesis
  proof (cases "category c \<in> set object_prototype_names")
    case True
    with False assms(1) show ?thesis by (simp add: add_to_group_def)
  next
    case fresh: False
    with False assms(1) have "acc' = acc @ [(category c, [name c])]"
      by (simp add: add_to_group_def)
    with assms(2) fresh show ?thesis by simp
  qed
qed

lemma reduce_groups_inherited:
  assumes "set (map fst acc) \<inter> set object_prototype_names = {}"
    and "\<exists>c \<in> set cs. category c \<in> set object_prototype_names"
  shows "reduce_groups ext acc cs =
           Inl (TypeError (typeErrorMessage ext (NotAFunction ''acc[component.category].push'')))"
  using assms
proof (induction cs arbitrary: acc)
  case Nil
  then show ?case by simp
next
  case (Cons c cs)
  show ?case
  proof (cases "category c \<in> set object_prototype_names")
    case True
    with Cons.prems(1) have "category c \<notin> set (map fst acc)" by blast
    with True show ?thesis by (simp add: add_to_group_def)
  next
    case False
    with Cons.prems(2) have later: "\<exists>c \<in> set cs. category c \<in> set object_prototype_names"
      by simp
    from False have "\<exists>acc'. add_to_group ext acc c = Inr acc'"
      by (cases "category c \<in> set (map fst acc)") (simp_all add: add_to_group_def)
    then obtain acc' where step: "add_to_group ext acc c = Inr acc'" by blast
    from add_to_group_keys [OF step Cons.prems(1)] later
    have "reduce_groups ext acc' cs =
            Inl (TypeError (typeErrorMessage ext (NotAFunction ''acc[component.category].push'')))"
      by (rule Cons.IH)
    with step show ?thesis by simp
  qed
qed

text \<open>
  The grouping throws as soon as one category is a name that \<^verbatim>\<open>{}\<close> inherits: the group is
  not created, and the inherited value has no \<^verbatim>\<open>push\<close>.
\<close>

lemma group_by_category_inherited:
  assumes "\<exists>c \<in> set cs. category c \<in> set object_prototype_names"
  shows "group_by_category ext cs =
           Inl (TypeError (typeErrorMessage ext (NotAFunction ''acc[component.category].push'')))"
  unfolding group_by_category_def
  by (rule reduce_groups_inherited [OF _ assms]) simp

lemma handleGetComponent_sanitiser:
  assumes "validateAndSanitizeParams ext ''get_component'' p tr = (Inl e, tr1)"
  shows "handleGetComponent ext p tr =
           (Inr (text_envelope (''Error retrieving component: '' @ errorMessage e)),
            tr1 @ [LogError ''Error in handleGetComponent'' e])"
  by (simp add: handleGetComponent_catch handleGetComponent_try_sanitiser [OF assms])

lemma handleGetComponent_fails:
  assumes "handleGetComponent_try ext p tr = (Inl e, tr1)"
  shows "handleGetComponent ext p tr =
           (Inr (text_envelope (''Error retrieving component: '' @ errorMessage e)),
            tr1 @ [LogError ''Error in handleGetComponent'' e])"
  by (simp add: handleGetComponent_catch assms)

lemma handleGetComponent_invalid:
  assumes "validateAndSanitizeParams ext ''get_component'' p tr = (Inr v, tr1)"
    and "(\<forall>x. get_property v ''componentName'' \<noteq> JStr x)"
  shows "\<exists>issues. issues \<noteq> []
           \<and> handleGetComponent ext p tr =
           (Inr (text_envelope (''Error retrieving component: '' @ zodMessage ext issues)),
            tr1 @ [LogError ''Error in handleGetComponent'' (ZodError (zodMessage ext issues))])"
proof -
  from handleGetComponent_try_invalid [OF assms] obtain issues
    where ne: "issues \<noteq> []"
      and bad: "handleGetComponent_try ext p tr = (Inl (ZodError (zodMessage ext issues)), tr1)"
    by blast
  have "issues \<noteq> []
           \<and> handleGetComponent ext p tr =
           (Inr (text_envelope (''Error retrieving component: '' @ zodMessage ext issues)),
            tr1 @ [LogError ''Error in handleGetComponent'' (ZodError (zodMessage ext issues))])"
    using ne by (simp add: handleGetComponent_catch bad errorMessage_def)
  then show ?thesis by (rule exI)
qed

lemma handleGetComponent_store:
  assumes "validateAndSanitizeParams ext ''get_component'' p tr = (Inr v, tr1)"
    and "get_property v ''componentName'' = JStr n"
    and "getComponentSource ext n
            (tr1 @ [LogInfo (''Getting component source for: '' @ n),
               Invoke ''getComponentSource'' [JStr n]]) = (Inl e, tr3)"
  shows "handleGetComponent ext p tr =
           (Inr (text_envelope (''Error retrieving component: '' @ errorMessage e)),
            tr3 @ [LogError ''Error in handleGetComponent'' e])"
  by (simp add: handleGetComponent_catch handleGetComponent_try_store [OF assms])

lemma handleGetComponent_absent:
  assumes "validateAndSanitizeParams ext ''get_component'' p tr = (Inr v, tr1)"
    and "get_property v ''componentName'' = JStr n"
    and "getComponentSource ext n
            (tr1 @ [LogInfo (''Getting component source for: '' @ n),
               Invoke ''getComponentSource'' [JStr n]]) = (Inr found, tr3)"
    and "found = None \<or> found = Some []"
  shows "handleGetComponent ext p tr =
           (Inr (text_envelope (''Error retrieving component: '' @ errorMessage (Error (''Component '' @ squote @ n @ squote @ '' not found'')))),
            tr3 @ [LogError ''Error in handleGetComponent'' (Error (''Component '' @ squote @ n @ squote @ '' not found''))])"
  by (simp add: handleGetComponent_catch handleGetComponent_try_absent [OF assms])

lemma handleGetComponentDemo_sanitiser:
  assumes "validateAndSanitizeParams ext ''get_component_demo'' p tr = (Inl e, tr1)"
  shows "handleGetComponentDemo ext p tr =
           (Inr (text_envelope (''Error retrieving component demo: '' @ errorMessage e)),
            tr1 @ [LogError ''Error in handleGetComponentDemo'' e])"
  by (simp add: handleGetComponentDemo_catch handleGetComponentDemo_try_sanitiser [OF assms])

lemma handleGetComponentDemo_fails:
  assumes "handleGetComponentDemo_try ext p tr = (Inl e, tr1)"
  shows "handleGetComponentDemo ext p tr =
           (Inr (text_envelope (''Error retrieving component demo: '' @ errorMessage e)),
            tr1 @ [LogError ''Error in handleGetComponentDemo'' e])"
  by (simp add: handleGetComponentDemo_catch assms)

lemma handleGetComponentDemo_invalid:
  assumes "validateAndSanitizeParams ext ''get_component_demo'' p tr = (Inr v, tr1)"
    and "(\<forall>x. get_property v ''componentName'' \<noteq> JStr x)"
  shows "\<exists>issues. issues \<noteq> []
           \<and> handleGetComponentDemo ext p tr =
           (Inr (text_envelope (''Error retrieving component demo: '' @ zodMessage ext issues)),
            tr1 @ [LogError ''Error in handleGetComponentDemo'' (ZodError (zodMessage ext issues))])"
proof -
  from handleGetComponentDemo_try_invalid [OF assms] obtain issues
    where ne: "issues \<noteq> []"
      and bad: "handleGetComponentDemo_try ext p tr = (Inl (ZodError (zodMessage ext issues)), tr1)"
    by blast
  have "issues \<noteq> []
           \<and> handleGetComponentDemo ext p tr =
           (Inr (text_envelope (''Error retrieving component demo: '' @ zodMessage ext issues)),
            tr1 @ [LogError ''Error in handleGetComponentDemo'' (ZodError (zodMessage ext issues))])"
    using ne by (simp add: handleGetComponentDemo_catch bad errorMessage_def)
  then show ?thesis by (rule exI)
qed

lemma handleGetComponentDemo_store:
  assumes "validateAndSanitizeParams ext ''get_component_demo'' p tr = (Inr v, tr1)"
    and "get_property v ''componentName'' = JStr n"
    and "getComponentDemo ext n
            (tr1 @ [LogInfo (''Getting component demo for: '' @ n),
               Invoke ''getComponentDemo'' [JStr n]]) = (Inl e, tr3)"
  shows "handleGetComponentDemo ext p tr =
           (Inr (text_envelope (''Error retrieving component demo: '' @ errorMessage e)),
            tr3 @ [LogError ''Error in handleGetComponentDemo'' e])"
  by (simp add: handleGetComponentDemo_catch handleGetComponentDemo_try_store [OF assms])

lemma handleGetComponentDemo_absent:
  assumes "validateAndSanitizeParams ext ''get_component_demo'' p tr = (Inr v, tr1)"
    and "get_property v ''componentName'' = JStr n"
    and "getComponentDemo ext n
            (tr1 @ [LogInfo (''Getting component demo for: '' @ n),
               Invoke ''getComponentDemo'' [JStr n]]) = (Inr found, tr3)"
    and "found = None \<or> found = Some []"
  shows "handleGetComponentDemo ext p tr =
           (Inr (text_envelope (''Error retrieving component demo: '' @ errorMessage (Error (''Demo for component '' @ squote @ n @ squote @ '' not found'')))),
            tr3 @ [LogError ''Error in handleGetComponentDemo'' (Error (''Demo for component '' @ squote @ n @ squote @ '' not found''))])"
  by (simp add: handleGetComponentDemo_catch handleGetComponentDemo_try_absent [OF assms])

lemma handleListComponents_sanitiser:
  assumes "validateAndSanitizeParams ext ''list_components'' p tr = (Inl e, tr1)"
  shows "handleListComponents ext p tr =
           (Inr (text_envelope (''Error listing components: '' @ errorMessage e)),
            tr1 @ [LogError ''Error in handleListComponents'' e])"
  by (simp add: handleListComponents_catch handleListComponents_try_sanitiser [OF assms])

lemma handleListComponents_fails:
  assumes "handleListComponents_try ext p tr = (Inl e, tr1)"
  shows "handleListComponents ext p tr =
           (Inr (text_envelope (''Error listing components: '' @ errorMessage e)),
            tr1 @ [LogError ''Error in handleListComponents'' e])"
  by (simp add: handleListComponents_catch assms)

lemma handleListComponents_invalid:
  assumes "validateAndSanitizeParams ext ''list_components'' p tr = (Inr v, tr1)"
    and "((\<forall>fs. v \<noteq> JObj fs)
        \<or> (get_property v ''category'' \<noteq> JUndefined
           \<and> (\<forall>x \<in> set categories. get_property v ''category'' \<noteq> JStr x)))"
  shows "\<exists>issues. issues \<noteq> []
           \<and> handleListComponents ext p tr =
           (Inr (text_envelope (''Error listing components: '' @ zodMessage ext issues)),
            tr1 @ [LogError ''Error in handleListComponents'' (ZodError (zodMessage ext issues))])"
proof -
  from handleListComponents_try_invalid [OF assms] obtain issues
    where ne: "issues \<noteq> []"
      and bad: "handleListComponents_try ext p tr = (Inl (ZodError (zodMessage ext issues)), tr1)"
    by blast
  have "issues \<noteq> []
           \<and> handleListComponents ext p tr =
           (Inr (text_envelope (''Error listing components: '' @ zodMessage ext issues)),
            tr1 @ [LogError ''Error in handleListComponents'' (ZodError (zodMessage ext issues))])"
    using ne by (simp add: handleListComponents_catch bad errorMessage_def)
  then show ?thesis by (rule exI)
qed

lemma handleListComponents_store:
  assumes "validateAndSanitizeParams ext ''list_components'' p tr = (Inr v, tr1)"
    and "parse_category ext v tr1 = (Inr c, tr1)"
    and "getAvailableComponents ext c
            (tr1 @ [LogInfo (''Listing components''
                 @ (case c of Some x \<Rightarrow> '' for category: '' @ x | None \<Rightarrow> [])),
               Invoke ''getAvailableComponents'' [optional_arg c]]) = (Inl e, tr3)"
  shows "handleListComponents ext p tr =
           (Inr (text_envelope (''Error listing components: '' @ errorMessage e)),
            tr3 @ [LogError ''Error in handleListComponents'' e])"
  by (simp add: handleListComponents_catch handleListComponents_try_store [OF assms])

lemma handleListComponents_group:
  assumes "validateAndSanitizeParams ext ''list_components'' p tr = (Inr v, tr1)"
    and "parse_category ext v tr1 = (Inr c, tr1)"
    and "getAvailableComponents ext c
            (tr1 @ [LogInfo (''Listing components''
                 @ (case c of Some x \<Rightarrow> '' for category: '' @ x | None \<Rightarrow> [])),
               Invoke ''getAvailableComponents'' [optional_arg c]]) = (Inr found, tr3)"
    and "\<exists>x \<in> set found. category x \<in> set object_prototype_names"
  shows "handleListComponents ext p tr =
           (Inr (text_envelope (''Error listing components: '' @ errorMessage (TypeError (typeErrorMessage ext (NotAFunction ''acc[component.category].push''))))),
            tr3 @ [LogError ''Error in handleListComponents'' (TypeError (typeErrorMessage ext (NotAFunction ''acc[component.category].push'')))])"
proof -
  from assms(4) have some: "found \<noteq> []" by auto
  note thrown = group_by_category_inherited [OF assms(4), of ext]
  show ?thesis
    by (simp add: handleListComponents_catch handleListComponents_try_group [OF assms(1-3) some thrown])
qed

lemma handleGetComponentMetadata_sanitiser:
  assumes "validateAndSanitizeParams ext ''get_component_metadata'' p tr = (Inl e, tr1)"
  shows "handleGetComponentMetadata ext p tr =
           (Inr (text_envelope (''Error retrieving component metadata: '' @ errorMessage e)),
            tr1 @ [LogError ''Error in handleGetComponentMetadata'' e])"
  by (simp add: handleGetComponentMetadata_catch handleGetComponentMetadata_try_sanitiser [OF assms])

lemma handleGetComponentMetadata_fails:
  assumes "handleGetComponentMetadata_try ext p tr = (Inl e, tr1)"
  shows "handleGetComponentMetadata ext p tr =
           (Inr (text_envelope (''Error retrieving component metadata: '' @ errorMessage e)),
            tr1 @ [LogError ''Error in handleGetComponentMetadata'' e])"
  by (simp add: handleGetComponentMetadata_catch assms)

lemma handleGetComponentMetadata_invalid:
  assumes "validateAndSanitizeParams ext ''get_component_metadata'' p tr = (Inr v, tr1)"
    and "(\<forall>x. get_property v ''componentName'' \<noteq> JStr x)"
  shows "\<exists>issues. issues \<noteq> []
           \<and> handleGetComponentMetadata ext p tr =
           (Inr (text_envelope (''Error retrieving component metadata: '' @ zodMessage ext issues)),
            tr1 @ [LogError ''Error in handleGetComponentMetadata'' (ZodError (zodMessage ext issues))])"
proof -
  from handleGetComponentMetadata_try_invalid [OF assms] obtain issues
    where ne: "issues \<noteq> []"
      and bad: "handleGetComponentMetadata_try ext p tr = (Inl (ZodError (zodMessage ext issues)), tr1)"
    by blast
  have "issues \<noteq> []
           \<and> handleGetComponentMetadata ext p tr =
           (Inr (text_envelope (''Error retrieving component metadata: '' @ zodMessage ext issues)),
            tr1 @ [LogError ''Error in handleGetComponentMetadata'' (ZodError (zodMessage ext issues))])"
    using ne by (simp add: handleGetComponentMetadata_catch bad errorMessage_def)
  then show ?thesis by (rule exI)
qed

lemma handleGetComponentMetadata_store:
  assumes "validateAndSanitizeParams ext ''get_component_metadata'' p tr = (Inr v, tr1)"
    and "get_property v ''componentName'' = JStr n"
    and "getComponentMetadata ext n
            (tr1 @ [LogInfo (''Getting component metadata for: '' @ n),
               Invoke ''getComponentMetadata'' [JStr n]]) = (Inl e, tr3)"
  shows "handleGetComponentMetadata ext p tr =
           (Inr (text_envelope (''Error retrieving component metadata: '' @ errorMessage e)),
            tr3 @ [LogError ''Error in handleGetComponentMetadata'' e])"
  by (simp add: handleGetComponentMetadata_catch handleGetComponentMetadata_try_store [OF assms])

lemma handleGetComponentMetadata_absent:
  assumes "validateAndSanitizeParams ext ''get_component_metadata'' p tr = (Inr v, tr1)"
    and "get_property v ''componentName'' = JStr n"
    and "getComponentMetadata ext n
            (tr1 @ [LogInfo (''Getting component metadata for: '' @ n),
               Invoke ''getComponentMetadata'' [JStr n]]) = (Inr None, tr3)"
  shows "handleGetComponentMetadata ext p tr =
           (Inr (text_envelope (''Error retrieving component metadata: '' @ errorMessage (Error (''Metadata for component '' @ squote @ n @ squote @ '' not found'')))),
            tr3 @ [LogError ''Error in handleGetComponentMetadata'' (Error (''Metadata for component '' @ squote @ n @ squote @ '' not found''))])"
  by (simp add: handleGetComponentMetadata_catch handleGetComponentMetadata_try_absent [OF assms])

lemma handleSearchComponents_sanitiser:
  assumes "validateAndSanitizeParams ext ''search_components'' p tr = (Inl e, tr1)"
  shows "handleSearchComponents ext p tr =
           (Inr (text_envelope (''Error searching components: '' @ errorMessage e)),
            tr1 @ [LogError ''Error in handleSearchComponents'' e])"
  by (simp add: handleSearchComponents_catch handleSearchComponents_try_sanitiser [OF assms])

lemma handleSearchComponents_fails:
  assumes "handleSearchComponents_try ext p tr = (Inl e, tr1)"
  shows "handleSearchComponents ext p tr =
           (Inr (text_envelope (''Error searching components: '' @ errorMessage e)),
            tr1 @ [LogError ''Error in handleSearchComponents'' e])"
  by (simp add: handleSearchComponents_catch assms)

lemma handleSearchComponents_invalid:
  assumes "validateAndSanitizeParams ext ''search_components'' p tr = (Inr v, tr1)"
    and "((\<forall>x. get_property v ''query'' \<noteq> JStr x)
        \<or> (get_property v ''category'' \<noteq> JUndefined
           \<and> (\<forall>x \<in> set categories. get_property v ''category'' \<noteq> JStr x)))"
  shows "\<exists>issues. issues \<noteq> []
           \<and> handleSearchComponents ext p tr =
           (Inr (text_envelope (''Error searching components: '' @ zodMessage ext issues)),
            tr1 @ [LogError ''Error in handleSearchComponents'' (ZodError (zodMessage ext issues))])"
proof -
  from handleSearchComponents_try_invalid [OF assms] obtain issues
    where ne: "issues \<noteq> []"
      and bad: "handleSearchComponents_try ext p tr = (Inl (ZodError (zodMessage ext issues)), tr1)"
    by blast
  have "issues \<noteq> []
           \<and> handleSearchComponents ext p tr =
           (Inr (text_envelope (''Error searching components: '' @ zodMessage ext issues)),
            tr1 @ [LogError ''Error in handleSearchComponents'' (ZodError (zodMessage ext issues))])"
    using ne by (simp add: handleSearchComponents_catch bad errorMessage_def)
  then show ?thesis by (rule exI)
qed

lemma handleSearchComponents_store:
  assumes "validateAndSanitizeParams ext ''search_components'' p tr = (Inr v, tr1)"
    and "parse_query_category ext v tr1 = (Inr (q, c), tr1)"
    and "searchComponents ext q c
            (tr1 @ [LogInfo (''Searching components with query: '' @ dquote @ q @ dquote
                 @ (case c of Some x \<Rightarrow> '' in category: '' @ x | None \<Rightarrow> [])),
               Invoke ''searchComponents'' [JStr q, optional_arg c]]) = (Inl e, tr3)"
  shows "handleSearchComponents ext p tr =
           (Inr (text_envelope (''Error searching components: '' @ errorMessage e)),
            tr3 @ [LogError ''Error in handleSearchComponents'' e])"
  by (simp add: handleSearchComponents_catch handleSearchComponents_try_store [OF assms])

lemma handleSearchComponents_group:
  assumes "validateAndSanitizeParams ext ''search_components'' p tr = (Inr v, tr1)"
    and "parse_query_category ext v tr1 = (Inr (q, c), tr1)"
    and "searchComponents ext q c
            (tr1 @ [LogInfo (''Searching components with query: '' @ dquote @ q @ dquote
                 @ (case c of Some x \<Rightarrow> '' in category: '' @ x | None \<Rightarrow> [])),
               Invoke ''searchComponents'' [JStr q, optional_arg c]]) = (Inr found, tr3)"
    and "\<exists>x \<in> set found. category x \<in> set object_prototype_names"
  shows "handleSearchComponents ext p tr =
           (Inr (text_envelope (''Error searching components: '' @ errorMessage (TypeError (typeErrorMessage ext (NotAFunction ''acc[component.category].push''))))),
            tr3 @ [LogError ''Error in handleSearchComponents'' (TypeError (typeErrorMessage ext (NotAFunction ''acc[component.category].push'')))])"
proof -
  from assms(4) have some: "found \<noteq> []" by auto
  note thrown = group_by_category_inherited [OF assms(4), of ext]
  show ?thesis
    by (simp add: handleSearchComponents_catch handleSearchComponents_try_group [OF assms(1-3) some thrown])
qed

text \<open>
  Claim C9. For every input, every behaviour of the sanitiser and of the component store
  and every trace, each of the five tool handlers returns (never throws) an envelope whose
  content is exactly one item of type \<^verbatim>\<open>text\<close>. The handler returns what its \<^verbatim>\<open>try\<close> block
  returns, and when the block throws, the text is the handler's prefix followed by the
  message of the error, which is also logged. In particular that is the result when the
  sanitiser throws, when the sanitised parameters violate the handler's schema (the
  message is the schema's), when the component store rejects, when the store has nothing
  for the name, and when the grouping of the listed components throws.
\<close>

theorem C9_handlers_return_text_envelopes:
  "(\<exists>t tr'. handleGetComponent ext p tr = (Inr \<lparr>content = [\<lparr>type = ''text'', text = t\<rparr>]\<rparr>, tr'))
   \<and> (\<exists>t tr'. handleGetComponentDemo ext p tr = (Inr \<lparr>content = [\<lparr>type = ''text'', text = t\<rparr>]\<rparr>, tr'))
   \<and> (\<exists>t tr'. handleListComponents ext p tr = (Inr \<lparr>content = [\<lparr>type = ''text'', text = t\<rparr>]\<rparr>, tr'))
   \<and> (\<exists>t tr'. handleGetComponentMetadata ext p tr = (Inr \<lparr>content = [\<lparr>type = ''text'', text = t\<rparr>]\<rparr>, tr'))
   \<and> (\<exists>t tr'. handleSearchComponents ext p tr = (Inr \<lparr>content = [\<lparr>type = ''text'', text = t\<rparr>]\<rparr>, tr'))
   \<and> handleGetComponent ext p tr =
       (case handleGetComponent_try ext p tr of
          (Inl e, tr') \<Rightarrow>
           (Inr \<lparr>content = [\<lparr>type = ''text'',
                            text = ''Error retrieving component: '' @ errorMessage e\<rparr>]\<rparr>,
           tr' @ [LogError ''Error in handleGetComponent''
                   e])
        | (Inr x, tr') \<Rightarrow> (Inr x, tr'))
   \<and> handleGetComponentDemo ext p tr =
       (case handleGetComponentDemo_try ext p tr of
          (Inl e, tr') \<Rightarrow>
           (Inr \<lparr>content = [\<lparr>type = ''text'',
                            text = ''Error retrieving component demo: '' @ errorMessage e\<rparr>]\<rparr>,
           tr' @ [LogError ''Error in handleGetComponentDemo''
                   e])
        | (Inr x, tr') \<Rightarrow> (Inr x, tr'))
   \<and> handleListComponents ext p tr =
       (case handleListComponents_try ext p tr of
          (Inl e, tr') \<Rightarrow>
           (Inr \<lparr>content = [\<lparr>type = ''text'',
                            text = ''Error listing components: '' @ errorMessage e\<rparr>]\<rparr>,
           tr' @ [LogError ''Error in handleListComponents''
                   e])
        | (Inr x, tr') \<Rightarrow> (Inr x, tr'))
   \<and> handleGetComponentMetadata ext p tr =
       (case handleGetComponentMetadata_try ext p tr of
          (Inl e, tr') \<Rightarrow>
           (Inr \<lparr>content = [\<lparr>type = ''text'',
                            text = ''Error retrieving component metadata: '' @ errorMessage e\<rparr>]\<rparr>,
           tr' @ [LogError ''Error in handleGetComponentMetadata''
                   e])
        | (Inr x, tr') \<Rightarrow> (Inr x, tr'))
   \<and> handleSearchComponents ext p tr =
       (case handleSearchComponents_try ext p tr of
          (Inl e, tr') \<Rightarrow>
           (Inr \<lparr>content = [\<lparr>type = ''text'',
                            text = ''Error searching components: '' @ errorMessage e\<rparr>]\<rparr>,
           tr' @ [LogError ''Error in handleSearchComponents''
                   e])
        | (Inr x, tr') \<Rightarrow> (Inr x, tr'))
   \<and> (\<forall>e tr1.
        validateAndSanitizeParams ext ''get_component'' p tr = (Inl e, tr1) \<longrightarrow>
        handleGetComponent ext p tr =
          (Inr \<lparr>content = [\<lparr>type = ''text'',
                            text = ''Error retrieving component: '' @ errorMessage e\<rparr>]\<rparr>,
           tr1 @ [LogError ''Error in handleGetComponent''
                   e]))
   \<and> (\<forall>v tr1.
        validateAndSanitizeParams ext ''get_component'' p tr = (Inr v, tr1)
        \<and> (\<forall>x. get_property v ''componentName'' \<noteq> JStr x) \<longrightarrow>
        (\<exists>issues. issues \<noteq> []
           \<and> handleGetComponent ext p tr =
          (Inr \<lparr>content = [\<lparr>type = ''text'',
                            text = ''Error retrieving component: '' @ zodMessage ext issues\<rparr>]\<rparr>,
           tr1 @ [LogError ''Error in handleGetComponent''
                   (ZodError (zodMessage ext issues))])))
   \<and> (\<forall>v tr1 n e tr3.
        validateAndSanitizeParams ext ''get_component'' p tr = (Inr v, tr1)
        \<and> get_property v ''componentName'' = JStr n
        \<and> getComponentSource ext n
            (tr1 @ [LogInfo (''Getting component source for: '' @ n),
               Invoke ''getComponentSource'' [JStr n]]) = (Inl e, tr3) \<longrightarrow>
        handleGetComponent ext p tr =
          (Inr \<lparr>content = [\<lparr>type = ''text'',
                            text = ''Error retrieving component: '' @ errorMessage e\<rparr>]\<rparr>,
           tr3 @ [LogError ''Error in handleGetComponent''
                   e]))
   \<and> (\<forall>v tr1 n found tr3.
        validateAndSanitizeParams ext ''get_component'' p tr = (Inr v, tr1)
        \<and> get_property v ''componentName'' = JStr n
        \<and> getComponentSource ext n
            (tr1 @ [LogInfo (''Getting component source for: '' @ n),
               Invoke ''getComponentSource'' [JStr n]]) = (Inr found, tr3)
        \<and> (found = None \<or> found = Some []) \<longrightarrow>
        handleGetComponent ext p tr =
          (Inr \<lparr>content = [\<lparr>type = ''text'',
                            text = ''Error retrieving component: '' @ ''Component '' @ squote @ n @ squote @ '' not found''\<rparr>]\<rparr>,
           tr3 @ [LogError ''Error in handleGetComponent''
                   (Error (''Component '' @ squote @ n @ squote @ '' not found''))]))
   \<and> (\<forall>e tr1.
        validateAndSanitizeParams ext ''get_component_demo'' p tr = (Inl e, tr1) \<longrightarrow>
        handleGetComponentDemo ext p tr =
          (Inr \<lparr>content = [\<lparr>type = ''text'',
                            text = ''Error retrieving component demo: '' @ errorMessage e\<rparr>]\<rparr>,
           tr1 @ [LogError ''Error in handleGetComponentDemo''
                   e]))
   \<and> (\<forall>v tr1.
        validateAndSanitizeParams ext ''get_component_demo'' p tr = (Inr v, tr1)
        \<and> (\<forall>x. get_property v ''componentName'' \<noteq> JStr x) \<longrightarrow>
        (\<exists>issues. issues \<noteq> []
           \<and> handleGetComponentDemo ext p tr =
          (Inr \<lparr>content = [\<lparr>type = ''text'',
                            text = ''Error retrieving component demo: '' @ zodMessage ext issues\<rparr>]\<rparr>,
           tr1 @ [LogError ''Error in handleGetComponentDemo''
                   (ZodError (zodMessage ext issues))])))
   \<and> (\<forall>v tr1 n e tr3.
        validateAndSanitizeParams ext ''get_component_demo'' p tr = (Inr v, tr1)
        \<and> get_property v ''componentName'' = JStr n
        \<and> getComponentDemo ext n
            (tr1 @ [LogInfo (''Getting component demo for: '' @ n),
               Invoke ''getComponentDemo'' [JStr n]]) = (Inl e, tr3) \<longrightarrow>
        handleGetComponentDemo ext p tr =
          (Inr \<lparr>content = [\<lparr>type = ''text'',
                            text = ''Error retrieving component demo: '' @ errorMessage e\<rparr>]\<rparr>,
           tr3 @ [LogError ''Error in handleGetComponentDemo''
                   e]))
   \<and> (\<forall>v tr1 n found tr3.
        validateAndSanitizeParams ext ''get_component_demo'' p tr = (Inr v, tr1)
        \<and> get_property v ''componentName'' = JStr n
        \<and> getComponentDemo ext n
            (tr1 @ [LogInfo (''Getting component demo for: '' @ n),
               Invoke ''getComponentDemo'' [JStr n]]) = (Inr found, tr3)
        \<and> (found = None \<or> found = Some []) \<longrightarrow>
        handleGetComponentDemo ext p tr =
          (Inr \<lparr>content = [\<lparr>type = ''text'',
                            text = ''Error retrieving component demo: '' @ ''Demo for component '' @ squote @ n @ squote @ '' not found''\<rparr>]\<rparr>,
           tr3 @ [LogError ''Error in handleGetComponentDemo''
                   (Error (''Demo for component '' @ squote @ n @ squote @ '' not found''))]))
   \<and> (\<forall>e tr1.
        validateAndSanitizeParams ext ''list_components'' p tr = (Inl e, tr1) \<longrightarrow>
        handleListComponents ext p tr =
          (Inr \<lparr>content = [\<lparr>type = ''text'',
                            text = ''Error listing components: '' @ errorMessage e\<rparr>]\<rparr>,
           tr1 @ [LogError ''Error in handleListComponents''
                   e]))
   \<and> (\<forall>v tr1.
        validateAndSanitizeParams ext ''list_components'' p tr = (Inr v, tr1)
        \<and> ((\<forall>fs. v \<noteq> JObj fs)
        \<or> (get_property v ''category'' \<noteq> JUndefined
           \<and> (\<forall>x \<in> set categories. get_property v ''category'' \<noteq> JStr x))) \<longrightarrow>
        (\<exists>issues. issues \<noteq> []
           \<and> handleListComponents ext p tr =
          (Inr \<lparr>content = [\<lparr>type = ''text'',
                            text = ''Error listing components: '' @ zodMessage ext issues\<rparr>]\<rparr>,
           tr1 @ [LogError ''Error in handleListComponents''
                   (ZodError (zodMessage ext issues))])))
   \<and> (\<forall>v tr1 c e tr3.
        validateAndSanitizeParams ext ''list_components'' p tr = (Inr v, tr1)
        \<and> parse_category ext v tr1 = (Inr c, tr1)
        \<and> getAvailableComponents ext c
            (tr1 @ [LogInfo (''Listing components''
                 @ (case c of Some x \<Rightarrow> '' for category: '' @ x | None \<Rightarrow> [])),
               Invoke ''getAvailableComponents'' [optional_arg c]]) = (Inl e, tr3) \<longrightarrow>
        handleListComponents ext p tr =
          (Inr \<lparr>content = [\<lparr>type = ''text'',
                            text = ''Error listing components: '' @ errorMessage e\<rparr>]\<rparr>,
           tr3 @ [LogError ''Error in handleListComponents''
                   e]))
   \<and> (\<forall>v tr1 c found tr3.
        validateAndSanitizeParams ext ''list_components'' p tr = (Inr v, tr1)
        \<and> parse_category ext v tr1 = (Inr c, tr1)
        \<and> getAvailableComponents ext c
            (tr1 @ [LogInfo (''Listing components''
                 @ (case c of Some x \<Rightarrow> '' for category: '' @ x | None \<Rightarrow> [])),
               Invoke ''getAvailableComponents'' [optional_arg c]]) = (Inr found, tr3)
        \<and> (\<exists>x \<in> set found. category x \<in> set object_prototype_names) \<longrightarrow>
        handleListComponents ext p tr =
          (Inr \<lparr>content = [\<lparr>type = ''text'',
                            text = ''Error listing components: '' @ typeErrorMessage ext (NotAFunction ''acc[component.category].push'')\<rparr>]\<rparr>,
           tr3 @ [LogError ''Error in handleListComponents''
                   (TypeError (typeErrorMessage ext (NotAFunction ''acc[component.category].push'')))]))
   \<and> (\<forall>e tr1.
        validateAndSanitizeParams ext ''get_component_metadata'' p tr = (Inl e, tr1) \<longrightarrow>
        handleGetComponentMetadata ext p tr =
          (Inr \<lparr>content = [\<lparr>type = ''text'',
                            text = ''Error retrieving component metadata: '' @ errorMessage e\<rparr>]\<rparr>,
           tr1 @ [LogError ''Error in handleGetComponentMetadata''
                   e]))
   \<and> (\<forall>v tr1.
        validateAndSanitizeParams ext ''get_component_metadata'' p tr = (Inr v, tr1)
        \<and> (\<forall>x. get_property v ''componentName'' \<noteq> JStr x) \<longrightarrow>
        (\<exists>issues. issues \<noteq> []
           \<and> handleGetComponentMetadata ext p tr =
          (Inr \<lparr>content = [\<lparr>type = ''text'',
                            text = ''Error retrieving component metadata: '' @ zodMessage ext issues\<rparr>]\<rparr>,
           tr1 @ [LogError ''Error in handleGetComponentMetadata''
                   (ZodError (zodMessage ext issues))])))
   \<and> (\<forall>v tr1 n e tr3.
        validateAndSanitizeParams ext ''get_component_metadata'' p tr = (Inr v, tr1)
        \<and> get_property v ''componentName'' = JStr n
        \<and> getComponentMetadata ext n
            (tr1 @ [LogInfo (''Getting component metadata for: '' @ n),
               Invoke ''getComponentMetadata'' [JStr n]]) = (Inl e, tr3) \<longrightarrow>
        handleGetComponentMetadata ext p tr =
          (Inr \<lparr>content = [\<lparr>type = ''text'',
                            text = ''Error retrieving component metadata: '' @ errorMessage e\<rparr>]\<rparr>,
           tr3 @ [LogError ''Error in handleGetComponentMetadata''
                   e]))
   \<and> (\<forall>v tr1 n tr3.
        validateAndSanitizeParams ext ''get_component_metadata'' p tr = (Inr v, tr1)
        \<and> get_property v ''componentName'' = JStr n
        \<and> getComponentMetadata ext n
            (tr1 @ [LogInfo (''Getting component metadata for: '' @ n),
               Invoke ''getComponentMetadata'' [JStr n]]) = (Inr None, tr3) \<longrightarrow>
        handleGetComponentMetadata ext p tr =
          (Inr \<lparr>content = [\<lparr>type = ''text'',
                            text = ''Error retrieving component metadata: '' @ ''Metadata for component '' @ squote @ n @ squote @ '' not found''\<rparr>]\<rparr>,
           tr3 @ [LogError ''Error in handleGetComponentMetadata''
                   (Error (''Metadata for component '' @ squote @ n @ squote @ '' not found''))]))
   \<and> (\<forall>e tr1.
        validateAndSanitizeParams ext ''search_components'' p tr = (Inl e, tr1) \<longrightarrow>
        handleSearchComponents ext p tr =
          (Inr \<lparr>content = [\<lparr>type = ''text'',
                            text = ''Error searching components: '' @ errorMessage e\<rparr>]\<rparr>,
           tr1 @ [LogError ''Error in handleSearchComponents''
                   e]))
   \<and> (\<forall>v tr1.
        validateAndSanitizeParams ext ''search_components'' p tr = (Inr v, tr1)
        \<and> ((\<forall>x. get_property v ''query'' \<noteq> JStr x)
        \<or> (get_property v ''category'' \<noteq> JUndefined
           \<and> (\<forall>x \<in> set categories. get_property v ''category'' \<noteq> JStr x))) \<longrightarrow>
        (\<exists>issues. issues \<noteq> []
           \<and> handleSearchComponents ext p tr =
          (Inr \<lparr>content = [\<lparr>type = ''text'',
                            text = ''Error searching components: '' @ zodMessage ext issues\<rparr>]\<rparr>,
           tr1 @ [LogError ''Error in handleSearchComponents''
                   (ZodError (zodMessage ext issues))])))
   \<and> (\<forall>v tr1 q c e tr3.
        validateAndSanitizeParams ext ''search_components'' p tr = (Inr v, tr1)
        \<and> parse_query_category ext v tr1 = (Inr (q, c), tr1)
        \<and> searchComponents ext q c
            (tr1 @ [LogInfo (''Searching components with query: '' @ dquote @ q @ dquote
                 @ (case c of Some x \<Rightarrow> '' in category: '' @ x | None \<Rightarrow> [])),
               Invoke ''searchComponents'' [JStr q, optional_arg c]]) = (Inl e, tr3) \<longrightarrow>
        handleSearchComponents ext p tr =
          (Inr \<lparr>content = [\<lparr>type = ''text'',
                            text = ''Error searching components: '' @ errorMessage e\<rparr>]\<rparr>,
           tr3 @ [LogError ''Error in handleSearchComponents''
                   e]))
   \<and> (\<forall>v tr1 q c found tr3.
        validateAndSanitizeParams ext ''search_components'' p tr = (Inr v, tr1)
        \<and> parse_query_category ext v tr1 = (Inr (q, c), tr1)
        \<and> searchComponents ext q c
            (tr1 @ [LogInfo (''Searching components with query: '' @ dquote @ q @ dquote
                 @ (case c of Some x \<Rightarrow> '' in category: '' @ x | None \<Rightarrow> [])),
               Invoke ''searchComponents'' [JStr q, optional_arg c]]) = (Inr found, tr3)
        \<and> (\<exists>x \<in> set found. category x \<in> set object_prototype_names) \<longrightarrow>
        handleSearchComponents ext p tr =
          (Inr \<lparr>content = [\<lparr>type = ''text'',
                            text = ''Error searching components: '' @ typeErrorMessage ext (NotAFunction ''acc[component.category].push'')\<rparr>]\<rparr>,
           tr3 @ [LogError ''Error in handleSearchComponents''
                   (TypeError (typeErrorMessage ext (NotAFunction ''acc[component.category].push'')))]))"
  apply (intro conjI allI impI)
  subgoal using handleGetComponent_envelope [of ext p tr] unfolding text_envelope_def .
  subgoal using handleGetComponentDemo_envelope [of ext p tr] unfolding text_envelope_def .
  subgoal using handleListComponents_envelope [of ext p tr] unfolding text_envelope_def .
  subgoal using handleGetComponentMetadata_envelope [of ext p tr] unfolding text_envelope_def .
  subgoal using handleSearchComponents_envelope [of ext p tr] unfolding text_envelope_def .
  subgoal by (rule handleGetComponent_catch [unfolded text_envelope_def])
  subgoal by (rule handleGetComponentDemo_catch [unfolded text_envelope_def])
  subgoal by (rule handleListComponents_catch [unfolded text_envelope_def])
  subgoal by (rule handleGetComponentMetadata_catch [unfolded text_envelope_def])
  subgoal by (rule handleSearchComponents_catch [unfolded text_envelope_def])
  subgoal by (rule handleGetComponent_sanitiser [unfolded text_envelope_def])
  subgoal by (elim conjE) (rule handleGetComponent_invalid [unfolded text_envelope_def]; assumption)
  subgoal by (elim conjE) (rule handleGetComponent_store [unfolded text_envelope_def]; assumption)
  subgoal by (elim conjE) (rule handleGetComponent_absent [unfolded text_envelope_def errorMessage_def thrown.case]; assumption)
  subgoal by (rule handleGetComponentDemo_sanitiser [unfolded text_envelope_def])
  subgoal by (elim conjE) (rule handleGetComponentDemo_invalid [unfolded text_envelope_def]; assumption)
  subgoal by (elim conjE) (rule handleGetComponentDemo_store [unfolded text_envelope_def]; assumption)
  subgoal by (elim conjE) (rule handleGetComponentDemo_absent [unfolded text_envelope_def errorMessage_def thrown.case]; assumption)
  subgoal by (rule handleListComponents_sanitiser [unfolded text_envelope_def])
  subgoal by (elim conjE) (rule handleListComponents_invalid [unfolded text_envelope_def]; assumption)
  subgoal by (elim conjE) (rule handleListComponents_store [unfolded text_envelope_def]; assumption)
  subgoal by (elim conjE) (rule handleListComponents_group [unfolded text_envelope_def errorMessage_def thrown.case]; assumption)
  subgoal by (rule handleGetComponentMetadata_sanitiser [unfolded text_envelope_def])
  subgoal by (elim conjE) (rule handleGetComponentMetadata_invalid [unfolded text_envelope_def]; assumption)
  subgoal by (elim conjE) (rule handleGetComponentMetadata_store [unfolded text_envelope_def]; assumption)
  subgoal by (elim conjE) (rule handleGetComponentMetadata_absent [unfolded text_envelope_def errorMessage_def thrown.case]; assumption)
  subgoal by (rule handleSearchComponents_sanitiser [unfolded text_envelope_def])
  subgoal by (elim conjE) (rule handleSearchComponents_invalid [unfolded text_envelope_def]; assumption)
  subgoal by (elim conjE) (rule handleSearchComponents_store [unfolded text_envelope_def]; assumption)
  subgoal by (elim conjE) (rule handleSearchComponents_group [unfolded text_envelope_def errorMessage_def thrown.case]; assumption)
  done

theorem C9_handlers_witness:
  "handleGetComponent (sample_externals\<lparr>validateAndSanitizeParams := (\<lambda>t p. js_throw (Error ''unsafe''))\<rparr>) (JObj []) []
     = (Inr \<lparr>content = [\<lparr>type = ''text'', text = ''Error retrieving component: unsafe''\<rparr>]\<rparr>,
        [LogError ''Error in handleGetComponent'' (Error ''unsafe'')])
   \<and> (\<exists>issues. issues \<noteq> []
      \<and> handleSearchComponents sample_externals (JObj []) []
          = (Inr \<lparr>content = [\<lparr>type = ''text'', text = ''Error searching components: '' @ zodMessage sample_externals issues\<rparr>]\<rparr>,
             [LogError ''Error in handleSearchComponents''
                (ZodError (zodMessage sample_externals issues))]))
   \<and> (\<exists>issues. issues \<noteq> []
      \<and> handleListComponents sample_externals (JObj [(''category'', JStr ''Widgets'')]) []
          = (Inr \<lparr>content = [\<lparr>type = ''text'', text = ''Error listing components: '' @ zodMessage sample_externals issues\<rparr>]\<rparr>,
             [LogError ''Error in handleListComponents''
                (ZodError (zodMessage sample_externals issues))]))
   \<and> handleGetComponentDemo (sample_externals\<lparr>getComponentDemo := (\<lambda>n. js_throw (Error ''EACCES''))\<rparr>) (JObj [(''componentName'', JStr ''Dock'')]) []
     = (Inr \<lparr>content = [\<lparr>type = ''text'', text = ''Error retrieving component demo: EACCES''\<rparr>]\<rparr>,
        [LogInfo ''Getting component demo for: Dock'',
         Invoke ''getComponentDemo'' [JStr ''Dock''],
         LogError ''Error in handleGetComponentDemo'' (Error ''EACCES'')])
   \<and> handleGetComponentMetadata sample_externals (JObj [(''componentName'', JStr ''Dock'')]) []
     = (Inr \<lparr>content = [\<lparr>type = ''text'', text = ''Error retrieving component metadata: '' @ ''Metadata for component '' @ squote @ ''Dock'' @ squote @ '' not found''\<rparr>]\<rparr>,
        [LogInfo ''Getting component metadata for: Dock'',
         Invoke ''getComponentMetadata'' [JStr ''Dock''],
         LogError ''Error in handleGetComponentMetadata'' (Error (''Metadata for component '' @ squote @ ''Dock'' @ squote @ '' not found''))])
   \<and> handleListComponents
       (sample_externals\<lparr>getAvailableComponents :=
          (\<lambda>c. js_return [\<lparr>name = ''Dock'', category = ''toString''\<rparr>])\<rparr>)
       (JObj []) []
     = (Inr \<lparr>content = [\<lparr>type = ''text'', text = ''Error listing components: acc[component.category].push is not a function''\<rparr>]\<rparr>,
        [LogInfo ''Listing components'',
         Invoke ''getAvailableComponents'' [JUndefined],
         LogError ''Error in handleListComponents''
           (TypeError ''acc[component.category].push is not a function'')])"
proof -
  let ?unsafe = "sample_externals\<lparr>validateAndSanitizeParams := (\<lambda>t p. js_throw (Error ''unsafe''))\<rparr>"
  let ?denied = "sample_externals\<lparr>getComponentDemo := (\<lambda>n. js_throw (Error ''EACCES''))\<rparr>"
  let ?odd = "sample_externals\<lparr>getAvailableComponents :=
          (\<lambda>c. js_return [\<lparr>name = ''Dock'', category = ''toString''\<rparr>])\<rparr>"
  have san_given:
    "validateAndSanitizeParams ?unsafe ''get_component'' (JObj []) [] = (Inl (Error ''unsafe''), [])"
    by (simp add: sample_externals_def js_return_def js_throw_def get_property_def issue_text_def type_error_text_def errorMessage_def optional_arg_def object_prototype_names_def parse_category_def parse_query_category_def
        zod_optional_enum_def zod_string_def categories_def)
  have san: "handleGetComponent (sample_externals\<lparr>validateAndSanitizeParams := (\<lambda>t p. js_throw (Error ''unsafe''))\<rparr>) (JObj []) []
     = (Inr \<lparr>content = [\<lparr>type = ''text'', text = ''Error retrieving component: unsafe''\<rparr>]\<rparr>,
        [LogError ''Error in handleGetComponent'' (Error ''unsafe'')])"
    using C9_handlers_return_text_envelopes
            [where ext = "?unsafe" and p = "JObj []" and tr = "[]",
             THEN conjunct2, THEN conjunct2, THEN conjunct2, THEN conjunct2, THEN conjunct2, THEN conjunct2, THEN conjunct2, THEN conjunct2, THEN conjunct2, THEN conjunct2, THEN conjunct1, rule_format, OF san_given]
    by (simp add: errorMessage_def sample_externals_def type_error_text_def)
  have inv_given:
    "validateAndSanitizeParams sample_externals ''search_components'' (JObj []) [] = (Inr (JObj []), [])
        \<and> ((\<forall>x. get_property (JObj []) ''query'' \<noteq> JStr x)
        \<or> (get_property (JObj []) ''category'' \<noteq> JUndefined
           \<and> (\<forall>x \<in> set categories. get_property (JObj []) ''category'' \<noteq> JStr x)))"
    by (simp add: sample_externals_def js_return_def js_throw_def get_property_def issue_text_def type_error_text_def errorMessage_def optional_arg_def object_prototype_names_def parse_category_def parse_query_category_def
        zod_optional_enum_def zod_string_def categories_def)
  have inv: "(\<exists>issues. issues \<noteq> []
      \<and> handleSearchComponents sample_externals (JObj []) []
          = (Inr \<lparr>content = [\<lparr>type = ''text'', text = ''Error searching components: '' @ zodMessage sample_externals issues\<rparr>]\<rparr>,
             [LogError ''Error in handleSearchComponents''
                (ZodError (zodMessage sample_externals issues))]))"
    using C9_handlers_return_text_envelopes
            [where ext = "sample_externals" and p = "JObj []" and tr = "[]",
             THEN conjunct2, THEN conjunct2, THEN conjunct2, THEN conjunct2, THEN conjunct2, THEN conjunct2, THEN conjunct2, THEN conjunct2, THEN conjunct2, THEN conjunct2, THEN conjunct2, THEN conjunct2, THEN conjunct2, THEN conjunct2, THEN conjunct2, THEN conjunct2, THEN conjunct2, THEN conjunct2, THEN conjunct2, THEN conjunct2, THEN conjunct2, THEN conjunct2, THEN conjunct2, THEN conjunct2, THEN conjunct2, THEN conjunct2, THEN conjunct2, THEN conjunct1, rule_format, OF inv_given]
    by (simp add: errorMessage_def sample_externals_def type_error_text_def)
  have inv_list_given:
    "validateAndSanitizeParams sample_externals ''list_components'' (JObj [(''category'', JStr ''Widgets'')]) [] = (Inr (JObj [(''category'', JStr ''Widgets'')]), [])
        \<and> ((\<forall>fs. (JObj [(''category'', JStr ''Widgets'')]) \<noteq> JObj fs)
        \<or> (get_property (JObj [(''category'', JStr ''Widgets'')]) ''category'' \<noteq> JUndefined
           \<and> (\<forall>x \<in> set categories. get_property (JObj [(''category'', JStr ''Widgets'')]) ''category'' \<noteq> JStr x)))"
    by (simp add: sample_externals_def js_return_def js_throw_def get_property_def issue_text_def type_error_text_def errorMessage_def optional_arg_def object_prototype_names_def parse_category_def parse_query_category_def
        zod_optional_enum_def zod_string_def categories_def)
  have inv_list: "(\<exists>issues. issues \<noteq> []
      \<and> handleListComponents sample_externals (JObj [(''category'', JStr ''Widgets'')]) []
          = (Inr \<lparr>content = [\<lparr>type = ''text'', text = ''Error listing components: '' @ zodMessage sample_externals issues\<rparr>]\<rparr>,
             [LogError ''Error in handleListComponents''
                (ZodError (zodMessage sample_externals issues))]))"
    using C9_handlers_return_text_envelopes
            [where ext = "sample_externals" and p = "JObj [(''category'', JStr ''Widgets'')]" and tr = "[]",
             THEN conjunct2, THEN conjunct2, THEN conjunct2, THEN conjunct2, THEN conjunct2, THEN conjunct2, THEN conjunct2, THEN conjunct2, THEN conjunct2, THEN conjunct2, THEN conjunct2, THEN conjunct2, THEN conjunct2, THEN conjunct2, THEN conjunct2, THEN conjunct2, THEN conjunct2, THEN conjunct2, THEN conjunct2, THEN conjunct1, rule_format, OF inv_list_given]
    by (simp add: errorMessage_def sample_externals_def type_error_text_def)
  have store_given:
    "validateAndSanitizeParams ?denied ''get_component_demo'' (JObj [(''componentName'', JStr ''Dock'')]) [] = (Inr (JObj [(''componentName'', JStr ''Dock'')]), [])
        \<and> get_property (JObj [(''componentName'', JStr ''Dock'')]) ''componentName'' = JStr ''Dock''
        \<and> getComponentDemo ?denied ''Dock''
            ([] @ [LogInfo (''Getting component demo for: '' @ ''Dock''),
               Invoke ''getComponentDemo'' [JStr ''Dock'']]) = (Inl (Error ''EACCES''), [LogInfo ''Getting component demo for: Dock'', Invoke ''getComponentDemo'' [JStr ''Dock'']])"
    by (simp add: sample_externals_def js_return_def js_throw_def get_property_def issue_text_def type_error_text_def errorMessage_def optional_arg_def object_prototype_names_def parse_category_def parse_query_category_def
        zod_optional_enum_def zod_string_def categories_def)
  have store: "handleGetComponentDemo (sample_externals\<lparr>getComponentDemo := (\<lambda>n. js_throw (Error ''EACCES''))\<rparr>) (JObj [(''componentName'', JStr ''Dock'')]) []
     = (Inr \<lparr>content = [\<lparr>type = ''text'', text = ''Error retrieving component demo: EACCES''\<rparr>]\<rparr>,
        [LogInfo ''Getting component demo for: Dock'',
         Invoke ''getComponentDemo'' [JStr ''Dock''],
         LogError ''Error in handleGetComponentDemo'' (Error ''EACCES'')])"
    using C9_handlers_return_text_envelopes
            [where ext = "?denied" and p = "JObj [(''componentName'', JStr ''Dock'')]" and tr = "[]",
             THEN conjunct2, THEN conjunct2, THEN conjunct2, THEN conjunct2, THEN conjunct2, THEN conjunct2, THEN conjunct2, THEN conjunct2, THEN conjunct2, THEN conjunct2, THEN conjunct2, THEN conjunct2, THEN conjunct2, THEN conjunct2, THEN conjunct2, THEN conjunct2, THEN conjunct1, rule_format, OF store_given]
    by (simp add: errorMessage_def sample_externals_def type_error_text_def)
  have absent_given:
    "validateAndSanitizeParams sample_externals ''get_component_metadata'' (JObj [(''componentName'', JStr ''Dock'')]) [] = (Inr (JObj [(''componentName'', JStr ''Dock'')]), [])
        \<and> get_property (JObj [(''componentName'', JStr ''Dock'')]) ''componentName'' = JStr ''Dock''
        \<and> getComponentMetadata sample_externals ''Dock''
            ([] @ [LogInfo (''Getting component metadata for: '' @ ''Dock''),
               Invoke ''getComponentMetadata'' [JStr ''Dock'']]) = (Inr None, [LogInfo ''Getting component metadata for: Dock'', Invoke ''getComponentMetadata'' [JStr ''Dock'']])"
    by (simp add: sample_externals_def js_return_def js_throw_def get_property_def issue_text_def type_error_text_def errorMessage_def optional_arg_def object_prototype_names_def parse_category_def parse_query_category_def
        zod_optional_enum_def zod_string_def categories_def)
  have absent: "handleGetComponentMetadata sample_externals (JObj [(''componentName'', JStr ''Dock'')]) []
     = (Inr \<lparr>content = [\<lparr>type = ''text'', text = ''Error retrieving component metadata: '' @ ''Metadata for component '' @ squote @ ''Dock'' @ squote @ '' not found''\<rparr>]\<rparr>,
        [LogInfo ''Getting component metadata for: Dock'',
         Invoke ''getComponentMetadata'' [JStr ''Dock''],
         LogError ''Error in handleGetComponentMetadata'' (Error (''Metadata for component '' @ squote @ ''Dock'' @ squote @ '' not found''))])"
    using C9_handlers_return_text_envelopes
            [where ext = "sample_externals" and p = "JObj [(''componentName'', JStr ''Dock'')]" and tr = "[]",
             THEN conjunct2, THEN conjunct2, THEN conjunct2, THEN conjunct2, THEN conjunct2, THEN conjunct2, THEN conjunct2, THEN conjunct2, THEN conjunct2, THEN conjunct2, THEN conjunct2, THEN conjunct2, THEN conjunct2, THEN conjunct2, THEN conjunct2, THEN conjunct2, THEN conjunct2, THEN conjunct2, THEN conjunct2, THEN conjunct2, THEN conjunct2, THEN conjunct2, THEN conjunct2, THEN conjunct2, THEN conjunct2, THEN conjunct1, rule_format, OF absent_given]
    by (simp add: errorMessage_def sample_externals_def type_error_text_def)
  have group_given:
    "validateAndSanitizeParams ?odd ''list_components'' (JObj []) [] = (Inr (JObj []), [])
        \<and> parse_category ?odd (JObj []) [] = (Inr None, [])
        \<and> getAvailableComponents ?odd None
            ([] @ [LogInfo (''Listing components''
                 @ (case None of Some x \<Rightarrow> '' for category: '' @ x | None \<Rightarrow> [])),
               Invoke ''getAvailableComponents'' [optional_arg None]])
            = (Inr [\<lparr>name = ''Dock'', category = ''toString''\<rparr>], [LogInfo ''Listing components'', Invoke ''getAvailableComponents'' [JUndefined]])
        \<and> (\<exists>x \<in> set [\<lparr>name = ''Dock'', category = ''toString''\<rparr>].
             category x \<in> set object_prototype_names)"
    by (simp add: sample_externals_def js_return_def js_throw_def get_property_def issue_text_def type_error_text_def errorMessage_def optional_arg_def object_prototype_names_def parse_category_def parse_query_category_def
        zod_optional_enum_def zod_string_def categories_def)
  have group: "handleListComponents
       (sample_externals\<lparr>getAvailableComponents :=
          (\<lambda>c. js_return [\<lparr>name = ''Dock'', category = ''toString''\<rparr>])\<rparr>)
       (JObj []) []
     = (Inr \<lparr>content = [\<lparr>type = ''text'', text = ''Error listing components: acc[component.category].push is not a function''\<rparr>]\<rparr>,
        [LogInfo ''Listing components'',
         Invoke ''getAvailableComponents'' [JUndefined],
         LogError ''Error in handleListComponents''
           (TypeError ''acc[component.category].push is not a function'')])"
    using C9_handlers_return_text_envelopes
            [where ext = "?odd" and p = "JObj []" and tr = "[]",
             THEN conjunct2, THEN conjunct2, THEN conjunct2, THEN conjunct2, THEN conjunct2, THEN conjunct2, THEN conjunct2, THEN conjunct2, THEN conjunct2, THEN conjunct2, THEN conjunct2, THEN conjunct2, THEN conjunct2, THEN conjunct2, THEN conjunct2, THEN conjunct2, THEN conjunct2, THEN conjunct2, THEN conjunct2, THEN conjunct2, THEN conjunct2, THEN conjunct1, rule_format, OF group_given]
    by (simp add: errorMessage_def sample_externals_def type_error_text_def)
  show ?thesis by (intro conjI san inv inv_list store absent group)
qed

section \<open>Properties of the dispatcher\<close>

lemma toolHandlers_cases:
  assumes "toolHandlers ext toolName = Some h"
  shows "(toolName = ''get_component'' \<and> h = handleGetComponent ext)
       \<or> (toolName = ''get_component_demo'' \<and> h = handleGetComponentDemo ext)
       \<or> (toolName = ''list_components'' \<and> h = handleListComponents ext)
       \<or> (toolName = ''get_component_metadata'' \<and> h = handleGetComponentMetadata ext)
       \<or> (toolName = ''search_components'' \<and> h = handleSearchComponents ext)"
  using assms by (auto simp: toolHandlers_def split: if_splits)

lemma toolHandlers_table:
  "toolHandlers ext ''get_component'' = Some (handleGetComponent ext)"
  "toolHandlers ext ''get_component_demo'' = Some (handleGetComponentDemo ext)"
  "toolHandlers ext ''list_components'' = Some (handleListComponents ext)"
  "toolHandlers ext ''get_component_metadata'' = Some (handleGetComponentMetadata ext)"
  "toolHandlers ext ''search_components'' = Some (handleSearchComponents ext)"
  by (simp_all add: toolHandlers_def)


lemma tool_handler_resolves:
  assumes "toolHandlers ext toolName = Some h"
  shows "\<exists>t tr'. h p tr = (Inr (text_envelope t), tr')"
  using toolHandlers_cases [OF assms]
    handleGetComponent_envelope handleGetComponentDemo_envelope handleListComponents_envelope
    handleGetComponentMetadata_envelope handleSearchComponents_envelope
  by blast

lemma required_fields_of_tools:
  "required_fields ''get_component'' = [''componentName'']"
  "required_fields ''get_component_demo'' = [''componentName'']"
  "required_fields ''get_component_metadata'' = [''componentName'']"
  "required_fields ''search_components'' = [''query'']"
  "required_fields ''list_components'' = []"
  by (simp_all add: required_fields_def registeredTools_def get_property_def)



lemma read_toolHandlers_own:
  assumes "toolHandlers ext toolName = Some h"
  shows "read_toolHandlers ext toolName =
           Some (\<lambda>p. js_bind (h p) (\<lambda>result. js_return (Envelope result)))"
  using assms by (simp add: read_toolHandlers_def)



lemma read_toolHandlers_empty:
  "read_toolHandlers ext [] = None"
  by (simp add: read_toolHandlers_def toolHandlers_def object_prototype_def)

lemma handleRequest_result:
  "handleRequest operation params handler s =
     (case handler params
             (s\<lparr>events := events s @ [LogInfoParams (''Handling '' @ operation @ '' request'') params]\<rparr>) of
        (Inl e, s') \<Rightarrow> (Inl e, s'\<lparr>events := events s' @ [LogError (''Error in '' @ operation) e]\<rparr>)
      | (Inr x, s') \<Rightarrow>
          (Inr x, s'\<lparr>events := events s' @ [LogInfo (operation @ '' completed successfully'')]\<rparr>))"
  by (simp add: handleRequest_def js_try_def js_bind_def in_events_def emit_def logInfo_def
      logError_def js_return_def js_throw_def split: prod.splits sum.splits)

lemma handleRequest_failure_logged:
  assumes "fst (handleRequest operation params handler s) = Inl e"
  shows "\<exists>tr. events (snd (handleRequest operation params handler s))
              = tr @ [LogError (''Error in '' @ operation) e]"
proof -
  define s0 where "s0 = s\<lparr>events := events s @ [LogInfoParams (''Handling '' @ operation @ '' request'') params]\<rparr>"
  obtain r s' where run: "handler params s0 = (r, s')" by (cases "handler params s0") auto
  show ?thesis
  proof (cases r)
    case (Inl e')
    with run assms show ?thesis by (simp add: handleRequest_result s0_def)
  next
    case (Inr x)
    with run assms show ?thesis by (simp add: handleRequest_result s0_def)
  qed
qed

lemma handle_is_handleRequest:
  "\<exists>handler. handle ext now request
     = handleRequest (operation_name request) (request_params request) handler"
  by (cases request) (simp_all add: handle_def operation_name_def, blast+)

lemma handle_failure_logged:
  assumes "fst (handle ext now request s) = Inl e"
  shows "\<exists>tr. events (snd (handle ext now request s))
              = tr @ [LogError (''Error in '' @ operation_name request) e]"
proof -
  from handle_is_handleRequest [of ext now request] obtain handler
    where eq: "handle ext now request
                 = handleRequest (operation_name request) (request_params request) handler"
    by blast
  show ?thesis
    using handleRequest_failure_logged [of "operation_name request" "request_params request" handler s e]
      assms unfolding eq by simp
qed

text \<open>A tool request whose name reads nothing from the table fails before the breaker.\<close>

lemma call_tool_no_value:
  assumes "toolName = [] \<or> read_toolHandlers ext toolName = None"
  shows "handle ext now (CallTool toolName args) s =
           (Inl (Error (if toolName = [] then ''Tool name is required''
                        else ''Tool not found: '' @ toolName)),
            \<lparr>external = external s,
             events = events s @ [LogInfoParams ''Handling call_tool request''
                                   (request_params (CallTool toolName args)),
                                  LogError ''Error in call_tool''
                                   (Error (if toolName = [] then ''Tool name is required''
                                           else ''Tool not found: '' @ toolName))]\<rparr>)"
  using assms
  by (cases "toolName = []")
     (simp_all add: handle_def handleRequest_result call_tool_def js_bind_def js_throw_def)

text \<open>A tool request whose name reads a value from the table goes through the breaker.\<close>

lemma call_tool_rejected:
  assumes "read_toolHandlers ext toolName = Some f"
    and "status (probe (external s) now) = Open"
  shows "handle ext now (CallTool toolName args) s =
           (Inl (CircuitOpenError circuit_open_message),
            \<lparr>external = probe (external s) now,
             events = events s @ [LogInfoParams ''Handling call_tool request''
                                   (request_params (CallTool toolName args)),
                                  LogError ''Error in call_tool''
                                   (CircuitOpenError circuit_open_message)]\<rparr>)"
proof -
  have ne: "toolName \<noteq> []" using assms(1) read_toolHandlers_empty [of ext] by auto
  show ?thesis
    using assms ne
    by (simp add: handle_def handleRequest_result js_bind_def call_tool_def external_execute_def
        execute_def)
qed

lemma call_tool_succeeds:
  assumes "read_toolHandlers ext toolName = Some f"
    and "status (probe (external s) now) \<noteq> Open"
    and "f (if falsy args then JObj [] else args)
           (events s @ [LogInfoParams ''Handling call_tool request''
                          (request_params (CallTool toolName args))]) = (Inr v, tr')"
  shows "handle ext now (CallTool toolName args) s =
           (Inr (ToolResult v),
            \<lparr>external = on_success (probe (external s) now),
             events = tr' @ [LogInfo ''call_tool completed successfully'']\<rparr>)"
proof -
  have ne: "toolName \<noteq> []" using assms(1) read_toolHandlers_empty [of ext] by auto
  show ?thesis
    using assms ne
    by (simp add: handle_def handleRequest_result js_bind_def call_tool_def external_execute_def
        execute_def js_return_def)
qed

lemma call_tool_fails:
  assumes "read_toolHandlers ext toolName = Some f"
    and "status (probe (external s) now) \<noteq> Open"
    and "f (if falsy args then JObj [] else args)
           (events s @ [LogInfoParams ''Handling call_tool request''
                          (request_params (CallTool toolName args))]) = (Inl e, tr')"
  shows "handle ext now (CallTool toolName args) s =
           (Inl e,
            \<lparr>external = on_failure (probe (external s) now) now,
             events = tr' @ [LogError ''Error in call_tool'' e]\<rparr>)"
proof -
  have ne: "toolName \<noteq> []" using assms(1) read_toolHandlers_empty [of ext] by auto
  show ?thesis
    using assms ne
    by (simp add: handle_def handleRequest_result js_bind_def call_tool_def external_execute_def
        execute_def)
qed

text \<open>The same for a registered tool, in terms of its handler.\<close>

lemma call_tool_admitted:
  assumes "toolHandlers ext toolName = Some h"
    and "status (probe (external s) now) \<noteq> Open"
    and "h (if falsy args then JObj [] else args)
           (events s @ [LogInfoParams ''Handling call_tool request''
                          (request_params (CallTool toolName args))]) = (Inr env, tr')"
  shows "handle ext now (CallTool toolName args) s =
           (Inr (ToolResult (Envelope env)),
            \<lparr>external = on_success (probe (external s) now),
             events = tr' @ [LogInfo ''call_tool completed successfully'']\<rparr>)"
proof (rule call_tool_succeeds [OF read_toolHandlers_own [OF assms(1)] assms(2)])
  show "js_bind (h (if falsy args then JObj [] else args)) (\<lambda>result. js_return (Envelope result))
          (events s @ [LogInfoParams ''Handling call_tool request''
                         (request_params (CallTool toolName args))]) = (Inr (Envelope env), tr')"
    using assms(3) by (simp add: js_bind_def js_return_def)
qed

lemma prompt_failure_reraised:
  "fst (handle ext now (GetPrompt promptName args) s)
     = (case fst (get_prompt ext promptName args
                    (events s @ [LogInfoParams ''Handling get_prompt request''
                                   (request_params (GetPrompt promptName args))])) of
          Inl e \<Rightarrow> Inl e
        | Inr result \<Rightarrow> Inr (PromptResult result))"
  by (simp add: handle_def handleRequest_result js_bind_def in_events_def js_return_def
      split: prod.splits sum.splits)

lemma resource_failure_reraised:
  "fst (handle ext now (ReadResource uri) s)
     = (case fst (read_resource ext uri
                    (events s @ [LogInfoParams ''Handling read_resource request''
                                   (request_params (ReadResource uri))])) of
          Inl e \<Rightarrow> Inl e
        | Inr result \<Rightarrow> Inr (ResourceResult result))"
  by (simp add: handle_def handleRequest_result js_bind_def in_events_def js_return_def
      split: prod.splits sum.splits)

text \<open>
  A request for a registered tool whose handler catches a failure of the sanitiser or of
  the schema: the request completes with the handler's error text.
\<close>

lemma call_tool_validation_wrapped:
  assumes h: "toolHandlers ext toolName = Some h"
    and admitted: "status (probe (external s) now) \<noteq> Open"
    and san: "validateAndSanitizeParams ext toolName p tr = (r, tr1)"
    and p: "p = (if falsy args then JObj [] else args)"
    and tr: "tr = (events s @ [LogInfoParams ''Handling call_tool request''
                 (request_params (CallTool toolName args))])"
    and thrown: "\<And>e. r = Inl e \<Longrightarrow>
        h p tr = (Inr (text_envelope (prefix @ errorMessage e)), tr1 @ [LogError msg e])"
    and invalid: "\<And>v. r = Inr v \<Longrightarrow>
        \<exists>issues. issues \<noteq> []
          \<and> h p tr = (Inr (text_envelope (prefix @ zodMessage ext issues)),
                      tr1 @ [LogError msg (ZodError (zodMessage ext issues))])"
  shows "\<exists>e. handle ext now (CallTool toolName args) s =
                (Inr (ToolResult (Envelope (text_envelope (prefix @ errorMessage e)))),
                 \<lparr>external = on_success (probe (external s) now),
                  events = tr1 @ [LogError msg e, LogInfo ''call_tool completed successfully'']\<rparr>)
              \<and> (r = Inl e \<or> (\<exists>issues. issues \<noteq> [] \<and> e = ZodError (zodMessage ext issues)))"
proof -
  have "\<exists>e. h p tr = (Inr (text_envelope (prefix @ errorMessage e)), tr1 @ [LogError msg e])
            \<and> (r = Inl e \<or> (\<exists>issues. issues \<noteq> [] \<and> e = ZodError (zodMessage ext issues)))"
  proof (cases r)
    case (Inl e)
    from thrown [OF Inl] Inl show ?thesis by blast
  next
    case (Inr v)
    from invalid [OF Inr] obtain issues where ne: "issues \<noteq> []"
      and run: "h p tr = (Inr (text_envelope (prefix @ zodMessage ext issues)),
                          tr1 @ [LogError msg (ZodError (zodMessage ext issues))])" by blast
    have "h p tr = (Inr (text_envelope (prefix @ errorMessage (ZodError (zodMessage ext issues)))),
                    tr1 @ [LogError msg (ZodError (zodMessage ext issues))])"
      using run by (simp add: errorMessage_def)
    with ne show ?thesis by blast
  qed
  then obtain e where run: "h p tr = (Inr (text_envelope (prefix @ errorMessage e)),
                                      tr1 @ [LogError msg e])"
    and kind: "r = Inl e \<or> (\<exists>issues. issues \<noteq> [] \<and> e = ZodError (zodMessage ext issues))"
    by blast
  have "handle ext now (CallTool toolName args) s =
          (Inr (ToolResult (Envelope (text_envelope (prefix @ errorMessage e)))),
           \<lparr>external = on_success (probe (external s) now),
            events = (tr1 @ [LogError msg e]) @ [LogInfo ''call_tool completed successfully'']\<rparr>)"
    by (rule call_tool_admitted [OF h admitted run [unfolded p tr]])
  with kind show ?thesis by auto
qed

text \<open>
  Claim C6, as amended. The dispatcher validates nothing: it hands the arguments to the
  tool's handler through the breaker. Take a request to \<^verbatim>\<open>get_component\<close>,
  \<^verbatim>\<open>get_component_demo\<close>, \<^verbatim>\<open>get_component_metadata\<close> or \<^verbatim>\<open>search_components\<close> whose
  arguments lack the field the descriptor requires, the breaker admitting the call, and
  the sanitiser, if it returns, returning parameters that still lack that field. The
  handler's own validation fails before the component store is called: the trace gets the
  sanitiser's events, the handler's error log and the dispatcher's completion log, and
  nothing else. The request completes successfully with one text item, the handler's
  error prefix followed by the message of the error, which is the sanitiser's or the
  schema's.
\<close>

theorem C6_missing_required_field:
  assumes tool:
      "(toolName = ''get_component'' \<and> field = ''componentName''
          \<and> hname = ''handleGetComponent''
          \<and> prefix = ''Error retrieving component: '')
       \<or> (toolName = ''get_component_demo'' \<and> field = ''componentName''
          \<and> hname = ''handleGetComponentDemo''
          \<and> prefix = ''Error retrieving component demo: '')
       \<or> (toolName = ''get_component_metadata'' \<and> field = ''componentName''
          \<and> hname = ''handleGetComponentMetadata''
          \<and> prefix = ''Error retrieving component metadata: '')
       \<or> (toolName = ''search_components'' \<and> field = ''query''
          \<and> hname = ''handleSearchComponents''
          \<and> prefix = ''Error searching components: '')"
    and admitted: "status (probe (external s) now) \<noteq> Open"
    and missing: "get_property (if falsy args then JObj [] else args) field = JUndefined"
    and sanitiser:
      "\<forall>v tr'. validateAndSanitizeParams ext toolName (if falsy args then JObj [] else args)
                 (events s @ [LogInfoParams ''Handling call_tool request''
                 (request_params (CallTool toolName args))]) = (Inr v, tr')
               \<longrightarrow> get_property v field = JUndefined"
  shows "required_fields toolName = [field]
       \<and> (\<exists>e. handle ext now (CallTool toolName args) s =
                (Inr (ToolResult (Envelope (text_envelope (prefix @ errorMessage e)))),
                 \<lparr>external = on_success (probe (external s) now),
                  events = snd (validateAndSanitizeParams ext toolName (if falsy args then JObj [] else args)
                                  (events s @ [LogInfoParams ''Handling call_tool request''
                 (request_params (CallTool toolName args))]))
                           @ [LogError (''Error in '' @ hname) e,
                              LogInfo ''call_tool completed successfully'']\<rparr>)
              \<and> (fst (validateAndSanitizeParams ext toolName (if falsy args then JObj [] else args)
                         (events s @ [LogInfoParams ''Handling call_tool request''
                 (request_params (CallTool toolName args))])) = Inl e
                  \<or> (\<exists>issues. issues \<noteq> [] \<and> e = ZodError (zodMessage ext issues))))"
proof -
  define p where "p = (if falsy args then JObj [] else args)"
  define tr where "tr = (events s @ [LogInfoParams ''Handling call_tool request''
                 (request_params (CallTool toolName args))])"
  obtain r tr1 where san: "validateAndSanitizeParams ext toolName p tr = (r, tr1)"
    by (cases "validateAndSanitizeParams ext toolName p tr") auto
  have lacks: "\<forall>x. get_property v field \<noteq> JStr x" if "r = Inr v" for v
    using sanitiser san that unfolding p_def tr_def by simp
  have facts: "required_fields toolName = [field]
        \<and> (\<exists>e. handle ext now (CallTool toolName args) s =
                (Inr (ToolResult (Envelope (text_envelope (prefix @ errorMessage e)))),
                 \<lparr>external = on_success (probe (external s) now),
                  events = tr1 @ [LogError (''Error in '' @ hname) e,
                                  LogInfo ''call_tool completed successfully'']\<rparr>)
              \<and> (r = Inl e \<or> (\<exists>issues. issues \<noteq> [] \<and> e = ZodError (zodMessage ext issues))))"
    using tool
  proof (elim disjE conjE)
    assume eq: "toolName = ''get_component''" "field = ''componentName''"
      "hname = ''handleGetComponent''" "prefix = ''Error retrieving component: ''"
    have msg: "''Error in '' @ hname = ''Error in handleGetComponent''" by (simp add: eq)
    have "\<exists>e. handle ext now (CallTool toolName args) s =
                (Inr (ToolResult (Envelope (text_envelope (prefix @ errorMessage e)))),
                 \<lparr>external = on_success (probe (external s) now),
                  events = tr1 @ [LogError (''Error in '' @ hname) e,
                                  LogInfo ''call_tool completed successfully'']\<rparr>)
              \<and> (r = Inl e \<or> (\<exists>issues. issues \<noteq> [] \<and> e = ZodError (zodMessage ext issues)))"
    proof (rule call_tool_validation_wrapped [where h = "handleGetComponent ext" and p = p and tr = tr])
      show "toolHandlers ext toolName = Some (handleGetComponent ext)"
        unfolding eq by (rule toolHandlers_table)
      show "status (probe (external s) now) \<noteq> Open" by (rule admitted)
      show "validateAndSanitizeParams ext toolName p tr = (r, tr1)" by (rule san)
      show "p = (if falsy args then JObj [] else args)" by (rule p_def)
      show "tr = (events s @ [LogInfoParams ''Handling call_tool request''
                 (request_params (CallTool toolName args))])" by (rule tr_def)
    next
      fix e assume "r = Inl e"
      with san have "validateAndSanitizeParams ext ''get_component'' p tr = (Inl e, tr1)"
        by (simp add: eq)
      from handleGetComponent_sanitiser [OF this]
      show "handleGetComponent ext p tr =
              (Inr (text_envelope (prefix @ errorMessage e)),
               tr1 @ [LogError (''Error in '' @ hname) e])"
        unfolding msg unfolding eq .
    next
      fix v assume v: "r = Inr v"
      with san have given: "validateAndSanitizeParams ext ''get_component'' p tr = (Inr v, tr1)"
        by (simp add: eq)
      have bad: "(\<forall>x. get_property v ''componentName'' \<noteq> JStr x)"
        using lacks [OF v] by (simp add: eq)
      from handleGetComponent_invalid [OF given bad]
      show "\<exists>issues. issues \<noteq> []
              \<and> handleGetComponent ext p tr =
                  (Inr (text_envelope (prefix @ zodMessage ext issues)),
                   tr1 @ [LogError (''Error in '' @ hname) (ZodError (zodMessage ext issues))])"
        unfolding msg unfolding eq .
    qed
    moreover have "required_fields toolName = [field]"
      unfolding eq by (rule required_fields_of_tools)
    ultimately show ?thesis by (rule conjI [rotated])
  next
    assume eq: "toolName = ''get_component_demo''" "field = ''componentName''"
      "hname = ''handleGetComponentDemo''" "prefix = ''Error retrieving component demo: ''"
    have msg: "''Error in '' @ hname = ''Error in handleGetComponentDemo''" by (simp add: eq)
    have "\<exists>e. handle ext now (CallTool toolName args) s =
                (Inr (ToolResult (Envelope (text_envelope (prefix @ errorMessage e)))),
                 \<lparr>external = on_success (probe (external s) now),
                  events = tr1 @ [LogError (''Error in '' @ hname) e,
                                  LogInfo ''call_tool completed successfully'']\<rparr>)
              \<and> (r = Inl e \<or> (\<exists>issues. issues \<noteq> [] \<and> e = ZodError (zodMessage ext issues)))"
    proof (rule call_tool_validation_wrapped [where h = "handleGetComponentDemo ext" and p = p and tr = tr])
      show "toolHandlers ext toolName = Some (handleGetComponentDemo ext)"
        unfolding eq by (rule toolHandlers_table)
      show "status (probe (external s) now) \<noteq> Open" by (rule admitted)
      show "validateAndSanitizeParams ext toolName p tr = (r, tr1)" by (rule san)
      show "p = (if falsy args then JObj [] else args)" by (rule p_def)
      show "tr = (events s @ [LogInfoParams ''Handling call_tool request''
                 (request_params (CallTool toolName args))])" by (rule tr_def)
    next
      fix e assume "r = Inl e"
      with san have "validateAndSanitizeParams ext ''get_component_demo'' p tr = (Inl e, tr1)"
        by (simp add: eq)
      from handleGetComponentDemo_sanitiser [OF this]
      show "handleGetComponentDemo ext p tr =
              (Inr (text_envelope (prefix @ errorMessage e)),
               tr1 @ [LogError (''Error in '' @ hname) e])"
        unfolding msg unfolding eq .
    next
      fix v assume v: "r = Inr v"
      with san have given: "validateAndSanitizeParams ext ''get_component_demo'' p tr = (Inr v, tr1)"
        by (simp add: eq)
      have bad: "(\<forall>x. get_property v ''componentName'' \<noteq> JStr x)"
        using lacks [OF v] by (simp add: eq)
      from handleGetComponentDemo_invalid [OF given bad]
      show "\<exists>issues. issues \<noteq> []
              \<and> handleGetComponentDemo ext p tr =
                  (Inr (text_envelope (prefix @ zodMessage ext issues)),
                   tr1 @ [LogError (''Error in '' @ hname) (ZodError (zodMessage ext issues))])"
        unfolding msg unfolding eq .
    qed
    moreover have "required_fields toolName = [field]"
      unfolding eq by (rule required_fields_of_tools)
    ultimately show ?thesis by (rule conjI [rotated])
  next
    assume eq: "toolName = ''get_component_metadata''" "field = ''componentName''"
      "hname = ''handleGetComponentMetadata''" "prefix = ''Error retrieving component metadata: ''"
    have msg: "''Error in '' @ hname = ''Error in handleGetComponentMetadata''" by (simp add: eq)
    have "\<exists>e. handle ext now (CallTool toolName args) s =
                (Inr (ToolResult (Envelope (text_envelope (prefix @ errorMessage e)))),
                 \<lparr>external = on_success (probe (external s) now),
                  events = tr1 @ [LogError (''Error in '' @ hname) e,
                                  LogInfo ''call_tool completed successfully'']\<rparr>)
              \<and> (r = Inl e \<or> (\<exists>issues. issues \<noteq> [] \<and> e = ZodError (zodMessage ext issues)))"
    proof (rule call_tool_validation_wrapped [where h = "handleGetComponentMetadata ext" and p = p and tr = tr])
      show "toolHandlers ext toolName = Some (handleGetComponentMetadata ext)"
        unfolding eq by (rule toolHandlers_table)
      show "status (probe (external s) now) \<noteq> Open" by (rule admitted)
      show "validateAndSanitizeParams ext toolName p tr = (r, tr1)" by (rule san)
      show "p = (if falsy args then JObj [] else args)" by (rule p_def)
      show "tr = (events s @ [LogInfoParams ''Handling call_tool request''
                 (request_params (CallTool toolName args))])" by (rule tr_def)
    next
      fix e assume "r = Inl e"
      with san have "validateAndSanitizeParams ext ''get_component_metadata'' p tr = (Inl e, tr1)"
        by (simp add: eq)
      from handleGetComponentMetadata_sanitiser [OF this]
      show "handleGetComponentMetadata ext p tr =
              (Inr (text_envelope (prefix @ errorMessage e)),
               tr1 @ [LogError (''Error in '' @ hname) e])"
        unfolding msg unfolding eq .
    next
      fix v assume v: "r = Inr v"
      with san have given: "validateAndSanitizeParams ext ''get_component_metadata'' p tr = (Inr v, tr1)"
        by (simp add: eq)
      have bad: "(\<forall>x. get_property v ''componentName'' \<noteq> JStr x)"
        using lacks [OF v] by (simp add: eq)
      from handleGetComponentMetadata_invalid [OF given bad]
      show "\<exists>issues. issues \<noteq> []
              \<and> handleGetComponentMetadata ext p tr =
                  (Inr (text_envelope (prefix @ zodMessage ext issues)),
                   tr1 @ [LogError (''Error in '' @ hname) (ZodError (zodMessage ext issues))])"
        unfolding msg unfolding eq .
    qed
    moreover have "required_fields toolName = [field]"
      unfolding eq by (rule required_fields_of_tools)
    ultimately show ?thesis by (rule conjI [rotated])
  next
    assume eq: "toolName = ''search_components''" "field = ''query''"
      "hname = ''handleSearchComponents''" "prefix = ''Error searching components: ''"
    have msg: "''Error in '' @ hname = ''Error in handleSearchComponents''" by (simp add: eq)
    have "\<exists>e. handle ext now (CallTool toolName args) s =
                (Inr (ToolResult (Envelope (text_envelope (prefix @ errorMessage e)))),
                 \<lparr>external = on_success (probe (external s) now),
                  events = tr1 @ [LogError (''Error in '' @ hname) e,
                                  LogInfo ''call_tool completed successfully'']\<rparr>)
              \<and> (r = Inl e \<or> (\<exists>issues. issues \<noteq> [] \<and> e = ZodError (zodMessage ext issues)))"
    proof (rule call_tool_validation_wrapped [where h = "handleSearchComponents ext" and p = p and tr = tr])
      show "toolHandlers ext toolName = Some (handleSearchComponents ext)"
        unfolding eq by (rule toolHandlers_table)
      show "status (probe (external s) now) \<noteq> Open" by (rule admitted)
      show "validateAndSanitizeParams ext toolName p tr = (r, tr1)" by (rule san)
      show "p = (if falsy args then JObj [] else args)" by (rule p_def)
      show "tr = (events s @ [LogInfoParams ''Handling call_tool request''
                 (request_params (CallTool toolName args))])" by (rule tr_def)
    next
      fix e assume "r = Inl e"
      with san have "validateAndSanitizeParams ext ''search_components'' p tr = (Inl e, tr1)"
        by (simp add: eq)
      from handleSearchComponents_sanitiser [OF this]
      show "handleSearchComponents ext p tr =
              (Inr (text_envelope (prefix @ errorMessage e)),
               tr1 @ [LogError (''Error in '' @ hname) e])"
        unfolding msg unfolding eq .
    next
      fix v assume v: "r = Inr v"
      with san have given: "validateAndSanitizeParams ext ''search_components'' p tr = (Inr v, tr1)"
        by (simp add: eq)
      have bad: "((\<forall>x. get_property v ''query'' \<noteq> JStr x)
        \<or> (get_property v ''category'' \<noteq> JUndefined
           \<and> (\<forall>x \<in> set categories. get_property v ''category'' \<noteq> JStr x)))"
        using lacks [OF v] by (simp add: eq)
      from handleSearchComponents_invalid [OF given bad]
      show "\<exists>issues. issues \<noteq> []
              \<and> handleSearchComponents ext p tr =
                  (Inr (text_envelope (prefix @ zodMessage ext issues)),
                   tr1 @ [LogError (''Error in '' @ hname) (ZodError (zodMessage ext issues))])"
        unfolding msg unfolding eq .
    qed
    moreover have "required_fields toolName = [field]"
      unfolding eq by (rule required_fields_of_tools)
    ultimately show ?thesis by (rule conjI [rotated])
  qed
  have "fst (validateAndSanitizeParams ext toolName p tr) = r"
    and "snd (validateAndSanitizeParams ext toolName p tr) = tr1"
    by (simp_all add: san)
  with facts show ?thesis unfolding p_def tr_def by simp
qed

text \<open>
  Claim C6 as stated fails: \<^verbatim>\<open>get_component\<close> without \<^verbatim>\<open>componentName\<close> does not fail with a
  validation error. The handler is run (it logs the error itself), and the request
  resolves with a text envelope and is logged as completed successfully.
\<close>

theorem C6_validation_counterexample:
  "handle sample_externals 0 (CallTool ''get_component'' (JObj []))
     \<lparr>external = fresh_breaker 5 60000, events = []\<rparr>
   = (Inr (ToolResult (Envelope (text_envelope
             ''Error retrieving component: invalid_type at componentName;''))),
      \<lparr>external = fresh_breaker 5 60000,
       events = [LogInfoParams ''Handling call_tool request''
                   (JObj [(''name'', JStr ''get_component''), (''arguments'', JObj [])]),
                 LogError ''Error in handleGetComponent''
                   (ZodError ''invalid_type at componentName;''),
                 LogInfo ''call_tool completed successfully'']\<rparr>)"
  by (simp add: handle_def handleRequest_def js_try_def js_bind_def in_events_def emit_def
      call_tool_def external_execute_def execute_def logInfo_def logError_def js_return_def
      js_throw_def read_toolHandlers_def toolHandlers_def handleGetComponent_def
      handleGetComponent_try_def sample_externals_def
      parse_componentName_def get_property_def zod_string_def zod_throw_def issue_text_def
      catch_to_envelope_def errorMessage_def request_params_def falsy_def fresh_breaker_def
      probe_def on_success_def)

theorem C6_missing_required_field_witness:
  "status (probe (external \<lparr>external = fresh_breaker 5 60000, events = []\<rparr>) 0) \<noteq> Open
   \<and> get_property (if falsy (JObj []) then JObj [] else JObj []) ''query'' = JUndefined
   \<and> required_fields ''search_components'' = [''query'']
   \<and> (\<exists>e. handle (sample_externals) 0 (CallTool ''search_components'' (JObj []))
              \<lparr>external = fresh_breaker 5 60000, events = []\<rparr>
            = (Inr (ToolResult (Envelope (text_envelope (''Error searching components: '' @ errorMessage e)))),
               \<lparr>external = on_success (probe (fresh_breaker 5 60000) 0),
                events = [LogInfoParams ''Handling call_tool request''
                            (request_params (CallTool ''search_components'' (JObj []))),
                          LogError ''Error in handleSearchComponents'' e,
                          LogInfo ''call_tool completed successfully'']\<rparr>)
          \<and> (\<exists>issues. issues \<noteq> [] \<and> e = ZodError (zodMessage (sample_externals) issues)))
   \<and> required_fields ''get_component'' = [''componentName'']
   \<and> (\<exists>e. handle (sample_externals\<lparr>validateAndSanitizeParams :=
          (\<lambda>t p. js_return (JObj [(''category'', JStr ''Components'')]))\<rparr>) 0 (CallTool ''get_component'' (JObj []))
              \<lparr>external = fresh_breaker 5 60000, events = []\<rparr>
            = (Inr (ToolResult (Envelope (text_envelope (''Error retrieving component: '' @ errorMessage e)))),
               \<lparr>external = on_success (probe (fresh_breaker 5 60000) 0),
                events = [LogInfoParams ''Handling call_tool request''
                            (request_params (CallTool ''get_component'' (JObj []))),
                          LogError ''Error in handleGetComponent'' e,
                          LogInfo ''call_tool completed successfully'']\<rparr>)
          \<and> (\<exists>issues. issues \<noteq> [] \<and> e = ZodError (zodMessage (sample_externals\<lparr>validateAndSanitizeParams :=
          (\<lambda>t p. js_return (JObj [(''category'', JStr ''Components'')]))\<rparr>) issues)))"
proof -
  let ?s = "\<lparr>external = fresh_breaker 5 60000, events = []\<rparr>"
  let ?defaults = "sample_externals\<lparr>validateAndSanitizeParams :=
          (\<lambda>t p. js_return (JObj [(''category'', JStr ''Components'')]))\<rparr>"
  have search: "(''search_components'' = ''get_component'' \<and> ''query'' = ''componentName''
          \<and> ''handleSearchComponents'' = ''handleGetComponent''
          \<and> ''Error searching components: '' = ''Error retrieving component: '')
       \<or> (''search_components'' = ''get_component_demo'' \<and> ''query'' = ''componentName''
          \<and> ''handleSearchComponents'' = ''handleGetComponentDemo''
          \<and> ''Error searching components: '' = ''Error retrieving component demo: '')
       \<or> (''search_components'' = ''get_component_metadata'' \<and> ''query'' = ''componentName''
          \<and> ''handleSearchComponents'' = ''handleGetComponentMetadata''
          \<and> ''Error searching components: '' = ''Error retrieving component metadata: '')
       \<or> (''search_components'' = ''search_components'' \<and> ''query'' = ''query''
          \<and> ''handleSearchComponents'' = ''handleSearchComponents''
          \<and> ''Error searching components: '' = ''Error searching components: '')"
    by simp
  have get: "(''get_component'' = ''get_component'' \<and> ''componentName'' = ''componentName''
          \<and> ''handleGetComponent'' = ''handleGetComponent''
          \<and> ''Error retrieving component: '' = ''Error retrieving component: '')
       \<or> (''get_component'' = ''get_component_demo'' \<and> ''componentName'' = ''componentName''
          \<and> ''handleGetComponent'' = ''handleGetComponentDemo''
          \<and> ''Error retrieving component: '' = ''Error retrieving component demo: '')
       \<or> (''get_component'' = ''get_component_metadata'' \<and> ''componentName'' = ''componentName''
          \<and> ''handleGetComponent'' = ''handleGetComponentMetadata''
          \<and> ''Error retrieving component: '' = ''Error retrieving component metadata: '')
       \<or> (''get_component'' = ''search_components'' \<and> ''componentName'' = ''query''
          \<and> ''handleGetComponent'' = ''handleSearchComponents''
          \<and> ''Error retrieving component: '' = ''Error searching components: '')"
    by simp
  have admitted: "status (probe (external ?s) 0) \<noteq> Open"
    by (simp add: fresh_breaker_def probe_def)
  have no_query: "get_property (if falsy (JObj []) then JObj [] else JObj []) ''query'' = JUndefined"
    by (simp add: get_property_def)
  have no_name: "get_property (if falsy (JObj []) then JObj [] else JObj []) ''componentName'' = JUndefined"
    by (simp add: get_property_def)
  have passes: "\<forall>v tr'. validateAndSanitizeParams sample_externals ''search_components''
                   (if falsy (JObj []) then JObj [] else JObj [])
                   (events ?s @ [LogInfoParams ''Handling call_tool request''
                                   (request_params (CallTool ''search_components'' (JObj [])))])
                 = (Inr v, tr')
               \<longrightarrow> get_property v ''query'' = JUndefined"
    by (simp add: sample_externals_def js_return_def get_property_def falsy_def)
  have defaults: "\<forall>v tr'. validateAndSanitizeParams ?defaults ''get_component''
                   (if falsy (JObj []) then JObj [] else JObj [])
                   (events ?s @ [LogInfoParams ''Handling call_tool request''
                                   (request_params (CallTool ''get_component'' (JObj [])))])
                 = (Inr v, tr')
               \<longrightarrow> get_property v ''componentName'' = JUndefined"
    by (auto simp add: sample_externals_def js_return_def get_property_def falsy_def)
  have san1: "validateAndSanitizeParams sample_externals t p tr = (Inr p, tr)" for t p tr
    by (simp add: sample_externals_def js_return_def)
  from C6_missing_required_field [OF search admitted no_query passes]
  have w1: "required_fields ''search_components'' = [''query'']
   \<and> (\<exists>e. handle (sample_externals) 0 (CallTool ''search_components'' (JObj []))
              \<lparr>external = fresh_breaker 5 60000, events = []\<rparr>
            = (Inr (ToolResult (Envelope (text_envelope (''Error searching components: '' @ errorMessage e)))),
               \<lparr>external = on_success (probe (fresh_breaker 5 60000) 0),
                events = [LogInfoParams ''Handling call_tool request''
                            (request_params (CallTool ''search_components'' (JObj []))),
                          LogError ''Error in handleSearchComponents'' e,
                          LogInfo ''call_tool completed successfully'']\<rparr>)
          \<and> (\<exists>issues. issues \<noteq> [] \<and> e = ZodError (zodMessage (sample_externals) issues)))"
    by (simp add: san1)
  from C6_missing_required_field [OF get admitted no_name defaults]
  have w2: "required_fields ''get_component'' = [''componentName'']
   \<and> (\<exists>e. handle (?defaults) 0 (CallTool ''get_component'' (JObj []))
              \<lparr>external = fresh_breaker 5 60000, events = []\<rparr>
            = (Inr (ToolResult (Envelope (text_envelope (''Error retrieving component: '' @ errorMessage e)))),
               \<lparr>external = on_success (probe (fresh_breaker 5 60000) 0),
                events = [LogInfoParams ''Handling call_tool request''
                            (request_params (CallTool ''get_component'' (JObj []))),
                          LogError ''Error in handleGetComponent'' e,
                          LogInfo ''call_tool completed successfully'']\<rparr>)
          \<and> (\<exists>issues. issues \<noteq> [] \<and> e = ZodError (zodMessage (?defaults) issues)))"
    by (simp add: js_return_def)
  from admitted no_query w1 w2 show ?thesis by simp
qed




text \<open>
  Claim C8, as amended. What happens to an error depends on where it arises, not on
  the kind of request alone. Every request that fails, of whatever kind, has its error
  logged by \<^verbatim>\<open>handleRequest\<close> as the last event and re-raised unchanged. This is the fate
  of a tool request with an empty name or a name that reads nothing from the table of
  handlers, of a tool request rejected by the breaker, of a failure of a value the table
  inherits that is called as a tool, of every failure of a prompt request, and of every
  failure of a resource read. A request for a registered tool that the breaker admits
  never fails: when the \<^verbatim>\<open>try\<close> block of its handler throws, the handler logs the error and
  the request completes with the handler's prefix and the message of the error as a text
  envelope. No path drops the error.
\<close>

theorem C8_errors_logged_then_reraised_or_wrapped:
  "(fst (handle ext now request s) = Inl e \<longrightarrow>
      (\<exists>tr. events (snd (handle ext now request s))
             = tr @ [LogError (''Error in '' @ operation_name request) e]))
   \<and> (toolName = [] \<or> read_toolHandlers ext toolName = None \<longrightarrow>
        fst (handle ext now (CallTool toolName args) s)
          = Inl (Error (if toolName = [] then ''Tool name is required''
                        else ''Tool not found: '' @ toolName)))
   \<and> (read_toolHandlers ext toolName \<noteq> None \<and> status (probe (external s) now) = Open \<longrightarrow>
        fst (handle ext now (CallTool toolName args) s)
          = Inl (CircuitOpenError circuit_open_message))
   \<and> (\<forall>f e' tr'. read_toolHandlers ext toolName = Some f
        \<and> status (probe (external s) now) \<noteq> Open
        \<and> f (if falsy args then JObj [] else args)
              (events s @ [LogInfoParams ''Handling call_tool request''
                                   (request_params (CallTool toolName args))]) = (Inl e', tr') \<longrightarrow>
        handle ext now (CallTool toolName args) s =
          (Inl e',
           \<lparr>external = on_failure (probe (external s) now) now,
            events = tr' @ [LogError ''Error in call_tool'' e']\<rparr>))
   \<and> (toolHandlers ext toolName \<noteq> None \<and> status (probe (external s) now) \<noteq> Open \<longrightarrow>
        (\<exists>t. fst (handle ext now (CallTool toolName args) s)
               = Inr (ToolResult (Envelope (text_envelope t)))))
   \<and> (\<forall>e' tr'. status (probe (external s) now) \<noteq> Open
        \<and> handleGetComponent_try ext (if falsy args then JObj [] else args)
              (events s @ [LogInfoParams ''Handling call_tool request''
                                   (request_params (CallTool ''get_component'' args))]) = (Inl e', tr') \<longrightarrow>
        handle ext now (CallTool ''get_component'' args) s =
          (Inr (ToolResult (Envelope (text_envelope (''Error retrieving component: '' @ errorMessage e')))),
           \<lparr>external = on_success (probe (external s) now),
            events = tr' @ [LogError ''Error in handleGetComponent'' e',
                            LogInfo ''call_tool completed successfully'']\<rparr>))
   \<and> (\<forall>e' tr'. status (probe (external s) now) \<noteq> Open
        \<and> handleGetComponentDemo_try ext (if falsy args then JObj [] else args)
              (events s @ [LogInfoParams ''Handling call_tool request''
                                   (request_params (CallTool ''get_component_demo'' args))]) = (Inl e', tr') \<longrightarrow>
        handle ext now (CallTool ''get_component_demo'' args) s =
          (Inr (ToolResult (Envelope (text_envelope (''Error retrieving component demo: '' @ errorMessage e')))),
           \<lparr>external = on_success (probe (external s) now),
            events = tr' @ [LogError ''Error in handleGetComponentDemo'' e',
                            LogInfo ''call_tool completed successfully'']\<rparr>))
   \<and> (\<forall>e' tr'. status (probe (external s) now) \<noteq> Open
        \<and> handleListComponents_try ext (if falsy args then JObj [] else args)
              (events s @ [LogInfoParams ''Handling call_tool request''
                                   (request_params (CallTool ''list_components'' args))]) = (Inl e', tr') \<longrightarrow>
        handle ext now (CallTool ''list_components'' args) s =
          (Inr (ToolResult (Envelope (text_envelope (''Error listing components: '' @ errorMessage e')))),
           \<lparr>external = on_success (probe (external s) now),
            events = tr' @ [LogError ''Error in handleListComponents'' e',
                            LogInfo ''call_tool completed successfully'']\<rparr>))
   \<and> (\<forall>e' tr'. status (probe (external s) now) \<noteq> Open
        \<and> handleGetComponentMetadata_try ext (if falsy args then JObj [] else args)
              (events s @ [LogInfoParams ''Handling call_tool request''
                                   (request_params (CallTool ''get_component_metadata'' args))]) = (Inl e', tr') \<longrightarrow>
        handle ext now (CallTool ''get_component_metadata'' args) s =
          (Inr (ToolResult (Envelope (text_envelope (''Error retrieving component metadata: '' @ errorMessage e')))),
           \<lparr>external = on_success (probe (external s) now),
            events = tr' @ [LogError ''Error in handleGetComponentMetadata'' e',
                            LogInfo ''call_tool completed successfully'']\<rparr>))
   \<and> (\<forall>e' tr'. status (probe (external s) now) \<noteq> Open
        \<and> handleSearchComponents_try ext (if falsy args then JObj [] else args)
              (events s @ [LogInfoParams ''Handling call_tool request''
                                   (request_params (CallTool ''search_components'' args))]) = (Inl e', tr') \<longrightarrow>
        handle ext now (CallTool ''search_components'' args) s =
          (Inr (ToolResult (Envelope (text_envelope (''Error searching components: '' @ errorMessage e')))),
           \<lparr>external = on_success (probe (external s) now),
            events = tr' @ [LogError ''Error in handleSearchComponents'' e',
                            LogInfo ''call_tool completed successfully'']\<rparr>))
   \<and> fst (handle ext now (GetPrompt promptName args) s)
       = (case fst (get_prompt ext promptName args
                      (events s @ [LogInfoParams ''Handling get_prompt request''
                                     (request_params (GetPrompt promptName args))])) of
            Inl e' \<Rightarrow> Inl e'
          | Inr result \<Rightarrow> Inr (PromptResult result))
   \<and> fst (handle ext now (ReadResource uri) s)
       = (case fst (read_resource ext uri
                      (events s @ [LogInfoParams ''Handling read_resource request''
                                     (request_params (ReadResource uri))])) of
            Inl e' \<Rightarrow> Inl e'
          | Inr result \<Rightarrow> Inr (ResourceResult result))"
proof (intro conjI allI impI)
  assume "fst (handle ext now request s) = Inl e"
  then show "\<exists>tr. events (snd (handle ext now request s))
             = tr @ [LogError (''Error in '' @ operation_name request) e]"
    by (rule handle_failure_logged)
next
  assume "toolName = [] \<or> read_toolHandlers ext toolName = None"
  from call_tool_no_value [OF this, of now args s]
  show "fst (handle ext now (CallTool toolName args) s)
          = Inl (Error (if toolName = [] then ''Tool name is required''
                        else ''Tool not found: '' @ toolName))"
    by simp
next
  assume "read_toolHandlers ext toolName \<noteq> None \<and> status (probe (external s) now) = Open"
  then obtain f where "read_toolHandlers ext toolName = Some f"
    and "status (probe (external s) now) = Open" by auto
  from call_tool_rejected [OF this]
  show "fst (handle ext now (CallTool toolName args) s) = Inl (CircuitOpenError circuit_open_message)"
    by simp
next
  fix f e' tr'
  assume "read_toolHandlers ext toolName = Some f
        \<and> status (probe (external s) now) \<noteq> Open
        \<and> f (if falsy args then JObj [] else args)
              (events s @ [LogInfoParams ''Handling call_tool request''
                                   (request_params (CallTool toolName args))]) = (Inl e', tr')"
  then have f: "read_toolHandlers ext toolName = Some f"
    and admitted: "status (probe (external s) now) \<noteq> Open"
    and run: "f (if falsy args then JObj [] else args)
              (events s @ [LogInfoParams ''Handling call_tool request''
                                   (request_params (CallTool toolName args))]) = (Inl e', tr')" by simp_all
  show "handle ext now (CallTool toolName args) s =
          (Inl e',
           \<lparr>external = on_failure (probe (external s) now) now,
            events = tr' @ [LogError ''Error in call_tool'' e']\<rparr>)"
    by (rule call_tool_fails [OF f admitted run])
next
  assume "toolHandlers ext toolName \<noteq> None \<and> status (probe (external s) now) \<noteq> Open"
  then obtain h where h: "toolHandlers ext toolName = Some h"
    and admitted: "status (probe (external s) now) \<noteq> Open" by auto
  define p where "p = (if falsy args then JObj [] else args)"
  define tr0 where "tr0 = (events s @ [LogInfoParams ''Handling call_tool request''
                                   (request_params (CallTool toolName args))])"
  from tool_handler_resolves [OF h, of p tr0]
  obtain t tr' where run: "h p tr0 = (Inr (text_envelope t), tr')" by blast
  from call_tool_admitted [OF h admitted run [unfolded p_def tr0_def]]
  have "fst (handle ext now (CallTool toolName args) s) = Inr (ToolResult (Envelope (text_envelope t)))"
    by simp
  then show "\<exists>t. fst (handle ext now (CallTool toolName args) s)
               = Inr (ToolResult (Envelope (text_envelope t)))"
    by (rule exI)
next
  fix e' tr'
  assume "status (probe (external s) now) \<noteq> Open
        \<and> handleGetComponent_try ext (if falsy args then JObj [] else args)
              (events s @ [LogInfoParams ''Handling call_tool request''
                                   (request_params (CallTool ''get_component'' args))]) = (Inl e', tr')"
  then have admitted: "status (probe (external s) now) \<noteq> Open"
    and thrown: "handleGetComponent_try ext (if falsy args then JObj [] else args)
              (events s @ [LogInfoParams ''Handling call_tool request''
                                   (request_params (CallTool ''get_component'' args))]) = (Inl e', tr')" by simp_all
  from call_tool_admitted [OF toolHandlers_table(1) admitted handleGetComponent_fails [OF thrown]]
  show "handle ext now (CallTool ''get_component'' args) s =
          (Inr (ToolResult (Envelope (text_envelope (''Error retrieving component: '' @ errorMessage e')))),
           \<lparr>external = on_success (probe (external s) now),
            events = tr' @ [LogError ''Error in handleGetComponent'' e',
                            LogInfo ''call_tool completed successfully'']\<rparr>)"
    by simp
next
  fix e' tr'
  assume "status (probe (external s) now) \<noteq> Open
        \<and> handleGetComponentDemo_try ext (if falsy args then JObj [] else args)
              (events s @ [LogInfoParams ''Handling call_tool request''
                                   (request_params (CallTool ''get_component_demo'' args))]) = (Inl e', tr')"
  then have admitted: "status (probe (external s) now) \<noteq> Open"
    and thrown: "handleGetComponentDemo_try ext (if falsy args then JObj [] else args)
              (events s @ [LogInfoParams ''Handling call_tool request''
                                   (request_params (CallTool ''get_component_demo'' args))]) = (Inl e', tr')" by simp_all
  from call_tool_admitted [OF toolHandlers_table(2) admitted handleGetComponentDemo_fails [OF thrown]]
  show "handle ext now (CallTool ''get_component_demo'' args) s =
          (Inr (ToolResult (Envelope (text_envelope (''Error retrieving component demo: '' @ errorMessage e')))),
           \<lparr>external = on_success (probe (external s) now),
            events = tr' @ [LogError ''Error in handleGetComponentDemo'' e',
                            LogInfo ''call_tool completed successfully'']\<rparr>)"
    by simp
next
  fix e' tr'
  assume "status (probe (external s) now) \<noteq> Open
        \<and> handleListComponents_try ext (if falsy args then JObj [] else args)
              (events s @ [LogInfoParams ''Handling call_tool request''
                                   (request_params (CallTool ''list_components'' args))]) = (Inl e', tr')"
  then have admitted: "status (probe (external s) now) \<noteq> Open"
    and thrown: "handleListComponents_try ext (if falsy args then JObj [] else args)
              (events s @ [LogInfoParams ''Handling call_tool request''
                                   (request_params (CallTool ''list_components'' args))]) = (Inl e', tr')" by simp_all
  from call_tool_admitted [OF toolHandlers_table(3) admitted handleListComponents_fails [OF thrown]]
  show "handle ext now (CallTool ''list_components'' args) s =
          (Inr (ToolResult (Envelope (text_envelope (''Error listing components: '' @ errorMessage e')))),
           \<lparr>external = on_success (probe (external s) now),
            events = tr' @ [LogError ''Error in handleListComponents'' e',
                            LogInfo ''call_tool completed successfully'']\<rparr>)"
    by simp
next
  fix e' tr'
  assume "status (probe (external s) now) \<noteq> Open
        \<and> handleGetComponentMetadata_try ext (if falsy args then JObj [] else args)
              (events s @ [LogInfoParams ''Handling call_tool request''
                                   (request_params (CallTool ''get_component_metadata'' args))]) = (Inl e', tr')"
  then have admitted: "status (probe (external s) now) \<noteq> Open"
    and thrown: "handleGetComponentMetadata_try ext (if falsy args then JObj [] else args)
              (events s @ [LogInfoParams ''Handling call_tool request''
                                   (request_params (CallTool ''get_component_metadata'' args))]) = (Inl e', tr')" by simp_all
  from call_tool_admitted [OF toolHandlers_table(4) admitted handleGetComponentMetadata_fails [OF thrown]]
  show "handle ext now (CallTool ''get_component_metadata'' args) s =
          (Inr (ToolResult (Envelope (text_envelope (''Error retrieving component metadata: '' @ errorMessage e')))),
           \<lparr>external = on_success (probe (external s) now),
            events = tr' @ [LogError ''Error in handleGetComponentMetadata'' e',
                            LogInfo ''call_tool completed successfully'']\<rparr>)"
    by simp
next
  fix e' tr'
  assume "status (probe (external s) now) \<noteq> Open
        \<and> handleSearchComponents_try ext (if falsy args then JObj [] else args)
              (events s @ [LogInfoParams ''Handling call_tool request''
                                   (request_params (CallTool ''search_components'' args))]) = (Inl e', tr')"
  then have admitted: "status (probe (external s) now) \<noteq> Open"
    and thrown: "handleSearchComponents_try ext (if falsy args then JObj [] else args)
              (events s @ [LogInfoParams ''Handling call_tool request''
                                   (request_params (CallTool ''search_components'' args))]) = (Inl e', tr')" by simp_all
  from call_tool_admitted [OF toolHandlers_table(5) admitted handleSearchComponents_fails [OF thrown]]
  show "handle ext now (CallTool ''search_components'' args) s =
          (Inr (ToolResult (Envelope (text_envelope (''Error searching components: '' @ errorMessage e')))),
           \<lparr>external = on_success (probe (external s) now),
            events = tr' @ [LogError ''Error in handleSearchComponents'' e',
                            LogInfo ''call_tool completed successfully'']\<rparr>)"
    by simp
next
  show "fst (handle ext now (GetPrompt promptName args) s)
       = (case fst (get_prompt ext promptName args
                      (events s @ [LogInfoParams ''Handling get_prompt request''
                                     (request_params (GetPrompt promptName args))])) of
            Inl e' \<Rightarrow> Inl e'
          | Inr result \<Rightarrow> Inr (PromptResult result))"
    by (rule prompt_failure_reraised)
next
  show "fst (handle ext now (ReadResource uri) s)
       = (case fst (read_resource ext uri
                      (events s @ [LogInfoParams ''Handling read_resource request''
                                     (request_params (ReadResource uri))])) of
            Inl e' \<Rightarrow> Inl e'
          | Inr result \<Rightarrow> Inr (ResourceResult result))"
    by (rule resource_failure_reraised)
qed

text \<open>
  Claim C8 as stated fails: a tool request for an unknown tool and a prompt request for
  an unknown prompt are not answered with a text envelope; the error is logged and
  re-raised.
\<close>

theorem C8_tool_and_prompt_failures_reraised:
  "handle sample_externals 0 (CallTool ''no_such_tool'' JUndefined)
     \<lparr>external = fresh_breaker 5 60000, events = []\<rparr>
   = (Inl (Error ''Tool not found: no_such_tool''),
      \<lparr>external = fresh_breaker 5 60000,
       events = [LogInfoParams ''Handling call_tool request''
                   (JObj [(''name'', JStr ''no_such_tool''), (''arguments'', JUndefined)]),
                 LogError ''Error in call_tool'' (Error ''Tool not found: no_such_tool'')]\<rparr>)
   \<and> handle sample_externals 0 (GetPrompt ''no_such_prompt'' JUndefined)
       \<lparr>external = fresh_breaker 5 60000, events = []\<rparr>
     = (Inl (Error ''Prompt not found: no_such_prompt''),
        \<lparr>external = fresh_breaker 5 60000,
         events = [LogInfoParams ''Handling get_prompt request''
                     (JObj [(''name'', JStr ''no_such_prompt''), (''arguments'', JUndefined)]),
                   LogError ''Error in get_prompt'' (Error ''Prompt not found: no_such_prompt'')]\<rparr>)"
  by (simp add: handle_def handleRequest_result call_tool_def read_toolHandlers_def
      toolHandlers_def object_prototype_def get_prompt_def
      sample_externals_def js_bind_def js_throw_def in_events_def request_params_def)

theorem C8_errors_witness:
  "fst (handle sample_externals 0 (CallTool ''no_such_tool'' JUndefined)
          \<lparr>external = fresh_breaker 5 60000, events = []\<rparr>)
     = Inl (Error ''Tool not found: no_such_tool'')
   \<and> (\<exists>tr. events (snd (handle sample_externals 0 (CallTool ''no_such_tool'' JUndefined)
                          \<lparr>external = fresh_breaker 5 60000, events = []\<rparr>))
            = tr @ [LogError ''Error in call_tool'' (Error ''Tool not found: no_such_tool'')])
   \<and> fst (handle sample_externals 5 (CallTool ''list_components'' JUndefined)
            \<lparr>external = opened_breaker 3 1000 0, events = []\<rparr>)
       = Inl (CircuitOpenError circuit_open_message)
   \<and> handle sample_externals 0 (CallTool ''__proto__'' JUndefined)
         \<lparr>external = fresh_breaker 5 60000, events = []\<rparr>
       = (Inl (TypeError ''handler is not a function''),
          \<lparr>external = (fresh_breaker 5 60000)\<lparr>consecutiveFailures := 1\<rparr>,
           events = [LogInfoParams ''Handling call_tool request''
                       (request_params (CallTool ''__proto__'' JUndefined)),
                     LogError ''Error in call_tool'' (TypeError ''handler is not a function'')]\<rparr>)
   \<and> (\<exists>t. fst (handle sample_externals 0 (CallTool ''list_components'' JUndefined)
                  \<lparr>external = fresh_breaker 5 60000, events = []\<rparr>)
            = Inr (ToolResult (Envelope (text_envelope t))))
   \<and> handle sample_externals 0 (CallTool ''get_component'' (JObj []))
         \<lparr>external = fresh_breaker 5 60000, events = []\<rparr>
       = (Inr (ToolResult (Envelope (text_envelope
                 ''Error retrieving component: invalid_type at componentName;''))),
          \<lparr>external = fresh_breaker 5 60000,
           events = [LogInfoParams ''Handling call_tool request''
                       (request_params (CallTool ''get_component'' (JObj []))),
                     LogError ''Error in handleGetComponent''
                       (ZodError ''invalid_type at componentName;''),
                     LogInfo ''call_tool completed successfully'']\<rparr>)"
proof -
  let ?s = "\<lparr>external = fresh_breaker 5 60000, events = []\<rparr>"
  let ?o = "\<lparr>external = opened_breaker 3 1000 0, events = []\<rparr>"
  note C8 = C8_errors_logged_then_reraised_or_wrapped [where ext = sample_externals]
  have unknown: "read_toolHandlers sample_externals ''no_such_tool'' = None"
    by (simp add: read_toolHandlers_def toolHandlers_def object_prototype_def)
  have known: "toolHandlers sample_externals ''list_components'' \<noteq> None"
    by (simp add: toolHandlers_def)
  have read: "read_toolHandlers sample_externals ''list_components'' \<noteq> None"
    by (simp add: read_toolHandlers_def toolHandlers_def)
  have admitted: "status (probe (external ?s) 0) \<noteq> Open"
    by (simp add: fresh_breaker_def probe_def)
  have is_open: "status (probe (external ?o) 5) = Open"
    by (simp add: opened_breaker_def probe_def timeout_elapsed_def)
  have failed: "fst (handle sample_externals 0 (CallTool ''no_such_tool'' JUndefined) ?s)
                  = Inl (Error ''Tool not found: no_such_tool'')"
    using C8 [where toolName = "''no_such_tool''" and now = 0 and args = JUndefined and s = ?s,
              THEN conjunct2, THEN conjunct1] unknown
    by simp
  have logged: "\<exists>tr. events (snd (handle sample_externals 0 (CallTool ''no_such_tool'' JUndefined) ?s))
            = tr @ [LogError ''Error in call_tool'' (Error ''Tool not found: no_such_tool'')]"
    using C8 [where request = "CallTool ''no_such_tool'' JUndefined" and now = 0 and s = ?s
                and e = "Error ''Tool not found: no_such_tool''",
              THEN conjunct1] failed
    by (simp add: operation_name_def)
  have rejected: "fst (handle sample_externals 5 (CallTool ''list_components'' JUndefined) ?o)
       = Inl (CircuitOpenError circuit_open_message)"
    using C8 [where toolName = "''list_components''" and now = 5 and args = JUndefined and s = ?o,
              THEN conjunct2, THEN conjunct2, THEN conjunct1] read is_open
    by simp
  have proto: "read_toolHandlers sample_externals ''__proto__''
          = Some (\<lambda>p. js_throw (TypeError (typeErrorMessage sample_externals
                                               (NotAFunction ''handler''))))"
    by (simp add: read_toolHandlers_def toolHandlers_def object_prototype_def)
  have throws: "(\<lambda>p. js_throw (TypeError (typeErrorMessage sample_externals
                                               (NotAFunction ''handler''))))
                   (if falsy JUndefined then JObj [] else JUndefined)
                   (events ?s @ [LogInfoParams ''Handling call_tool request''
                                   (request_params (CallTool ''__proto__'' JUndefined))])
                 = (Inl (TypeError ''handler is not a function''),
                    [LogInfoParams ''Handling call_tool request''
                       (request_params (CallTool ''__proto__'' JUndefined))])"
    by (simp add: js_throw_def sample_externals_def type_error_text_def)
  have reraised: "handle sample_externals 0 (CallTool ''__proto__'' JUndefined) ?s
       = (Inl (TypeError ''handler is not a function''),
          \<lparr>external = (fresh_breaker 5 60000)\<lparr>consecutiveFailures := 1\<rparr>,
           events = [LogInfoParams ''Handling call_tool request''
                       (request_params (CallTool ''__proto__'' JUndefined)),
                     LogError ''Error in call_tool'' (TypeError ''handler is not a function'')]\<rparr>)"
    using C8 [where toolName = "''__proto__''" and now = 0 and args = JUndefined and s = ?s,
              THEN conjunct2, THEN conjunct2, THEN conjunct2, THEN conjunct1, rule_format,
              OF conjI [OF proto conjI [OF admitted throws]]]
    by (simp add: fresh_breaker_def probe_def on_failure_def)
  have never: "\<exists>t. fst (handle sample_externals 0 (CallTool ''list_components'' JUndefined) ?s)
            = Inr (ToolResult (Envelope (text_envelope t)))"
    using C8 [where toolName = "''list_components''" and now = 0 and args = JUndefined and s = ?s,
              THEN conjunct2, THEN conjunct2, THEN conjunct2, THEN conjunct2, THEN conjunct1] known admitted
    by simp
  have thrown: "handleGetComponent_try sample_externals (if falsy (JObj []) then JObj [] else JObj [])
                  (events ?s @ [LogInfoParams ''Handling call_tool request''
                                  (request_params (CallTool ''get_component'' (JObj [])))])
                = (Inl (ZodError ''invalid_type at componentName;''),
                   [LogInfoParams ''Handling call_tool request''
                      (request_params (CallTool ''get_component'' (JObj [])))])"
    by (simp add: handleGetComponent_try_def js_bind_def sample_externals_def js_return_def
        parse_componentName_def get_property_def zod_string_def zod_throw_def js_throw_def
        issue_text_def falsy_def)
  have wrapped: "handle sample_externals 0 (CallTool ''get_component'' (JObj [])) ?s
       = (Inr (ToolResult (Envelope (text_envelope
                 ''Error retrieving component: invalid_type at componentName;''))),
          \<lparr>external = fresh_breaker 5 60000,
           events = [LogInfoParams ''Handling call_tool request''
                       (request_params (CallTool ''get_component'' (JObj []))),
                     LogError ''Error in handleGetComponent''
                       (ZodError ''invalid_type at componentName;''),
                     LogInfo ''call_tool completed successfully'']\<rparr>)"
    using C8 [where now = 0 and args = "JObj []" and s = ?s,
              THEN conjunct2, THEN conjunct2, THEN conjunct2, THEN conjunct2, THEN conjunct2, THEN conjunct1, rule_format,
              OF conjI [OF admitted thrown]]
    by (simp add: errorMessage_def fresh_breaker_def probe_def on_success_def)
  show ?thesis by (intro conjI failed logged rejected reraised never wrapped)
qed

section \<open>Properties of startup\<close>

lemma parseArgs_without_flags:
  assumes "''--help'' \<notin> set args" and "''-h'' \<notin> set args"
    and "''--version'' \<notin> set args" and "''-v'' \<notin> set args"
  shows "\<exists>githubApiKey. parseArgs args token version = Inr githubApiKey"
  using assms by (simp add: parseArgs_def split: option.splits)

lemma main_serves:
  assumes "parseArgs args token version = Inr githubApiKey"
  shows "\<exists>tr'. main ext args token version tr = (Serving (handle ext), tr')"
  using assms
  by (simp add: main_def setupHandlers_def js_bind_def logInfo_def emit_def js_return_def)

text \<open>
  Claim C10. Take two runs whose arguments hold no help or version flag (those print and
  exit before anything is served); the arguments and the environment token may differ in
  any other way, in particular in the presence and the value of the credential. Both
  runs start without error and serve requests, and every request gets the same response
  in the same server state: the credential is logged at most, and never handed to the
  request handlers.
\<close>

theorem C10_credential_noninterference:
  assumes "''--help'' \<notin> set args1" and "''-h'' \<notin> set args1"
    and "''--version'' \<notin> set args1" and "''-v'' \<notin> set args1"
    and "''--help'' \<notin> set args2" and "''-h'' \<notin> set args2"
    and "''--version'' \<notin> set args2" and "''-v'' \<notin> set args2"
  shows "\<exists>serve1 serve2 tr1 tr2.
           main ext args1 token1 version tr = (Serving serve1, tr1)
         \<and> main ext args2 token2 version tr = (Serving serve2, tr2)
         \<and> (\<forall>now request s. serve1 now request s = serve2 now request s)"
proof -
  from parseArgs_without_flags [OF assms(1-4)] obtain k1
    where "parseArgs args1 token1 version = Inr k1" by blast
  from main_serves [OF this] obtain tr1
    where m1: "main ext args1 token1 version tr = (Serving (handle ext), tr1)" by blast
  from parseArgs_without_flags [OF assms(5-8)] obtain k2
    where "parseArgs args2 token2 version = Inr k2" by blast
  from main_serves [OF this] obtain tr2
    where m2: "main ext args2 token2 version tr = (Serving (handle ext), tr2)" by blast
  from m1 m2 show ?thesis by blast
qed

theorem C10_credential_witness:
  "''--help'' \<notin> set [''-g'', ''ghp_token''] \<and> ''-h'' \<notin> set [''-g'', ''ghp_token'']
   \<and> ''--version'' \<notin> set [''-g'', ''ghp_token''] \<and> ''-v'' \<notin> set [''-g'', ''ghp_token'']
   \<and> parseArgs [''-g'', ''ghp_token''] None None = Inr (Some ''ghp_token'')
   \<and> parseArgs [] (Some ''ghp_from_env'') None = Inr (Some ''ghp_from_env'')
   \<and> parseArgs [] None None = Inr None
   \<and> (\<exists>serve1 serve2 tr1 tr2.
         main sample_externals [''-g'', ''ghp_token''] None None [] = (Serving serve1, tr1)
       \<and> main sample_externals [] None None [] = (Serving serve2, tr2)
       \<and> (\<forall>now request s. serve1 now request s = serve2 now request s))"
proof -
  have a: "''--help'' \<notin> set [''-g'', ''ghp_token'']" "''-h'' \<notin> set [''-g'', ''ghp_token'']"
    "''--version'' \<notin> set [''-g'', ''ghp_token'']" "''-v'' \<notin> set [''-g'', ''ghp_token'']"
    by simp_all
  have b: "''--help'' \<notin> set ([] :: string list)" "''-h'' \<notin> set ([] :: string list)"
    "''--version'' \<notin> set ([] :: string list)" "''-v'' \<notin> set ([] :: string list)"
    by simp_all
  have p1: "parseArgs [''-g'', ''ghp_token''] None None = Inr (Some ''ghp_token'')"
    by (simp add: parseArgs_def element_at_def truthy_string_def)
  have p2: "parseArgs [] (Some ''ghp_from_env'') None = Inr (Some ''ghp_from_env'')"
    by (simp add: parseArgs_def truthy_string_def)
  have p3: "parseArgs [] None None = Inr None"
    by (simp add: parseArgs_def truthy_string_def)
  note C10_credential_noninterference [OF a b, of sample_externals None None "[]" None]
  with a p1 p2 p3 show ?thesis by (intro conjI)
qed

end
